theory Spec2Isabelle
  imports Main "HOL-Library.Word"
begin

unbundle bit_operations_syntax

section \<open>MachO/arm64 JIT linker: data model\<close>

text \<open>
  The development follows \<^verbatim>\<open>llvm/lib/ExecutionEngine/JITLink/MachO_arm64.cpp\<close>.
  Machine integers are words of the width the C++ gives them, so every addition and
  subtraction wraps as it does there.
\<close>

type_synonym u8 = "8 word"
type_synonym u32 = "32 word"
type_synonym u64 = "64 word"
type_synonym JITTargetAddress = "64 word"

text \<open>
  The edge kinds of \<^verbatim>\<open>MachO_arm64_Edges\<close>. The header that declares the enumeration is
  not among the sources; the constructors are the kinds the source file names.
\<close>

datatype MachOARM64RelocationKind =
    Branch26 | Pointer32 | Pointer64 | Pointer64Anon
  | Page21 | PageOffset12 | GOTPage21 | GOTPageOffset12 | PointerToGOT
  | PairedAddend | LDRLiteral19
  | Delta32 | Delta64 | NegDelta32 | NegDelta64

text \<open>
  \<^verbatim>\<open>MachO::relocation_info\<close>: a 32-bit \<^verbatim>\<open>r_address\<close> followed by the bit fields
  \<^verbatim>\<open>r_symbolnum:24, r_pcrel:1, r_extern:1, r_length:2, r_type:4\<close>.
\<close>

record relocation_info =
  r_address :: "32 word"
  r_symbolnum :: "24 word"
  r_pcrel :: bool
  r_extern :: bool
  r_length :: "2 word"
  r_type :: "4 word"

text \<open>
  Modelled from the spec: the numbering of the Mach-O arm64 relocation types
  (\<^verbatim>\<open>MachO::ARM64_RELOC_*\<close>, declared in a header that is not among the sources), as
  given in the first column of the decoding table of section 6.1.
\<close>

definition ARM64_RELOC_UNSIGNED :: "4 word" where "ARM64_RELOC_UNSIGNED = 0"
definition ARM64_RELOC_SUBTRACTOR :: "4 word" where "ARM64_RELOC_SUBTRACTOR = 1"
definition ARM64_RELOC_BRANCH26 :: "4 word" where "ARM64_RELOC_BRANCH26 = 2"
definition ARM64_RELOC_PAGE21 :: "4 word" where "ARM64_RELOC_PAGE21 = 3"
definition ARM64_RELOC_PAGEOFF12 :: "4 word" where "ARM64_RELOC_PAGEOFF12 = 4"
definition ARM64_RELOC_GOT_LOAD_PAGE21 :: "4 word" where "ARM64_RELOC_GOT_LOAD_PAGE21 = 5"
definition ARM64_RELOC_GOT_LOAD_PAGEOFF12 :: "4 word" where "ARM64_RELOC_GOT_LOAD_PAGEOFF12 = 6"
definition ARM64_RELOC_POINTER_TO_GOT :: "4 word" where "ARM64_RELOC_POINTER_TO_GOT = 7"
definition ARM64_RELOC_ADDEND :: "4 word" where "ARM64_RELOC_ADDEND = 10"

lemmas ARM64_RELOC_defs =
  ARM64_RELOC_UNSIGNED_def ARM64_RELOC_SUBTRACTOR_def ARM64_RELOC_BRANCH26_def
  ARM64_RELOC_PAGE21_def ARM64_RELOC_PAGEOFF12_def ARM64_RELOC_GOT_LOAD_PAGE21_def
  ARM64_RELOC_GOT_LOAD_PAGEOFF12_def ARM64_RELOC_POINTER_TO_GOT_def ARM64_RELOC_ADDEND_def

subsection \<open>Bytes\<close>

text \<open>
  Block content and working memory are byte lists. The \<^verbatim>\<open>support::ulittle32_t\<close> family
  reads and writes little-endian values through a pointer; a pointer is a byte list with
  an offset. The C++ does not check the offset: an access outside the buffer is undefined
  behaviour there and the value \<open>None\<close> here.
\<close>

fun le_bytes :: "nat \<Rightarrow> 'a::len word \<Rightarrow> u8 list" where
  "le_bytes 0 w = []"
| "le_bytes (Suc n) w = ucast w # le_bytes n (drop_bit 8 w)"

fun le_word :: "u8 list \<Rightarrow> 'a::len word" where
  "le_word [] = 0"
| "le_word (b # bs) = ucast b OR push_bit 8 (le_word bs)"

definition read_bytes :: "u8 list \<Rightarrow> nat \<Rightarrow> nat \<Rightarrow> u8 list option" where
  "read_bytes mem off n =
     (if off + n \<le> length mem then Some (take n (drop off mem)) else None)"

definition write_bytes :: "u8 list \<Rightarrow> nat \<Rightarrow> u8 list \<Rightarrow> u8 list option" where
  "write_bytes mem off bs =
     (if off + length bs \<le> length mem
      then Some (take off mem @ bs @ drop (off + length bs) mem) else None)"

definition read_ulittle32 :: "u8 list \<Rightarrow> nat \<Rightarrow> u32 option" where
  "read_ulittle32 mem off = map_option le_word (read_bytes mem off 4)"

definition read_ulittle64 :: "u8 list \<Rightarrow> nat \<Rightarrow> u64 option" where
  "read_ulittle64 mem off = map_option le_word (read_bytes mem off 8)"

definition write_ulittle32 :: "u8 list \<Rightarrow> nat \<Rightarrow> u32 \<Rightarrow> u8 list option" where
  "write_ulittle32 mem off v = write_bytes mem off (le_bytes 4 v)"

definition write_ulittle64 :: "u8 list \<Rightarrow> nat \<Rightarrow> u64 \<Rightarrow> u8 list option" where
  "write_ulittle64 mem off v = write_bytes mem off (le_bytes 8 v)"

subsection \<open>The link graph\<close>

text \<open>
  Modelled from the spec: the link graph of section 3, whose classes
  (\<^verbatim>\<open>Addressable\<close>, \<^verbatim>\<open>Block\<close>, \<^verbatim>\<open>Symbol\<close>, \<^verbatim>\<open>Edge\<close>, \<^verbatim>\<open>Section\<close>, \<^verbatim>\<open>LinkGraph\<close>) are
  declared in a header that is not among the sources. Objects live in stores indexed by
  references (natural numbers), so that two references are equal exactly when the C++
  pointers are, and retargeting an edge or moving a block is an update of the store.
  A block is an addressable that is defined and has a section, content and edges; an
  addressable that is not a block (an external or absolute symbol's) has \<open>IsDefined\<close>
  false and the block fields unused.
\<close>

type_synonym SymbolRef = nat
type_synonym AddressableRef = nat
type_synonym SectionRef = nat

record Edge =
  getKind :: MachOARM64RelocationKind
  getOffset :: "32 word"
  getTarget :: SymbolRef
  getAddend :: "64 word"

record Addressable =
  Address :: JITTargetAddress
  IsDefined :: bool
  Section :: SectionRef
  Content :: "u8 list"
  Alignment :: "64 word"
  AlignmentOffset :: "64 word"
  Edges :: "Edge list"

record Symbol =
  Name :: "string option"
  Base :: AddressableRef
  SymOffset :: JITTargetAddress
  Size :: JITTargetAddress
  IsCallable :: bool
  IsLive :: bool

datatype ProtectionFlag = MF_READ | MF_WRITE | MF_EXEC

record LinkGraph =
  Sections :: "(string \<times> ProtectionFlag set) list"
  Addressables :: "AddressableRef \<Rightarrow> Addressable"
  NumAddressables :: nat
  Blocks :: "AddressableRef list"
  Symbols :: "SymbolRef \<Rightarrow> Symbol"
  NumSymbols :: nat

text \<open>Modelled from the spec: \<open>address = block.address + offset\<close> (section 3, Symbol).\<close>

definition getAddress :: "LinkGraph \<Rightarrow> SymbolRef \<Rightarrow> JITTargetAddress" where
  "getAddress G s = Address (Addressables G (Base (Symbols G s))) + SymOffset (Symbols G s)"

text \<open>Modelled from the spec: a symbol is defined when its addressable is (section 3).\<close>

definition isDefined :: "LinkGraph \<Rightarrow> SymbolRef \<Rightarrow> bool" where
  "isDefined G s = IsDefined (Addressables G (Base (Symbols G s)))"

text \<open>Modelled from the spec: the addressable of a symbol, and its block (section 3).\<close>

definition getAddressable :: "LinkGraph \<Rightarrow> SymbolRef \<Rightarrow> AddressableRef" where
  "getAddressable G s = Base (Symbols G s)"

definition getBlock :: "LinkGraph \<Rightarrow> SymbolRef \<Rightarrow> AddressableRef" where
  "getBlock G s = Base (Symbols G s)"

text \<open>
  Modelled from the spec: the graph mutation API of section 3 (factories for sections,
  content blocks and anonymous symbols, and adding an edge to a block). A new object
  takes the next free reference; a new block is appended to the graph's block list.
\<close>

definition createSection ::
  "LinkGraph \<Rightarrow> string \<Rightarrow> ProtectionFlag set \<Rightarrow> LinkGraph \<times> SectionRef" where
  "createSection G name prot =
     (G\<lparr>Sections := Sections G @ [(name, prot)]\<rparr>, length (Sections G))"

definition createContentBlock ::
  "LinkGraph \<Rightarrow> SectionRef \<Rightarrow> u8 list \<Rightarrow> JITTargetAddress \<Rightarrow> 64 word \<Rightarrow> 64 word
     \<Rightarrow> LinkGraph \<times> AddressableRef" where
  "createContentBlock G sec content address alignment alignmentOffset =
     (let b = NumAddressables G in
      (G\<lparr>Addressables := (Addressables G)
            (b := \<lparr>Address = address, IsDefined = True, Section = sec, Content = content,
                   Alignment = alignment, AlignmentOffset = alignmentOffset, Edges = []\<rparr>),
         NumAddressables := Suc b,
         Blocks := Blocks G @ [b]\<rparr>, b))"

definition addEdge ::
  "LinkGraph \<Rightarrow> AddressableRef \<Rightarrow> MachOARM64RelocationKind \<Rightarrow> 32 word \<Rightarrow> SymbolRef
     \<Rightarrow> 64 word \<Rightarrow> LinkGraph" where
  "addEdge G b K off T A =
     G\<lparr>Addressables := (Addressables G)
          (b := (Addressables G b)
             \<lparr>Edges := Edges (Addressables G b)
                 @ [\<lparr>getKind = K, getOffset = off, getTarget = T, getAddend = A\<rparr>]\<rparr>)\<rparr>"

definition addAnonymousSymbol ::
  "LinkGraph \<Rightarrow> AddressableRef \<Rightarrow> JITTargetAddress \<Rightarrow> JITTargetAddress \<Rightarrow> bool \<Rightarrow> bool
     \<Rightarrow> LinkGraph \<times> SymbolRef" where
  "addAnonymousSymbol G b offset sz isCallable isLive =
     (let s = NumSymbols G in
      (G\<lparr>Symbols := (Symbols G)
            (s := \<lparr>Name = None, Base = b, SymOffset = offset, Size = sz,
                   IsCallable = isCallable, IsLive = isLive\<rparr>),
         NumSymbols := Suc s\<rparr>, s))"

subsection \<open>Failures\<close>

text \<open>
  Every \<^verbatim>\<open>make_error<JITLinkError>(...)\<close> of the source is one constructor of
  \<open>JITLinkError\<close>, named after its message; the constructor's arguments are the values the
  message is formatted from. Errors of the symbol lookups, which the source only passes
  on, are \<open>SymbolLookupError\<close>.
\<close>

datatype JITLinkError =
    Unsupported_arm64_relocation relocation_info
  | SUBTRACTOR_without_paired_UNSIGNED
  | SUBTRACTOR_and_UNSIGNED_different_addresses
  | SUBTRACTOR_and_UNSIGNED_length_mismatch
  | SUBTRACTOR_must_fix_up_A_or_B
  | Relocation_content_extends_past_end_of_fixup_block
  | Unpaired_Addend_reloc JITTargetAddress
  | Invalid_relocation_pair_Addend MachOARM64RelocationKind
  | Paired_relocation_points_at_different_target
  | BRANCH26_target_is_not_B_or_BL
  | PAGE21_target_is_not_ADRP
  | GOTPAGEOFF12_target_is_not_LDR
  | Relocation_target_out_of_range AddressableRef Edge
  | Branch26_target_not_32bit_aligned
  | PAGEOFF12_target_not_aligned
  | LDR_literal_target_not_32bit_aligned
  | SymbolLookupError string

text \<open>
  What a call can end in besides its result: an error that fails the link, a failed
  \<^verbatim>\<open>assert\<close> (which aborts the process, in builds with assertions), a reached
  \<^verbatim>\<open>llvm_unreachable\<close>, or a memory access outside a buffer (undefined behaviour in the
  C++, made a value here so that no theorem can rely on it).
\<close>

datatype Failure =
    Error JITLinkError
  | AssertionFailed string
  | Unreachable string
  | OutOfBoundsAccess

text \<open>
  \<^verbatim>\<open>assert(c && msg)\<close>, followed by the rest of the function. The first argument
  is the build configuration: with \<^verbatim>\<open>NDEBUG\<close> defined the assertion is compiled out.
\<close>

definition assert :: "bool \<Rightarrow> bool \<Rightarrow> string \<Rightarrow> (Failure + 'a) \<Rightarrow> Failure + 'a" where
  "assert NDEBUG c msg rest = (if \<not> NDEBUG \<and> \<not> c then Inl (AssertionFailed msg) else rest)"

text \<open>
  Loading and storing through a pointer (a buffer and an offset into it), as a step of a
  computation that can fail.
\<close>

definition store32 :: "u8 list \<Rightarrow> nat \<Rightarrow> u32 \<Rightarrow> Failure + u8 list" where
  "store32 mem off v =
     (case write_ulittle32 mem off v of None \<Rightarrow> Inl OutOfBoundsAccess | Some mem' \<Rightarrow> Inr mem')"

definition store64 :: "u8 list \<Rightarrow> nat \<Rightarrow> u64 \<Rightarrow> Failure + u8 list" where
  "store64 mem off v =
     (case write_ulittle64 mem off v of None \<Rightarrow> Inl OutOfBoundsAccess | Some mem' \<Rightarrow> Inr mem')"

definition load32 :: "u8 list \<Rightarrow> nat \<Rightarrow> (u32 \<Rightarrow> Failure + 'a) \<Rightarrow> Failure + 'a" where
  "load32 mem off rest =
     (case read_ulittle32 mem off of None \<Rightarrow> Inl OutOfBoundsAccess | Some v \<Rightarrow> rest v)"

definition load64 :: "u8 list \<Rightarrow> nat \<Rightarrow> (u64 \<Rightarrow> Failure + 'a) \<Rightarrow> Failure + 'a" where
  "load64 mem off rest =
     (case read_ulittle64 mem off of None \<Rightarrow> Inl OutOfBoundsAccess | Some v \<Rightarrow> rest v)"

text \<open>
  A call whose failure the caller passes on
  (\<^verbatim>\<open>if (!X) return X.takeError();\<close>), followed by the rest of the function.
\<close>

definition and_then :: "Failure + 'a \<Rightarrow> ('a \<Rightarrow> Failure + 'b) \<Rightarrow> Failure + 'b" where
  "and_then m rest = (case m of Inl f \<Rightarrow> Inl f | Inr x \<Rightarrow> rest x)"

text \<open>
  Modelled from the spec: the error taxonomy of section 7, which sorts the messages of
  the source into kinds (the source has the single error class \<^verbatim>\<open>JITLinkError\<close>).
\<close>

datatype ErrorKind =
  BadRelocation | MissingSymbol | BadInstr | ExtentOverflow | OutOfRange | Misalignment

fun errorKind :: "JITLinkError \<Rightarrow> ErrorKind" where
  "errorKind (Unsupported_arm64_relocation RI) = BadRelocation"
| "errorKind SUBTRACTOR_without_paired_UNSIGNED = BadRelocation"
| "errorKind SUBTRACTOR_and_UNSIGNED_different_addresses = BadRelocation"
| "errorKind SUBTRACTOR_and_UNSIGNED_length_mismatch = BadRelocation"
| "errorKind SUBTRACTOR_must_fix_up_A_or_B = BadRelocation"
| "errorKind Relocation_content_extends_past_end_of_fixup_block = ExtentOverflow"
| "errorKind (Unpaired_Addend_reloc a) = BadRelocation"
| "errorKind (Invalid_relocation_pair_Addend k) = BadRelocation"
| "errorKind Paired_relocation_points_at_different_target = BadRelocation"
| "errorKind BRANCH26_target_is_not_B_or_BL = BadInstr"
| "errorKind PAGE21_target_is_not_ADRP = BadInstr"
| "errorKind GOTPAGEOFF12_target_is_not_LDR = BadInstr"
| "errorKind (Relocation_target_out_of_range B E) = OutOfRange"
| "errorKind Branch26_target_not_32bit_aligned = Misalignment"
| "errorKind PAGEOFF12_target_not_aligned = Misalignment"
| "errorKind LDR_literal_target_not_32bit_aligned = Misalignment"
| "errorKind (SymbolLookupError m) = MissingSymbol"

section \<open>The relocation parser\<close>

text \<open>\<^verbatim>\<open>getRelocationKind\<close>: the \<^verbatim>\<open>switch\<close> on \<^verbatim>\<open>RI.r_type\<close>, case by case.\<close>

definition getRelocationKind :: "relocation_info \<Rightarrow> Failure + MachOARM64RelocationKind" where
  "getRelocationKind RI =
     (let unsupported = Inl (Error (Unsupported_arm64_relocation RI)) in
      if r_type RI = ARM64_RELOC_UNSIGNED then
        (if \<not> r_pcrel RI then
           (if r_length RI = 3 then Inr (if r_extern RI then Pointer64 else Pointer64Anon)
            else if r_length RI = 2 then Inr Pointer32
            else unsupported)
         else unsupported)
      else if r_type RI = ARM64_RELOC_SUBTRACTOR then
        (if \<not> r_pcrel RI \<and> r_extern RI then
           (if r_length RI = 2 then Inr Delta32
            else if r_length RI = 3 then Inr Delta64
            else unsupported)
         else unsupported)
      else if r_type RI = ARM64_RELOC_BRANCH26 then
        (if r_pcrel RI \<and> r_extern RI \<and> r_length RI = 2 then Inr Branch26 else unsupported)
      else if r_type RI = ARM64_RELOC_PAGE21 then
        (if r_pcrel RI \<and> r_extern RI \<and> r_length RI = 2 then Inr Page21 else unsupported)
      else if r_type RI = ARM64_RELOC_PAGEOFF12 then
        (if \<not> r_pcrel RI \<and> r_extern RI \<and> r_length RI = 2 then Inr PageOffset12
         else unsupported)
      else if r_type RI = ARM64_RELOC_GOT_LOAD_PAGE21 then
        (if r_pcrel RI \<and> r_extern RI \<and> r_length RI = 2 then Inr GOTPage21 else unsupported)
      else if r_type RI = ARM64_RELOC_GOT_LOAD_PAGEOFF12 then
        (if \<not> r_pcrel RI \<and> r_extern RI \<and> r_length RI = 2 then Inr GOTPageOffset12
         else unsupported)
      else if r_type RI = ARM64_RELOC_POINTER_TO_GOT then
        (if r_pcrel RI \<and> r_extern RI \<and> r_length RI = 2 then Inr PointerToGOT
         else unsupported)
      else if r_type RI = ARM64_RELOC_ADDEND then
        (if \<not> r_pcrel RI \<and> \<not> r_extern RI \<and> r_length RI = 2 then Inr PairedAddend
         else unsupported)
      else unsupported)"

text \<open>
  The decoding table of section 6.1 of the specification, row by row, as a partial
  function on the quadruple \<open>(r_type, r_pcrel, r_extern, r_length)\<close>; written from the
  specification, to be compared with \<open>getRelocationKind\<close>.
\<close>

fun spec_decoding_table ::
  "nat \<times> bool \<times> bool \<times> nat \<Rightarrow> MachOARM64RelocationKind option" where
  "spec_decoding_table (t, pcrel, extern, len) =
     (if t = 0 \<and> \<not> pcrel \<and> extern \<and> len = 3 then Some Pointer64
      else if t = 0 \<and> \<not> pcrel \<and> \<not> extern \<and> len = 3 then Some Pointer64Anon
      else if t = 0 \<and> \<not> pcrel \<and> len = 2 then Some Pointer32
      else if t = 1 \<and> \<not> pcrel \<and> extern \<and> len = 2 then Some Delta32
      else if t = 1 \<and> \<not> pcrel \<and> extern \<and> len = 3 then Some Delta64
      else if t = 2 \<and> pcrel \<and> extern \<and> len = 2 then Some Branch26
      else if t = 3 \<and> pcrel \<and> extern \<and> len = 2 then Some Page21
      else if t = 4 \<and> \<not> pcrel \<and> extern \<and> len = 2 then Some PageOffset12
      else if t = 5 \<and> pcrel \<and> extern \<and> len = 2 then Some GOTPage21
      else if t = 6 \<and> \<not> pcrel \<and> extern \<and> len = 2 then Some GOTPageOffset12
      else if t = 7 \<and> pcrel \<and> extern \<and> len = 2 then Some PointerToGOT
      else if t = 10 \<and> \<not> pcrel \<and> \<not> extern \<and> len = 2 then Some PairedAddend
      else None)"

text \<open>
  What the parser takes from its base class \<^verbatim>\<open>MachOLinkGraphBuilder\<close>, which is not
  among the sources: the two symbol lookups (by symbol table index and by address; both
  may fail, and the parser passes the failure on), given as parameters.
\<close>

record MachOLinkGraphBuilder =
  findSymbolByIndex :: "32 word \<Rightarrow> Failure + SymbolRef"
  findSymbolByAddress :: "JITTargetAddress \<Rightarrow> Failure + SymbolRef"

text \<open>
  A relocation iterator is the part of the section's relocation stream that starts at
  the iterator's position: \<^verbatim>\<open>RelItr == RelEnd\<close> is \<open>RelItr = []\<close> and \<^verbatim>\<open>++RelItr\<close> is
  \<open>tl RelItr\<close>. \<^verbatim>\<open>getRelocationInfo\<close> reads the record at the iterator's position; at
  the end of the stream there is none, and the C++ reads past the end of the table.
\<close>

definition getRelocationInfo :: "relocation_info list \<Rightarrow> Failure + relocation_info" where
  "getRelocationInfo RelItr =
     (case RelItr of [] \<Rightarrow> Inl OutOfBoundsAccess | RI # rest \<Rightarrow> Inr RI)"

text \<open>
  The current fixup value of \<^verbatim>\<open>parsePairRelocation\<close>: \<^verbatim>\<open>little64_t\<close> or \<^verbatim>\<open>little32_t\<close>
  (signed) by \<^verbatim>\<open>r_length\<close>, converted to \<^verbatim>\<open>uint64_t\<close>. \<open>FixupContent\<close> is a pointer into
  the block's content: the content and an offset.
\<close>

definition readFixupValue :: "2 word \<Rightarrow> u8 list \<times> nat \<Rightarrow> Failure + u64" where
  "readFixupValue len FixupContent =
     (if len = 3 then load64 (fst FixupContent) (snd FixupContent) (\<lambda>v. Inr v)
      else load32 (fst FixupContent) (snd FixupContent) (\<lambda>v. Inr (scast v)))"

definition parsePairRelocation ::
  "bool \<Rightarrow> MachOLinkGraphBuilder \<Rightarrow> LinkGraph \<Rightarrow> AddressableRef
     \<Rightarrow> MachOARM64RelocationKind \<Rightarrow> relocation_info \<Rightarrow> JITTargetAddress \<Rightarrow> u8 list \<times> nat
     \<Rightarrow> relocation_info list
     \<Rightarrow> Failure + (MachOARM64RelocationKind \<times> SymbolRef \<times> u64)" where
  "parsePairRelocation NDEBUG Bld G BlockToFix SubtractorKind SubRI FixupAddress FixupContent
       UnsignedRelItr =
     assert NDEBUG ((SubtractorKind = Delta32 \<and> r_length SubRI = 2) \<or>
                    (SubtractorKind = Delta64 \<and> r_length SubRI = 3))
       ''Subtractor kind should match length''
     (assert NDEBUG (r_extern SubRI) ''SUBTRACTOR reloc symbol should be extern''
     (assert NDEBUG (\<not> r_pcrel SubRI) ''SUBTRACTOR reloc should not be PCRel''
     (if UnsignedRelItr = [] then Inl (Error SUBTRACTOR_without_paired_UNSIGNED)
      else and_then (getRelocationInfo UnsignedRelItr) (\<lambda>UnsignedRI.
        if r_address SubRI \<noteq> r_address UnsignedRI
          then Inl (Error SUBTRACTOR_and_UNSIGNED_different_addresses)
        else if r_length SubRI \<noteq> r_length UnsignedRI
          then Inl (Error SUBTRACTOR_and_UNSIGNED_length_mismatch)
        else
          and_then (findSymbolByIndex Bld (ucast (r_symbolnum SubRI))) (\<lambda>FromSymbol.
          and_then (readFixupValue (r_length SubRI) FixupContent) (\<lambda>FixupValue0.
          and_then
            (if r_extern UnsignedRI then
               and_then (findSymbolByIndex Bld (ucast (r_symbolnum UnsignedRI)))
                 (\<lambda>ToSymbol. Inr (ToSymbol, FixupValue0))
             else
               and_then (findSymbolByAddress Bld FixupValue0)
                 (\<lambda>ToSymbol. Inr (ToSymbol, FixupValue0 - getAddress G ToSymbol)))
            (\<lambda>(ToSymbol, FixupValue).
              if BlockToFix = getAddressable G FromSymbol then
                Inr (if r_length SubRI = 3 then Delta64 else Delta32, ToSymbol,
                     FixupValue + (FixupAddress - getAddress G FromSymbol))
              else if BlockToFix = getAddressable G ToSymbol then
                Inr (if r_length SubRI = 3 then NegDelta64 else NegDelta32, FromSymbol,
                     FixupValue - (FixupAddress - getAddress G ToSymbol))
              else Inl (Error SUBTRACTOR_must_fix_up_A_or_B))))))))"

text \<open>
  \<^verbatim>\<open>addRelocations\<close>, the body of the loop over a section's relocations, in three parts:
  the \<^verbatim>\<open>if (*Kind == PairedAddend)\<close> block, the \<^verbatim>\<open>switch (*Kind)\<close>, and the whole body,
  which returns the graph with the new edge and the iterator as the body leaves it.
\<close>

definition addRelocations_PairedAddend ::
  "JITTargetAddress \<Rightarrow> JITTargetAddress \<Rightarrow> relocation_info \<Rightarrow> relocation_info list
     \<Rightarrow> Failure + (relocation_info \<times> MachOARM64RelocationKind \<times> u64 \<times> relocation_info list)" where
  "addRelocations_PairedAddend SectionAddress FixupAddress RI0 RelItr0 =
     (let Addend = (ucast (r_symbolnum RI0) :: u64) in
      if RelItr0 = [] then Inl (Error (Unpaired_Addend_reloc FixupAddress))
      else
        (let RelItr = tl RelItr0 in
         and_then (getRelocationInfo RelItr) (\<lambda>RI.
         and_then (getRelocationKind RI) (\<lambda>Kind.
           if Kind \<noteq> Branch26 \<and> Kind \<noteq> Page21 \<and> Kind \<noteq> PageOffset12
             then Inl (Error (Invalid_relocation_pair_Addend Kind))
           else
             (let PairedFixupAddress = SectionAddress + ucast (r_address RI) in
              if PairedFixupAddress \<noteq> FixupAddress
                then Inl (Error Paired_relocation_points_at_different_target)
              else Inr (RI, Kind, Addend, RelItr))))))"

definition addRelocations_switch ::
  "bool \<Rightarrow> MachOLinkGraphBuilder \<Rightarrow> LinkGraph \<Rightarrow> AddressableRef \<Rightarrow> MachOARM64RelocationKind
     \<Rightarrow> relocation_info \<Rightarrow> JITTargetAddress \<Rightarrow> u8 list \<times> nat \<Rightarrow> u64 \<Rightarrow> relocation_info list
     \<Rightarrow> Failure + (MachOARM64RelocationKind \<times> SymbolRef \<times> u64 \<times> relocation_info list)" where
  "addRelocations_switch NDEBUG Bld G BlockToFix Kind RI FixupAddress FixupContent Addend RelItr =
     (case Kind of
        Branch26 \<Rightarrow>
          and_then (findSymbolByIndex Bld (ucast (r_symbolnum RI))) (\<lambda>TargetSymbol.
          load32 (fst FixupContent) (snd FixupContent) (\<lambda>Instr.
            if Instr AND 0x7fffffff \<noteq> 0x14000000
              then Inl (Error BRANCH26_target_is_not_B_or_BL)
            else Inr (Kind, TargetSymbol, Addend, RelItr)))
      | Pointer32 \<Rightarrow>
          and_then (findSymbolByIndex Bld (ucast (r_symbolnum RI))) (\<lambda>TargetSymbol.
          load32 (fst FixupContent) (snd FixupContent) (\<lambda>v.
            Inr (Kind, TargetSymbol, ucast v, RelItr)))
      | Pointer64 \<Rightarrow>
          and_then (findSymbolByIndex Bld (ucast (r_symbolnum RI))) (\<lambda>TargetSymbol.
          load64 (fst FixupContent) (snd FixupContent) (\<lambda>v.
            Inr (Kind, TargetSymbol, v, RelItr)))
      | Pointer64Anon \<Rightarrow>
          load64 (fst FixupContent) (snd FixupContent) (\<lambda>TargetAddress.
          and_then (findSymbolByAddress Bld TargetAddress) (\<lambda>TargetSymbol.
            Inr (Kind, TargetSymbol, TargetAddress - getAddress G TargetSymbol, RelItr)))
      | Page21 \<Rightarrow>
          and_then (findSymbolByIndex Bld (ucast (r_symbolnum RI))) (\<lambda>TargetSymbol.
          load32 (fst FixupContent) (snd FixupContent) (\<lambda>Instr.
            if Instr AND 0xffffffe0 \<noteq> 0x90000000
              then Inl (Error PAGE21_target_is_not_ADRP)
            else Inr (Kind, TargetSymbol, Addend, RelItr)))
      | GOTPage21 \<Rightarrow>
          and_then (findSymbolByIndex Bld (ucast (r_symbolnum RI))) (\<lambda>TargetSymbol.
          load32 (fst FixupContent) (snd FixupContent) (\<lambda>Instr.
            if Instr AND 0xffffffe0 \<noteq> 0x90000000
              then Inl (Error PAGE21_target_is_not_ADRP)
            else Inr (Kind, TargetSymbol, Addend, RelItr)))
      | PageOffset12 \<Rightarrow>
          and_then (findSymbolByIndex Bld (ucast (r_symbolnum RI))) (\<lambda>TargetSymbol.
            Inr (Kind, TargetSymbol, Addend, RelItr))
      | GOTPageOffset12 \<Rightarrow>
          and_then (findSymbolByIndex Bld (ucast (r_symbolnum RI))) (\<lambda>TargetSymbol.
          load32 (fst FixupContent) (snd FixupContent) (\<lambda>Instr.
            if Instr AND 0xfffffc00 \<noteq> 0xf9400000
              then Inl (Error GOTPAGEOFF12_target_is_not_LDR)
            else Inr (Kind, TargetSymbol, Addend, RelItr)))
      | PointerToGOT \<Rightarrow>
          and_then (findSymbolByIndex Bld (ucast (r_symbolnum RI))) (\<lambda>TargetSymbol.
            Inr (Kind, TargetSymbol, Addend, RelItr))
      | Delta32 \<Rightarrow>
          and_then (parsePairRelocation NDEBUG Bld G BlockToFix Kind RI FixupAddress
                      FixupContent (tl RelItr))
            (\<lambda>(DeltaKind, TargetSymbol, PairAddend).
               Inr (DeltaKind, TargetSymbol, PairAddend, tl RelItr))
      | Delta64 \<Rightarrow>
          and_then (parsePairRelocation NDEBUG Bld G BlockToFix Kind RI FixupAddress
                      FixupContent (tl RelItr))
            (\<lambda>(DeltaKind, TargetSymbol, PairAddend).
               Inr (DeltaKind, TargetSymbol, PairAddend, tl RelItr))
      | _ \<Rightarrow> Inl (Unreachable ''Special relocation kind should not appear in mach-o file''))"

definition addRelocations_body ::
  "bool \<Rightarrow> MachOLinkGraphBuilder \<Rightarrow> JITTargetAddress \<Rightarrow> relocation_info list \<Rightarrow> LinkGraph
     \<Rightarrow> Failure + (LinkGraph \<times> relocation_info list)" where
  "addRelocations_body NDEBUG Bld SectionAddress RelItr0 G =
     and_then (getRelocationInfo RelItr0) (\<lambda>RI0.
     and_then (getRelocationKind RI0) (\<lambda>Kind0.
     let FixupAddress = SectionAddress + ucast (r_address RI0) in
     and_then (findSymbolByAddress Bld FixupAddress) (\<lambda>SymbolToFix.
     let BlockToFix = getBlock G SymbolToFix;
         BlockAddress = Address (Addressables G BlockToFix);
         BlockContent = Content (Addressables G BlockToFix) in
     if FixupAddress + push_bit (unat (r_length RI0)) 1
          > BlockAddress + of_nat (length BlockContent)
       then Inl (Error Relocation_content_extends_past_end_of_fixup_block)
     else
       (let FixupContent = (BlockContent, unat (FixupAddress - BlockAddress)) in
        and_then
          (if Kind0 = PairedAddend
           then addRelocations_PairedAddend SectionAddress FixupAddress RI0 RelItr0
           else Inr (RI0, Kind0, 0, RelItr0))
          (\<lambda>(RI, Kind, Addend, RelItr).
        and_then
          (addRelocations_switch NDEBUG Bld G BlockToFix Kind RI FixupAddress FixupContent
             Addend RelItr)
          (\<lambda>(EdgeKind, TargetSymbol, EdgeAddend, RelItr').
             Inr (addEdge G BlockToFix EdgeKind (ucast (FixupAddress - BlockAddress))
                    TargetSymbol EdgeAddend,
                  RelItr')))))))"

lemma and_then_Inr:
  "and_then m f = Inr y \<longleftrightarrow> (\<exists>x. m = Inr x \<and> f x = Inr y)"
  by (cases m) (simp_all add: and_then_def)

lemma load32_Inr:
  "load32 mem off f = Inr y \<longleftrightarrow> (\<exists>v. read_ulittle32 mem off = Some v \<and> f v = Inr y)"
  by (simp add: load32_def split: option.splits)

lemma load64_Inr:
  "load64 mem off f = Inr y \<longleftrightarrow> (\<exists>v. read_ulittle64 mem off = Some v \<and> f v = Inr y)"
  by (simp add: load64_def split: option.splits)

lemma assert_Inr:
  "assert NDEBUG c msg rest = Inr y \<longleftrightarrow> (NDEBUG \<or> c) \<and> rest = Inr y"
  by (auto simp: assert_def)

lemma getRelocationInfo_Inr:
  "getRelocationInfo RelItr = Inr RI \<longleftrightarrow> (\<exists>rest. RelItr = RI # rest)"
  by (cases RelItr) (auto simp: getRelocationInfo_def)

lemma addRelocations_PairedAddend_RelItr:
  assumes "addRelocations_PairedAddend SectionAddress FixupAddress RI0 RelItr0
             = Inr (RI, Kind, Addend, RelItr)"
  shows "RelItr \<noteq> [] \<and> RelItr = tl RelItr0"
  using assms
  by (auto simp: addRelocations_PairedAddend_def Let_def and_then_Inr getRelocationInfo_Inr
      split: if_splits)

lemma parsePairRelocation_RelItr:
  assumes "parsePairRelocation NDEBUG Bld G BlockToFix Kind RI FixupAddress FixupContent
             UnsignedRelItr = Inr r"
  shows "UnsignedRelItr \<noteq> []"
  using assms by (auto simp: parsePairRelocation_def assert_Inr)

lemma addRelocations_switch_RelItr:
  assumes "addRelocations_switch NDEBUG Bld G BlockToFix Kind RI FixupAddress FixupContent
             Addend RelItr = Inr (EdgeKind, TargetSymbol, EdgeAddend, RelItr')"
  shows "RelItr \<noteq> [] \<longrightarrow> RelItr' \<noteq> [] \<and> length RelItr' \<le> length RelItr"
  using assms
  by (cases Kind)
     (auto simp: addRelocations_switch_def and_then_Inr load32_Inr load64_Inr
       dest: parsePairRelocation_RelItr split: if_splits)

lemma addRelocations_body_RelItr:
  assumes "addRelocations_body NDEBUG Bld SectionAddress RelItr G = Inr (G', RelItr')"
  shows "RelItr' \<noteq> [] \<and> length RelItr' \<le> length RelItr"
  using assms
  by (auto simp: addRelocations_body_def Let_def and_then_Inr getRelocationInfo_Inr
      split: if_splits
      dest!: addRelocations_PairedAddend_RelItr addRelocations_switch_RelItr)

text \<open>
  The loop over one section's relocations (\<^verbatim>\<open>for (RelItr = begin; RelItr != RelEnd;
  ++RelItr)\<close>), and the loop over the object's sections, each with its address and its
  relocation stream.
\<close>

function addRelocations_section ::
  "bool \<Rightarrow> MachOLinkGraphBuilder \<Rightarrow> JITTargetAddress \<Rightarrow> relocation_info list \<Rightarrow> LinkGraph
     \<Rightarrow> Failure + LinkGraph" where
  "addRelocations_section NDEBUG Bld SectionAddress RelItr G =
     (if RelItr = [] then Inr G
      else
        (case addRelocations_body NDEBUG Bld SectionAddress RelItr G of
           Inl f \<Rightarrow> Inl f
         | Inr (G', RelItr') \<Rightarrow>
             addRelocations_section NDEBUG Bld SectionAddress (tl RelItr') G'))"
  by pat_completeness auto
termination
proof (relation "measure (\<lambda>(NDEBUG, Bld, SectionAddress, RelItr, G). length RelItr)")
  show "wf (measure (\<lambda>(NDEBUG, Bld, SectionAddress, RelItr, G). length RelItr))"
    by simp
next
  fix NDEBUG Bld SectionAddress RelItr G x2 G' RelItr'
  assume "addRelocations_body NDEBUG Bld SectionAddress RelItr G = Inr x2"
    and "(G', RelItr') = x2"
  then have "addRelocations_body NDEBUG Bld SectionAddress RelItr G = Inr (G', RelItr')"
    by simp
  from addRelocations_body_RelItr [OF this]
  show "((NDEBUG, Bld, SectionAddress, tl RelItr', G'), NDEBUG, Bld, SectionAddress, RelItr, G)
        \<in> measure (\<lambda>(NDEBUG, Bld, SectionAddress, RelItr, G). length RelItr)"
    by (cases RelItr') auto
qed

declare addRelocations_section.simps [simp del]

lemma addRelocations_section_Nil [simp]:
  "addRelocations_section NDEBUG Bld SectionAddress [] G = Inr G"
  by (simp add: addRelocations_section.simps)

lemma addRelocations_section_Cons [simp]:
  "addRelocations_section NDEBUG Bld SectionAddress (RI # rest) G =
     (case addRelocations_body NDEBUG Bld SectionAddress (RI # rest) G of
        Inl f \<Rightarrow> Inl f
      | Inr (G', RelItr') \<Rightarrow>
          addRelocations_section NDEBUG Bld SectionAddress (tl RelItr') G')"
  by (subst addRelocations_section.simps) simp

fun addRelocations ::
  "bool \<Rightarrow> MachOLinkGraphBuilder \<Rightarrow> (JITTargetAddress \<times> relocation_info list) list
     \<Rightarrow> LinkGraph \<Rightarrow> Failure + LinkGraph" where
  "addRelocations NDEBUG Bld [] G = Inr G"
| "addRelocations NDEBUG Bld (S # Ss) G =
     (case addRelocations_section NDEBUG Bld (fst S) (snd S) G of
        Inl f \<Rightarrow> Inl f
      | Inr G' \<Rightarrow> addRelocations NDEBUG Bld Ss G')"

section \<open>The fixup applier\<close>

definition targetOutOfRangeError :: "AddressableRef \<Rightarrow> Edge \<Rightarrow> Failure" where
  "targetOutOfRangeError B E = Error (Relocation_target_out_of_range B E)"

definition getPageOffset12Shift :: "u32 \<Rightarrow> nat" where
  "getPageOffset12Shift Instr =
     (let LDRLiteralMask = 0x3ffffc00 :: u32 in
      if Instr AND LDRLiteralMask = 0x39400000 then unat (drop_bit 30 Instr)
      else if Instr AND LDRLiteralMask = 0x3d400000 then unat (drop_bit 30 Instr)
      else
        (let SizeBitsMask = 0xc0000000 :: u32 in
         if Instr AND (LDRLiteralMask OR SizeBitsMask) = 0x3dc00000 then 4 else 0))"

text \<open>
  \<^verbatim>\<open>applyFixup\<close>, one definition for each \<^verbatim>\<open>case\<close> of its \<^verbatim>\<open>switch\<close>, then the
  \<^verbatim>\<open>switch\<close>. \<open>Value\<close>, \<open>PageDelta\<close> and \<open>Delta\<close> are \<^verbatim>\<open>int64_t\<close> in the source: the
  64-bit result of unsigned arithmetic, compared as signed (\<open>sint\<close>).
\<close>

definition applyFixup_Branch26 ::
  "bool \<Rightarrow> LinkGraph \<Rightarrow> AddressableRef \<Rightarrow> Edge \<Rightarrow> u8 list \<Rightarrow> Failure + u8 list" where
  "applyFixup_Branch26 NDEBUG G B E BlockWorkingMem =
     (let FixupPtr = unat (getOffset E);
          FixupAddress = Address (Addressables G B) + ucast (getOffset E) in
      assert NDEBUG (FixupAddress AND 3 = 0) ''Branch-inst is not 32-bit aligned''
       (let Value = getAddress G (getTarget E) - FixupAddress + getAddend E in
        if Value AND 3 \<noteq> 0 then Inl (Error Branch26_target_not_32bit_aligned)
        else if sint Value < - (2 ^ 27) \<or> sint Value > 2 ^ 27 - 1
          then Inl (targetOutOfRangeError B E)
        else load32 BlockWorkingMem FixupPtr (\<lambda>RawInstr.
          assert NDEBUG (RawInstr AND 0x7fffffff = 0x14000000)
            ''RawInstr isn't a B or BR immediate instruction''
           (let Imm = drop_bit 2 ((ucast Value :: u32) AND (2 ^ 28 - 1));
                FixedInstr = RawInstr OR Imm in
            store32 BlockWorkingMem FixupPtr FixedInstr))))"

definition applyFixup_Pointer32 ::
  "bool \<Rightarrow> LinkGraph \<Rightarrow> AddressableRef \<Rightarrow> Edge \<Rightarrow> u8 list \<Rightarrow> Failure + u8 list" where
  "applyFixup_Pointer32 NDEBUG G B E BlockWorkingMem =
     (let FixupPtr = unat (getOffset E);
          Value = getAddress G (getTarget E) + getAddend E in
      if Value > 0xffffffff then Inl (targetOutOfRangeError B E)
      else store32 BlockWorkingMem FixupPtr (ucast Value))"

definition applyFixup_Pointer64 ::
  "bool \<Rightarrow> LinkGraph \<Rightarrow> AddressableRef \<Rightarrow> Edge \<Rightarrow> u8 list \<Rightarrow> Failure + u8 list" where
  "applyFixup_Pointer64 NDEBUG G B E BlockWorkingMem =
     (let FixupPtr = unat (getOffset E);
          Value = getAddress G (getTarget E) + getAddend E in
      store64 BlockWorkingMem FixupPtr Value)"

definition applyFixup_Page21 ::
  "bool \<Rightarrow> LinkGraph \<Rightarrow> AddressableRef \<Rightarrow> Edge \<Rightarrow> u8 list \<Rightarrow> Failure + u8 list" where
  "applyFixup_Page21 NDEBUG G B E BlockWorkingMem =
     (let FixupPtr = unat (getOffset E) in
      assert NDEBUG (getAddend E = 0) ''PAGE21/GOTPAGE21 with non-zero addend''
       (let TargetPage = getAddress G (getTarget E) AND NOT (4096 - 1);
            PCPage = Address (Addressables G B) AND NOT (4096 - 1);
            PageDelta = TargetPage - PCPage in
        if sint PageDelta < - (2 ^ 30) \<or> sint PageDelta > 2 ^ 30 - 1
          then Inl (targetOutOfRangeError B E)
        else load32 BlockWorkingMem FixupPtr (\<lambda>RawInstr.
          assert NDEBUG (RawInstr AND 0xffffffe0 = 0x90000000)
            ''RawInstr isn't an ADRP instruction''
           (let ImmLo = (ucast (drop_bit 12 PageDelta AND 0x3) :: u32);
                ImmHi = (ucast (drop_bit 14 PageDelta AND 0x7ffff) :: u32);
                FixedInstr = RawInstr OR push_bit 29 ImmLo OR push_bit 5 ImmHi in
            store32 BlockWorkingMem FixupPtr FixedInstr))))"

definition applyFixup_PageOffset12 ::
  "bool \<Rightarrow> LinkGraph \<Rightarrow> AddressableRef \<Rightarrow> Edge \<Rightarrow> u8 list \<Rightarrow> Failure + u8 list" where
  "applyFixup_PageOffset12 NDEBUG G B E BlockWorkingMem =
     (let FixupPtr = unat (getOffset E) in
      assert NDEBUG (getAddend E = 0) ''PAGEOFF12 with non-zero addend''
       (let TargetOffset = getAddress G (getTarget E) AND 0xfff in
        load32 BlockWorkingMem FixupPtr (\<lambda>RawInstr.
          let ImmShift = getPageOffset12Shift RawInstr in
          if TargetOffset AND (push_bit ImmShift 1 - 1) \<noteq> 0
            then Inl (Error PAGEOFF12_target_not_aligned)
          else
            (let EncodedImm = (ucast (push_bit 10 (drop_bit ImmShift TargetOffset)) :: u32);
                 FixedInstr = RawInstr OR EncodedImm in
             store32 BlockWorkingMem FixupPtr FixedInstr))))"

definition applyFixup_GOTPageOffset12 ::
  "bool \<Rightarrow> LinkGraph \<Rightarrow> AddressableRef \<Rightarrow> Edge \<Rightarrow> u8 list \<Rightarrow> Failure + u8 list" where
  "applyFixup_GOTPageOffset12 NDEBUG G B E BlockWorkingMem =
     (let FixupPtr = unat (getOffset E) in
      assert NDEBUG (getAddend E = 0) ''GOTPAGEOF12 with non-zero addend''
       (let TargetOffset = getAddress G (getTarget E) AND 0xfff in
        load32 BlockWorkingMem FixupPtr (\<lambda>RawInstr.
          assert NDEBUG (RawInstr AND 0xfffffc00 = 0xf9400000)
            ''RawInstr isn't a 64-bit LDR immediate''
           (let FixedInstr = (ucast ((ucast RawInstr :: u64) OR push_bit 10 TargetOffset) :: u32) in
            store32 BlockWorkingMem FixupPtr FixedInstr))))"

definition applyFixup_LDRLiteral19 ::
  "bool \<Rightarrow> LinkGraph \<Rightarrow> AddressableRef \<Rightarrow> Edge \<Rightarrow> u8 list \<Rightarrow> Failure + u8 list" where
  "applyFixup_LDRLiteral19 NDEBUG G B E BlockWorkingMem =
     (let FixupPtr = unat (getOffset E);
          FixupAddress = Address (Addressables G B) + ucast (getOffset E) in
      assert NDEBUG (FixupAddress AND 3 = 0) ''LDR is not 32-bit aligned''
       (assert NDEBUG (getAddend E = 0) ''LDRLiteral19 with non-zero addend''
         (load32 BlockWorkingMem FixupPtr (\<lambda>RawInstr.
            assert NDEBUG (RawInstr = 0x58000010) ''RawInstr isn't a 64-bit LDR literal''
             (let Delta = getAddress G (getTarget E) - FixupAddress in
              if Delta AND 3 \<noteq> 0 then Inl (Error LDR_literal_target_not_32bit_aligned)
              else if sint Delta < - (2 ^ 20) \<or> sint Delta > 2 ^ 20 - 1
                then Inl (targetOutOfRangeError B E)
              else
                (let EncodedImm = push_bit 5 (drop_bit 2 (ucast Delta :: u32));
                     FixedInstr = RawInstr OR EncodedImm in
                 store32 BlockWorkingMem FixupPtr FixedInstr))))))"

definition applyFixup_Delta ::
  "bool \<Rightarrow> LinkGraph \<Rightarrow> AddressableRef \<Rightarrow> Edge \<Rightarrow> u8 list \<Rightarrow> Failure + u8 list" where
  "applyFixup_Delta NDEBUG G B E BlockWorkingMem =
     (let FixupPtr = unat (getOffset E);
          FixupAddress = Address (Addressables G B) + ucast (getOffset E);
          Value = (if getKind E = Delta32 \<or> getKind E = Delta64
                   then getAddress G (getTarget E) - FixupAddress + getAddend E
                   else FixupAddress - getAddress G (getTarget E) + getAddend E) in
      if getKind E = Delta32 \<or> getKind E = NegDelta32 then
        (if sint Value < - (2 ^ 31) \<or> sint Value > 2 ^ 31 - 1
         then Inl (targetOutOfRangeError B E)
         else store32 BlockWorkingMem FixupPtr (ucast Value))
      else store64 BlockWorkingMem FixupPtr Value)"

definition applyFixup ::
  "bool \<Rightarrow> LinkGraph \<Rightarrow> AddressableRef \<Rightarrow> Edge \<Rightarrow> u8 list \<Rightarrow> Failure + u8 list" where
  "applyFixup NDEBUG G B E BlockWorkingMem =
     (case getKind E of
        Branch26 \<Rightarrow> applyFixup_Branch26 NDEBUG G B E BlockWorkingMem
      | Pointer32 \<Rightarrow> applyFixup_Pointer32 NDEBUG G B E BlockWorkingMem
      | Pointer64 \<Rightarrow> applyFixup_Pointer64 NDEBUG G B E BlockWorkingMem
      | Page21 \<Rightarrow> applyFixup_Page21 NDEBUG G B E BlockWorkingMem
      | GOTPage21 \<Rightarrow> applyFixup_Page21 NDEBUG G B E BlockWorkingMem
      | PageOffset12 \<Rightarrow> applyFixup_PageOffset12 NDEBUG G B E BlockWorkingMem
      | GOTPageOffset12 \<Rightarrow> applyFixup_GOTPageOffset12 NDEBUG G B E BlockWorkingMem
      | LDRLiteral19 \<Rightarrow> applyFixup_LDRLiteral19 NDEBUG G B E BlockWorkingMem
      | Delta32 \<Rightarrow> applyFixup_Delta NDEBUG G B E BlockWorkingMem
      | Delta64 \<Rightarrow> applyFixup_Delta NDEBUG G B E BlockWorkingMem
      | NegDelta32 \<Rightarrow> applyFixup_Delta NDEBUG G B E BlockWorkingMem
      | NegDelta64 \<Rightarrow> applyFixup_Delta NDEBUG G B E BlockWorkingMem
      | _ \<Rightarrow> Inl (Unreachable ''Unrecognized edge kind''))"

text \<open>The bytes the applier leaves in working memory, when it succeeds.\<close>

definition patchedBytes :: "Failure + u8 list \<Rightarrow> u8 list option" where
  "patchedBytes r = (case r of Inl f \<Rightarrow> None | Inr mem \<Rightarrow> Some mem)"

text \<open>
  Modelled from the spec: between parsing and fixup every block gets its final address,
  and a symbol moves with its block (section 4.3: the applier runs "after every symbol
  has its final runtime address assigned"). The assignment itself is done outside this
  file; \<open>f\<close> gives the final address of each addressable.
\<close>

definition setAddresses :: "(AddressableRef \<Rightarrow> JITTargetAddress) \<Rightarrow> LinkGraph \<Rightarrow> LinkGraph" where
  "setAddresses f G = G\<lparr>Addressables := (\<lambda>a. (Addressables G a)\<lparr>Address := f a\<rparr>)\<rparr>"

section \<open>The GOT and stubs builder\<close>

text \<open>
  Modelled from the spec: the caches of the base class \<^verbatim>\<open>BasicGOTAndStubsBuilder\<close>,
  which is not among the sources, "a per-target cache: target-symbol \<rightarrow>
  GOT-entry-symbol, target-symbol \<rightarrow> stub-symbol" (section 4.2). The state of
  \<^verbatim>\<open>MachO_arm64_GOTAndStubsBuilder\<close> is the graph it works on, these two caches, and the
  two sections it creates on first use (the members \<^verbatim>\<open>GOTSection\<close> and \<^verbatim>\<open>StubsSection\<close>,
  null at first).
\<close>

record GOTAndStubsBuilder =
  Graph :: LinkGraph
  GOTEntries :: "SymbolRef \<rightharpoonup> SymbolRef"
  Stubs :: "SymbolRef \<rightharpoonup> SymbolRef"
  GOTSection :: "SectionRef option"
  StubsSection :: "SectionRef option"

definition MachO_arm64_GOTAndStubsBuilder :: "LinkGraph \<Rightarrow> GOTAndStubsBuilder" where
  "MachO_arm64_GOTAndStubsBuilder G =
     \<lparr>Graph = G, GOTEntries = Map.empty, Stubs = Map.empty,
      GOTSection = None, StubsSection = None\<rparr>"

definition NullGOTEntryContent :: "u8 list" where
  "NullGOTEntryContent = [0x00, 0x00, 0x00, 0x00, 0x00, 0x00, 0x00, 0x00]"

definition StubContent :: "u8 list" where
  "StubContent = [0x10, 0x00, 0x00, 0x58, 0x00, 0x02, 0x1f, 0xd6]"

definition isGOTEdge :: "Edge \<Rightarrow> bool" where
  "isGOTEdge E \<longleftrightarrow>
     getKind E = GOTPage21 \<or> getKind E = GOTPageOffset12 \<or> getKind E = PointerToGOT"

definition getGOTSection :: "GOTAndStubsBuilder \<Rightarrow> GOTAndStubsBuilder \<times> SectionRef" where
  "getGOTSection st =
     (case GOTSection st of
        Some sec \<Rightarrow> (st, sec)
      | None \<Rightarrow>
          (let (G', sec) = createSection (Graph st) ''$__GOT'' {MF_READ}
           in (st\<lparr>Graph := G', GOTSection := Some sec\<rparr>, sec)))"

definition getStubsSection :: "GOTAndStubsBuilder \<Rightarrow> GOTAndStubsBuilder \<times> SectionRef" where
  "getStubsSection st =
     (case StubsSection st of
        Some sec \<Rightarrow> (st, sec)
      | None \<Rightarrow>
          (let StubsProt = {MF_READ, MF_EXEC};
               (G', sec) = createSection (Graph st) ''$__STUBS'' StubsProt
           in (st\<lparr>Graph := G', StubsSection := Some sec\<rparr>, sec)))"

definition createGOTEntry ::
  "GOTAndStubsBuilder \<Rightarrow> SymbolRef \<Rightarrow> GOTAndStubsBuilder \<times> SymbolRef" where
  "createGOTEntry st Target =
     (let (st1, sec) = getGOTSection st;
          (G1, GOTEntryBlock) = createContentBlock (Graph st1) sec NullGOTEntryContent 0 8 0;
          G2 = addEdge G1 GOTEntryBlock Pointer64 0 Target 0;
          (G3, GOTEntry) = addAnonymousSymbol G2 GOTEntryBlock 0 8 False False
      in (st1\<lparr>Graph := G3\<rparr>, GOTEntry))"

definition fixGOTEdge :: "Edge \<Rightarrow> SymbolRef \<Rightarrow> Failure + Edge" where
  "fixGOTEdge E GOTEntry =
     (if getKind E = GOTPage21 \<or> getKind E = GOTPageOffset12
        then Inr (E\<lparr>getTarget := GOTEntry\<rparr>)
      else if getKind E = PointerToGOT
        then Inr (E\<lparr>getTarget := GOTEntry, getKind := Delta32\<rparr>)
      else Inl (Unreachable ''Not a GOT edge?''))"

definition isExternalBranchEdge :: "LinkGraph \<Rightarrow> Edge \<Rightarrow> bool" where
  "isExternalBranchEdge G E \<longleftrightarrow> getKind E = Branch26 \<and> \<not> isDefined G (getTarget E)"

text \<open>
  Modelled from the spec: \<^verbatim>\<open>getGOTEntrySymbol\<close> of the base class, which is not among
  the sources: "obtain-or-create a GOT entry", with "at-most-one GOT entry per distinct
  target" (section 4.2). The cache is looked up by the target symbol; a new entry is
  made by \<open>createGOTEntry\<close> and cached.
\<close>

definition getGOTEntrySymbol ::
  "GOTAndStubsBuilder \<Rightarrow> SymbolRef \<Rightarrow> GOTAndStubsBuilder \<times> SymbolRef" where
  "getGOTEntrySymbol st Target =
     (case GOTEntries st Target of
        Some GOTEntry \<Rightarrow> (st, GOTEntry)
      | None \<Rightarrow>
          (let (st', GOTEntry) = createGOTEntry st Target
           in (st'\<lparr>GOTEntries := (GOTEntries st')(Target \<mapsto> GOTEntry)\<rparr>, GOTEntry)))"

definition createStub ::
  "GOTAndStubsBuilder \<Rightarrow> SymbolRef \<Rightarrow> GOTAndStubsBuilder \<times> SymbolRef" where
  "createStub st Target =
     (let (st1, sec) = getStubsSection st;
          (G1, StubContentBlock) = createContentBlock (Graph st1) sec StubContent 0 1 0;
          (st2, GOTEntrySymbol) = getGOTEntrySymbol (st1\<lparr>Graph := G1\<rparr>) Target;
          G3 = addEdge (Graph st2) StubContentBlock LDRLiteral19 0 GOTEntrySymbol 0;
          (G4, Stub) = addAnonymousSymbol G3 StubContentBlock 0 8 True False
      in (st2\<lparr>Graph := G4\<rparr>, Stub))"

definition fixExternalBranchEdge :: "bool \<Rightarrow> Edge \<Rightarrow> SymbolRef \<Rightarrow> Failure + Edge" where
  "fixExternalBranchEdge NDEBUG E Stub =
     assert NDEBUG (getKind E = Branch26) ''Not a Branch32 edge?''
      (assert NDEBUG (getAddend E = 0) ''Branch32 edge has non-zero addend?''
        (Inr (E\<lparr>getTarget := Stub\<rparr>)))"

text \<open>
  Modelled from the spec: \<^verbatim>\<open>getStubSymbol\<close> of the base class, which is not among the
  sources: "obtain-or-create a stub", with "at-most-one stub per distinct target"
  (section 4.2).
\<close>

definition getStubSymbol ::
  "GOTAndStubsBuilder \<Rightarrow> SymbolRef \<Rightarrow> GOTAndStubsBuilder \<times> SymbolRef" where
  "getStubSymbol st Target =
     (case Stubs st Target of
        Some Stub \<Rightarrow> (st, Stub)
      | None \<Rightarrow>
          (let (st', Stub) = createStub st Target
           in (st'\<lparr>Stubs := (Stubs st')(Target \<mapsto> Stub)\<rparr>, Stub)))"

text \<open>
  Modelled from the spec: an edge is a quadruple in the ordered list of edges of its
  block (section 3), and the pass fixes it in place: \<open>setEdge\<close> stores the fixed edge at
  its index in the list of its block.
\<close>

definition setEdge ::
  "GOTAndStubsBuilder \<Rightarrow> AddressableRef \<Rightarrow> nat \<Rightarrow> Edge \<Rightarrow> GOTAndStubsBuilder" where
  "setEdge st B i E =
     st\<lparr>Graph := (Graph st)
          \<lparr>Addressables := (Addressables (Graph st))
              (B := (Addressables (Graph st) B)
                 \<lparr>Edges := (Edges (Addressables (Graph st) B))[i := E]\<rparr>)\<rparr>\<rparr>"

text \<open>
  Modelled from the spec: the body of the loop of \<^verbatim>\<open>run\<close> of the base class, which is not
  among the sources. The pass "scans every edge of every block" (section 4.2): for a GOT
  edge it obtains or creates the GOT entry of the edge's target and fixes the edge with
  \<open>fixGOTEdge\<close>; else for an external branch edge it obtains or creates the stub and fixes
  the edge with \<open>fixExternalBranchEdge\<close>. \<open>run_edge\<close> is this step for the edge at index \<open>i\<close>
  of the block \<open>B\<close>.
\<close>

definition run_edge ::
  "bool \<Rightarrow> AddressableRef \<Rightarrow> nat \<Rightarrow> GOTAndStubsBuilder \<Rightarrow> Failure + GOTAndStubsBuilder" where
  "run_edge NDEBUG B i st =
     (if i < length (Edges (Addressables (Graph st) B)) then
        (let E = Edges (Addressables (Graph st) B) ! i in
         if isGOTEdge E then
           (let (st', GOTEntry) = getGOTEntrySymbol st (getTarget E)
            in and_then (fixGOTEdge E GOTEntry) (\<lambda>E'. Inr (setEdge st' B i E')))
         else if isExternalBranchEdge (Graph st) E then
           (let (st', Stub) = getStubSymbol st (getTarget E)
            in and_then (fixExternalBranchEdge NDEBUG E Stub) (\<lambda>E'. Inr (setEdge st' B i E')))
         else Inr st)
      else Inl OutOfBoundsAccess)"

text \<open>
  Modelled from the spec: the loop over the edges of a block, by index, and the scan of
  a block, over the edges the block has when its scan starts.
\<close>

fun run_edges ::
  "bool \<Rightarrow> AddressableRef \<Rightarrow> nat list \<Rightarrow> GOTAndStubsBuilder
     \<Rightarrow> Failure + GOTAndStubsBuilder" where
  "run_edges NDEBUG B [] st = Inr st"
| "run_edges NDEBUG B (i # rest) st =
     and_then (run_edge NDEBUG B i st) (run_edges NDEBUG B rest)"

definition run_block ::
  "bool \<Rightarrow> AddressableRef \<Rightarrow> GOTAndStubsBuilder \<Rightarrow> Failure + GOTAndStubsBuilder" where
  "run_block NDEBUG B st =
     run_edges NDEBUG B [0..<length (Edges (Addressables (Graph st) B))] st"

text \<open>
  Modelled from the spec: the loop over blocks, and the pass, which scans the blocks
  that the graph has when the pass starts. The blocks that the pass adds are not
  scanned: each has a Pointer64 edge, or an LDRLiteral19 edge, only, and a scan of it
  would change nothing (lemma \<open>run_block_added\<close>).
\<close>

fun run_blocks ::
  "bool \<Rightarrow> AddressableRef list \<Rightarrow> GOTAndStubsBuilder \<Rightarrow> Failure + GOTAndStubsBuilder" where
  "run_blocks NDEBUG [] st = Inr st"
| "run_blocks NDEBUG (B # rest) st =
     and_then (run_block NDEBUG B st) (run_blocks NDEBUG rest)"

definition run :: "bool \<Rightarrow> GOTAndStubsBuilder \<Rightarrow> Failure + GOTAndStubsBuilder" where
  "run NDEBUG st = run_blocks NDEBUG (Blocks (Graph st)) st"

section \<open>A graph for the examples\<close>

text \<open>
  A block (addressable 0) at a given address with given content, the source of the edges
  of the examples, and a second block (addressable 1) at a given address, their target:
  symbol 0 is the start of the first block, symbol 1 the start of the second.
\<close>

definition example_graph :: "JITTargetAddress \<Rightarrow> u8 list \<Rightarrow> JITTargetAddress \<Rightarrow> LinkGraph" where
  "example_graph blockAddress content targetAddress =
     \<lparr>Sections = [(''__text'', {MF_READ, MF_EXEC})],
      Addressables =
        (\<lambda>a. \<lparr>Address = targetAddress, IsDefined = True, Section = 0, Content = [],
               Alignment = 1, AlignmentOffset = 0, Edges = []\<rparr>)
        (0 := \<lparr>Address = blockAddress, IsDefined = True, Section = 0, Content = content,
               Alignment = 1, AlignmentOffset = 0, Edges = []\<rparr>),
      NumAddressables = 2,
      Blocks = [0, 1],
      Symbols =
        (\<lambda>s. \<lparr>Name = Some ''target'', Base = 1, SymOffset = 0, Size = 0,
               IsCallable = False, IsLive = True\<rparr>)
        (0 := \<lparr>Name = Some ''source'', Base = 0, SymOffset = 0, Size = 0,
               IsCallable = False, IsLive = True\<rparr>),
      NumSymbols = 2\<rparr>"

text \<open>
  Symbol lookups for the example graph: the symbol table index of a symbol is its
  reference, the first block covers the addresses of its content, and the second block
  is found at its own address only.
\<close>

definition example_builder :: "LinkGraph \<Rightarrow> MachOLinkGraphBuilder" where
  "example_builder G =
     \<lparr>findSymbolByIndex =
        (\<lambda>i. if unat i < NumSymbols G then Inr (unat i)
             else Inl (Error (SymbolLookupError ''no symbol at this index''))),
      findSymbolByAddress =
        (\<lambda>a. if Address (Addressables G 0) \<le> a
                \<and> a - Address (Addressables G 0) < of_nat (length (Content (Addressables G 0)))
             then Inr 0
             else if a = Address (Addressables G 1) then Inr 1
             else Inl (Error (SymbolLookupError ''no symbol at this address'')))\<rparr>"

text \<open>
  A relocation stream: an ADDEND record with addend 5 at offset 0, paired with a PAGE21
  record for symbol 1 at the same offset.
\<close>

definition ADDEND_then_PAGE21 :: "relocation_info list" where
  "ADDEND_then_PAGE21 =
     [\<lparr>r_address = 0, r_symbolnum = 5, r_pcrel = False, r_extern = False,
        r_length = 2, r_type = ARM64_RELOC_ADDEND\<rparr>,
      \<lparr>r_address = 0, r_symbolnum = 1, r_pcrel = True, r_extern = True,
        r_length = 2, r_type = ARM64_RELOC_PAGE21\<rparr>]"

text \<open>
  The SUBTRACTOR pair of the specification's fifth scenario, for \<open>B - A\<close> with \<open>B\<close> the
  symbol 0 (the start of the block to fix) and \<open>A\<close> the symbol 1: a SUBTRACTOR record for
  \<open>A\<close> and an UNSIGNED record for \<open>B\<close>, both extern, at offset 0 and of length 2.
\<close>

definition SUBTRACTOR_A :: relocation_info where
  "SUBTRACTOR_A =
     \<lparr>r_address = 0, r_symbolnum = 1, r_pcrel = False, r_extern = True,
       r_length = 2, r_type = ARM64_RELOC_SUBTRACTOR\<rparr>"

definition UNSIGNED_B :: relocation_info where
  "UNSIGNED_B =
     \<lparr>r_address = 0, r_symbolnum = 0, r_pcrel = False, r_extern = True,
       r_length = 2, r_type = ARM64_RELOC_UNSIGNED\<rparr>"

text \<open>
  SUBTRACTOR pairs of length 3 at offset 8 of the block to fix: SUBTRACTOR records for
  the symbol 1 and for the symbol 0, an extern UNSIGNED record for the symbol 1, and an
  UNSIGNED record that is not extern, whose symbol is found by the address in the fixup
  bytes.
\<close>

definition SUBTRACTOR_A64 :: relocation_info where
  "SUBTRACTOR_A64 =
     \<lparr>r_address = 8, r_symbolnum = 1, r_pcrel = False, r_extern = True,
       r_length = 3, r_type = ARM64_RELOC_SUBTRACTOR\<rparr>"

definition SUBTRACTOR_B64 :: relocation_info where
  "SUBTRACTOR_B64 =
     \<lparr>r_address = 8, r_symbolnum = 0, r_pcrel = False, r_extern = True,
       r_length = 3, r_type = ARM64_RELOC_SUBTRACTOR\<rparr>"

definition UNSIGNED_A64 :: relocation_info where
  "UNSIGNED_A64 =
     \<lparr>r_address = 8, r_symbolnum = 1, r_pcrel = False, r_extern = True,
       r_length = 3, r_type = ARM64_RELOC_UNSIGNED\<rparr>"

definition UNSIGNED_local64 :: relocation_info where
  "UNSIGNED_local64 =
     \<lparr>r_address = 8, r_symbolnum = 1, r_pcrel = False, r_extern = False,
       r_length = 3, r_type = ARM64_RELOC_UNSIGNED\<rparr>"

text \<open>A relocation stream that ends with an ADDEND record: the record alone.\<close>

definition trailing_ADDEND :: "relocation_info list" where
  "trailing_ADDEND =
     [\<lparr>r_address = 0, r_symbolnum = 5, r_pcrel = False, r_extern = False,
        r_length = 2, r_type = ARM64_RELOC_ADDEND\<rparr>]"

section \<open>What the builder's pass is to establish\<close>

text \<open>
  A well-formed graph: the block list has no block twice; a block's reference, its
  section and the targets of its edges exist; every symbol's addressable exists.
\<close>

definition wf_graph :: "LinkGraph \<Rightarrow> bool" where
  "wf_graph G \<longleftrightarrow>
     distinct (Blocks G)
     \<and> (\<forall>b \<in> set (Blocks G).
           b < NumAddressables G
           \<and> Section (Addressables G b) < length (Sections G)
           \<and> (\<forall>E \<in> set (Edges (Addressables G b)). getTarget E < NumSymbols G))
     \<and> (\<forall>s < NumSymbols G. Base (Symbols G s) < NumAddressables G)"

text \<open>
  The only assertion of the pass that can fail: \<open>fixExternalBranchEdge\<close> asserts that
  the edge's addend is zero. It holds in a build without assertions, and when no
  external branch edge of the graph has an addend.
\<close>

definition branch_addends_asserted :: "bool \<Rightarrow> LinkGraph \<Rightarrow> bool" where
  "branch_addends_asserted NDEBUG G \<longleftrightarrow>
     NDEBUG \<or> (\<forall>b \<in> set (Blocks G). \<forall>E \<in> set (Edges (Addressables G b)).
                  getKind E = Branch26 \<and> \<not> isDefined G (getTarget E)
                  \<longrightarrow> getAddend E = 0)"

text \<open>
  The block of a GOT entry for a target, as \<open>createGOTEntry\<close> makes it: at address 0, in
  the given section, with eight zero bytes, alignment 8 and the single edge
  \<open>(Pointer64, offset 0, target, addend 0)\<close>. The block of a stub for a GOT entry, as
  \<open>createStub\<close> makes it: in the given section, with the stub's eight bytes, alignment 1
  and the single edge \<open>(LDRLiteral19, offset 0, GOT entry, addend 0)\<close>. The symbol of
  either: anonymous, of size 8 at offset 0 of its block, not live, and callable for a
  stub. A symbol is a GOT entry for a target, or a stub for a GOT entry, when it and its
  block are of this form and the block is among the graph's blocks.
\<close>

definition GOTEntryBlock :: "SectionRef \<Rightarrow> SymbolRef \<Rightarrow> Addressable" where
  "GOTEntryBlock sec t =
     \<lparr>Address = 0, IsDefined = True, Section = sec, Content = NullGOTEntryContent,
      Alignment = 8, AlignmentOffset = 0,
      Edges = [\<lparr>getKind = Pointer64, getOffset = 0, getTarget = t, getAddend = 0\<rparr>]\<rparr>"

definition StubBlock :: "SectionRef \<Rightarrow> SymbolRef \<Rightarrow> Addressable" where
  "StubBlock sec g =
     \<lparr>Address = 0, IsDefined = True, Section = sec, Content = StubContent,
      Alignment = 1, AlignmentOffset = 0,
      Edges = [\<lparr>getKind = LDRLiteral19, getOffset = 0, getTarget = g, getAddend = 0\<rparr>]\<rparr>"

definition AnonymousSymbol :: "AddressableRef \<Rightarrow> bool \<Rightarrow> Symbol" where
  "AnonymousSymbol b callable =
     \<lparr>Name = None, Base = b, SymOffset = 0, Size = 8, IsCallable = callable, IsLive = False\<rparr>"

definition is_GOT_entry :: "LinkGraph \<Rightarrow> SectionRef \<Rightarrow> SymbolRef \<Rightarrow> SymbolRef \<Rightarrow> bool" where
  "is_GOT_entry G sec t g \<longleftrightarrow>
     Symbols G g = AnonymousSymbol (Base (Symbols G g)) False
     \<and> Addressables G (Base (Symbols G g)) = GOTEntryBlock sec t
     \<and> Base (Symbols G g) \<in> set (Blocks G)"

definition is_stub :: "LinkGraph \<Rightarrow> SectionRef \<Rightarrow> SymbolRef \<Rightarrow> SymbolRef \<Rightarrow> bool" where
  "is_stub G sec g s \<longleftrightarrow>
     Symbols G s = AnonymousSymbol (Base (Symbols G s)) True
     \<and> Addressables G (Base (Symbols G s)) = StubBlock sec g
     \<and> Base (Symbols G s) \<in> set (Blocks G)"

text \<open>
  The edge that the pass is to leave in the place of an edge \<open>E\<close> of the graph \<open>G0\<close> it
  started from, given the caches it ends with: a GOT edge goes to the GOT entry of its
  target, and a PointerToGOT edge becomes a Delta32 edge; an external branch edge goes to
  the stub of its target; any other edge stays.
\<close>

definition fixed_edge :: "LinkGraph \<Rightarrow> GOTAndStubsBuilder \<Rightarrow> Edge \<Rightarrow> Edge" where
  "fixed_edge G0 st E =
     (if getKind E = GOTPage21 \<or> getKind E = GOTPageOffset12 then
        E\<lparr>getTarget := the (GOTEntries st (getTarget E))\<rparr>
      else if getKind E = PointerToGOT then
        E\<lparr>getKind := Delta32, getTarget := the (GOTEntries st (getTarget E))\<rparr>
      else if getKind E = Branch26 \<and> \<not> isDefined G0 (getTarget E) then
        E\<lparr>getTarget := the (Stubs st (getTarget E))\<rparr>
      else E)"

subsection \<open>How the graph grows during the pass\<close>

text \<open>
  \<open>grows G0 G G'\<close>: from \<open>G\<close> to \<open>G'\<close> symbols, blocks and sections were only added, the
  objects added since \<open>G0\<close> were left as they were, and of the addressables of \<open>G0\<close> only
  the edge lists changed.
\<close>

definition grows :: "LinkGraph \<Rightarrow> LinkGraph \<Rightarrow> LinkGraph \<Rightarrow> bool" where
  "grows G0 G G' \<longleftrightarrow>
     NumSymbols G \<le> NumSymbols G' \<and> NumAddressables G \<le> NumAddressables G'
     \<and> (\<exists>new. Sections G' = Sections G @ new)
     \<and> Blocks G' = Blocks G @ [NumAddressables G..<NumAddressables G']
     \<and> (\<forall>s < NumSymbols G. Symbols G' s = Symbols G s)
     \<and> (\<forall>a < NumAddressables G. NumAddressables G0 \<le> a
            \<longrightarrow> Addressables G' a = Addressables G a)
     \<and> (\<forall>a < NumAddressables G0.
            Addressables G' a = (Addressables G a)\<lparr>Edges := Edges (Addressables G' a)\<rparr>)"

text \<open>
  The invariant of the builder's state, over the graph \<open>G0\<close> the pass started from: the
  sections it made are new and named as in the source; a cached GOT entry is a new symbol
  on a new block and is a GOT entry for its target; a cached stub likewise is a stub for
  the cached GOT entry of its target; the section of every new block exists, and its edges
  are of the kinds Pointer64 and LDRLiteral19; and every new block in the GOT section is
  the block of a cached GOT entry.
\<close>

definition builder_inv :: "LinkGraph \<Rightarrow> GOTAndStubsBuilder \<Rightarrow> bool" where
  "builder_inv G0 st \<longleftrightarrow>
     grows G0 G0 (Graph st)
     \<and> (\<forall>sec. GOTSection st = Some sec \<longrightarrow>
           length (Sections G0) \<le> sec \<and> sec < length (Sections (Graph st))
           \<and> Sections (Graph st) ! sec = (''$__GOT'', {MF_READ}))
     \<and> (\<forall>sec. StubsSection st = Some sec \<longrightarrow>
           length (Sections G0) \<le> sec \<and> sec < length (Sections (Graph st))
           \<and> Sections (Graph st) ! sec = (''$__STUBS'', {MF_READ, MF_EXEC}))
     \<and> (\<forall>t g. GOTEntries st t = Some g \<longrightarrow>
           NumSymbols G0 \<le> g \<and> g < NumSymbols (Graph st)
           \<and> NumAddressables G0 \<le> Base (Symbols (Graph st) g)
           \<and> Base (Symbols (Graph st) g) < NumAddressables (Graph st)
           \<and> (\<exists>sec. GOTSection st = Some sec \<and> is_GOT_entry (Graph st) sec t g))
     \<and> (\<forall>t s. Stubs st t = Some s \<longrightarrow>
           NumSymbols G0 \<le> s \<and> s < NumSymbols (Graph st)
           \<and> NumAddressables G0 \<le> Base (Symbols (Graph st) s)
           \<and> Base (Symbols (Graph st) s) < NumAddressables (Graph st)
           \<and> (\<exists>sec g. StubsSection st = Some sec \<and> GOTEntries st t = Some g
                  \<and> is_stub (Graph st) sec g s))
     \<and> (\<forall>b. NumAddressables G0 \<le> b \<and> b < NumAddressables (Graph st) \<longrightarrow>
           Section (Addressables (Graph st) b) < length (Sections (Graph st))
           \<and> list_all (\<lambda>E. getKind E = Pointer64 \<or> getKind E = LDRLiteral19)
                 (Edges (Addressables (Graph st) b)))
     \<and> (\<forall>b sec. GOTSection st = Some sec
           \<and> NumAddressables G0 \<le> b \<and> b < NumAddressables (Graph st)
           \<and> Section (Addressables (Graph st) b) = sec \<longrightarrow>
           (\<exists>t g. GOTEntries st t = Some g \<and> Base (Symbols (Graph st) g) = b))"

text \<open>
  The invariant of the scan, for a count \<open>n b\<close> of edges already scanned in each block
  \<open>b\<close>: of every addressable of \<open>G0\<close> the first \<open>n b\<close> edges are the fixed ones, with their
  GOT entries and stubs in the caches, and the others are still those of \<open>G0\<close>.
\<close>

definition edge_done :: "LinkGraph \<Rightarrow> GOTAndStubsBuilder \<Rightarrow> Edge \<Rightarrow> bool" where
  "edge_done G0 st E \<longleftrightarrow>
     (if getKind E = GOTPage21 \<or> getKind E = GOTPageOffset12 \<or> getKind E = PointerToGOT
        then GOTEntries st (getTarget E) \<noteq> None
      else if getKind E = Branch26 \<and> \<not> isDefined G0 (getTarget E)
        then Stubs st (getTarget E) \<noteq> None
      else True)"

definition scan_inv ::
  "LinkGraph \<Rightarrow> (AddressableRef \<Rightarrow> nat) \<Rightarrow> GOTAndStubsBuilder \<Rightarrow> bool" where
  "scan_inv G0 n st \<longleftrightarrow>
     builder_inv G0 st
     \<and> (\<forall>b < NumAddressables G0.
           Edges (Addressables (Graph st) b) =
             map (fixed_edge G0 st) (take (n b) (Edges (Addressables G0 b)))
             @ drop (n b) (Edges (Addressables G0 b))
           \<and> list_all (edge_done G0 st) (take (n b) (Edges (Addressables G0 b))))"

text \<open>
  What a call of \<open>getGOTEntrySymbol\<close>, and of \<open>getStubSymbol\<close>, for a target leaves: the
  invariant, the symbol returned in the cache at the target (the one that was there, if
  any), the other entries of the caches, and the symbols and addressables of \<open>G0\<close>.
\<close>

definition GOT_call_post ::
  "LinkGraph \<Rightarrow> GOTAndStubsBuilder \<Rightarrow> SymbolRef \<Rightarrow> GOTAndStubsBuilder \<Rightarrow> SymbolRef \<Rightarrow> bool" where
  "GOT_call_post G0 st t st' g \<longleftrightarrow>
     builder_inv G0 st'
     \<and> GOTEntries st' = (GOTEntries st)(t \<mapsto> g)
     \<and> (\<forall>g'. GOTEntries st t = Some g' \<longrightarrow> g' = g)
     \<and> Stubs st' = Stubs st
     \<and> (\<forall>a < NumAddressables G0. Addressables (Graph st') a = Addressables (Graph st) a)
     \<and> (\<forall>s < NumSymbols G0. Symbols (Graph st') s = Symbols (Graph st) s)"

definition Stub_call_post ::
  "LinkGraph \<Rightarrow> GOTAndStubsBuilder \<Rightarrow> SymbolRef \<Rightarrow> GOTAndStubsBuilder \<Rightarrow> SymbolRef \<Rightarrow> bool" where
  "Stub_call_post G0 st t st' s \<longleftrightarrow>
     builder_inv G0 st'
     \<and> Stubs st' = (Stubs st)(t \<mapsto> s)
     \<and> (\<forall>s'. Stubs st t = Some s' \<longrightarrow> s' = s)
     \<and> (\<forall>t' g'. GOTEntries st t' = Some g' \<longrightarrow> GOTEntries st' t' = Some g')
     \<and> (\<forall>a < NumAddressables G0. Addressables (Graph st') a = Addressables (Graph st) a)
     \<and> (\<forall>s < NumSymbols G0. Symbols (Graph st') s = Symbols (Graph st) s)"

subsection \<open>A graph for the examples of the pass\<close>

text \<open>
  One block (addressable 0, in the section \<open>__text\<close>) and one external addressable
  (addressable 1); the symbol 0, \<open>_main\<close>, is the start of the block, and the symbol 1,
  \<open>_bar\<close>, is external. The block has three GOT edges to \<open>_bar\<close>, of the kinds GOTPage21,
  GOTPageOffset12 and PointerToGOT, a Branch26 edge to \<open>_bar\<close> and a Branch26 edge to
  \<open>_main\<close>.
\<close>

definition builder_example :: LinkGraph where
  "builder_example =
     \<lparr>Sections = [(''__text'', {MF_READ, MF_EXEC})],
      Addressables =
        (\<lambda>a. \<lparr>Address = 0, IsDefined = False, Section = 0, Content = [],
               Alignment = 1, AlignmentOffset = 0, Edges = []\<rparr>)
        (0 := \<lparr>Address = 0x1000, IsDefined = True, Section = 0,
               Content = [0x00, 0x00, 0x00, 0x90, 0x00, 0x00, 0x40, 0xf9,
                          0x00, 0x00, 0x00, 0x00, 0x00, 0x00, 0x00, 0x94,
                          0x00, 0x00, 0x00, 0x94],
               Alignment = 4, AlignmentOffset = 0,
               Edges =
                 [\<lparr>getKind = GOTPage21, getOffset = 0, getTarget = 1, getAddend = 0\<rparr>,
                  \<lparr>getKind = GOTPageOffset12, getOffset = 4, getTarget = 1, getAddend = 0\<rparr>,
                  \<lparr>getKind = PointerToGOT, getOffset = 8, getTarget = 1, getAddend = 0\<rparr>,
                  \<lparr>getKind = Branch26, getOffset = 12, getTarget = 1, getAddend = 0\<rparr>,
                  \<lparr>getKind = Branch26, getOffset = 16, getTarget = 0, getAddend = 0\<rparr>]\<rparr>),
      NumAddressables = 2,
      Blocks = [0],
      Symbols =
        (\<lambda>s. \<lparr>Name = Some ''_bar'', Base = 1, SymOffset = 0, Size = 0,
               IsCallable = True, IsLive = True\<rparr>)
        (0 := \<lparr>Name = Some ''_main'', Base = 0, SymOffset = 0, Size = 20,
               IsCallable = True, IsLive = True\<rparr>),
      NumSymbols = 2\<rparr>"

section \<open>Auxiliary facts about bytes and masks\<close>

lemma length_le_bytes [simp]: "length (le_bytes n w) = n"
  by (induction n arbitrary: w) auto

lemma le_bytes_4:
  "le_bytes 4 w = [ucast w, ucast (drop_bit 8 w), ucast (drop_bit 16 w), ucast (drop_bit 24 w)]"
proof -
  have "le_bytes (Suc (Suc (Suc (Suc 0)))) w
    = [ucast w, ucast (drop_bit 8 w), ucast (drop_bit 16 w), ucast (drop_bit 24 w)]"
    by (simp add: drop_bit_drop_bit)
  then show ?thesis by (simp add: numeral_eq_Suc)
qed

lemma read_ulittle32_Some:
  "read_ulittle32 mem off = Some I \<Longrightarrow> off + 4 \<le> length mem"
  by (auto simp: read_ulittle32_def read_bytes_def split: if_splits)

lemma store32_eq:
  "off + 4 \<le> length mem \<Longrightarrow>
   store32 mem off v = Inr (take off mem @ le_bytes 4 v @ drop (off + 4) mem)"
  by (simp add: store32_def write_ulittle32_def write_bytes_def)

lemmas example_eval =
  example_graph_def getAddress_def read_ulittle32_def read_bytes_def le_bytes_4

lemmas parser_eval =
  addRelocations_body_def addRelocations_PairedAddend_def addRelocations_switch_def
  getRelocationInfo_def getRelocationKind_def ARM64_RELOC_defs and_then_def load32_def
  load64_def example_builder_def getBlock_def Let_def

lemma and_then_Inr_eq: "and_then (Inr x) f = f x"
  by (simp add: and_then_def)

lemma and_then_Inl_eq: "and_then (Inl e) f = Inl e"
  by (simp add: and_then_def)

lemma and_then_if:
  "and_then (if c then a else b) f = (if c then and_then a f else and_then b f)"
  by simp

lemma store64_eq:
  "off + 8 \<le> length mem \<Longrightarrow>
   store64 mem off v = Inr (take off mem @ le_bytes 8 v @ drop (off + 8) mem)"
  by (simp add: store64_def write_ulittle64_def write_bytes_def)

lemma readFixupValue_in_bounds:
  assumes "readFixupValue len (content, off) = Inr v"
  shows "off + (if len = 3 then 8 else 4) \<le> length content"
  using assms
  by (auto simp: readFixupValue_def load32_def load64_def read_ulittle32_def read_ulittle64_def
      read_bytes_def split: if_splits option.splits)

lemma offset_fits:
  fixes x :: u64
  assumes "unat x < 2 ^ 32"
  shows "ucast (ucast x :: 32 word) = x" and "unat (ucast x :: 32 word) = unat x"
proof -
  have "unat (take_bit 32 x) = unat x"
    using assms by (simp add: unsigned_take_bit_eq take_bit_nat_eq_self)
  then have t: "take_bit 32 x = x" by (simp add: word_unat_eq_iff)
  have "ucast (ucast x :: 32 word) = take_bit 32 x"
    by (rule bit_word_eqI) (auto simp: bit_simps)
  with t show "ucast (ucast x :: 32 word) = x" by simp
  show "unat (ucast x :: 32 word) = unat x"
    using assms by (simp add: unsigned_ucast_eq take_bit_nat_eq_self)
qed


lemma le_bytes_8:
  "le_bytes 8 w = [ucast w, ucast (drop_bit 8 w), ucast (drop_bit 16 w), ucast (drop_bit 24 w),
     ucast (drop_bit 32 w), ucast (drop_bit 40 w), ucast (drop_bit 48 w), ucast (drop_bit 56 w)]"
proof -
  have "le_bytes (Suc (Suc (Suc (Suc (Suc (Suc (Suc (Suc 0)))))))) w
    = [ucast w, ucast (drop_bit 8 w), ucast (drop_bit 16 w), ucast (drop_bit 24 w),
     ucast (drop_bit 32 w), ucast (drop_bit 40 w), ucast (drop_bit 48 w), ucast (drop_bit 56 w)]"
    by (simp add: drop_bit_drop_bit)
  then show ?thesis by (simp add: numeral_eq_Suc)
qed

text \<open>
  What the little-endian reads return, byte by byte: the byte at the offset is the least
  significant one, and a 32-bit fixup value is sign-extended to 64 bits.
\<close>

lemma take_4_drop:
  "off + 4 \<le> length xs \<Longrightarrow>
   take 4 (drop off xs) = [xs ! off, xs ! (off + 1), xs ! (off + 2), xs ! (off + 3)]"
  by (rule nth_equalityI) (auto simp: less_Suc_eq numeral_eq_Suc)

lemma take_8_drop:
  "off + 8 \<le> length xs \<Longrightarrow>
   take 8 (drop off xs) = [xs ! off, xs ! (off + 1), xs ! (off + 2), xs ! (off + 3),
     xs ! (off + 4), xs ! (off + 5), xs ! (off + 6), xs ! (off + 7)]"
  by (rule nth_equalityI) (auto simp: less_Suc_eq numeral_eq_Suc)

lemma read_ulittle32_bytes:
  assumes "off + 4 \<le> length mem"
  shows "read_ulittle32 mem off =
     Some (ucast (mem ! off) OR push_bit 8 (ucast (mem ! (off + 1)))
           OR push_bit 16 (ucast (mem ! (off + 2))) OR push_bit 24 (ucast (mem ! (off + 3))))"
  using assms
  by (simp add: read_ulittle32_def read_bytes_def take_4_drop push_bit_or push_bit_push_bit
      ac_simps)

lemma read_ulittle64_bytes:
  assumes "off + 8 \<le> length mem"
  shows "read_ulittle64 mem off =
     Some (ucast (mem ! off) OR push_bit 8 (ucast (mem ! (off + 1)))
           OR push_bit 16 (ucast (mem ! (off + 2))) OR push_bit 24 (ucast (mem ! (off + 3)))
           OR push_bit 32 (ucast (mem ! (off + 4))) OR push_bit 40 (ucast (mem ! (off + 5)))
           OR push_bit 48 (ucast (mem ! (off + 6))) OR push_bit 56 (ucast (mem ! (off + 7))))"
  using assms
  by (simp add: read_ulittle64_def read_bytes_def take_8_drop push_bit_or push_bit_push_bit
      ac_simps)

lemma readFixupValue_bytes:
  assumes "off + (if len = 3 then 8 else 4) \<le> length mem"
  shows "readFixupValue len (mem, off) = Inr
     (if len = 3 then
        ucast (mem ! off) OR push_bit 8 (ucast (mem ! (off + 1)))
        OR push_bit 16 (ucast (mem ! (off + 2))) OR push_bit 24 (ucast (mem ! (off + 3)))
        OR push_bit 32 (ucast (mem ! (off + 4))) OR push_bit 40 (ucast (mem ! (off + 5)))
        OR push_bit 48 (ucast (mem ! (off + 6))) OR push_bit 56 (ucast (mem ! (off + 7)))
      else
        scast (ucast (mem ! off) OR push_bit 8 (ucast (mem ! (off + 1)))
          OR push_bit 16 (ucast (mem ! (off + 2))) OR push_bit 24 (ucast (mem ! (off + 3)))
          :: 32 word))"
proof (cases "len = 3")
  case True
  with assms have "off + 8 \<le> length mem" by simp
  from read_ulittle64_bytes [OF this] True show ?thesis
    by (simp add: readFixupValue_def load64_def)
next
  case False
  with assms have "off + 4 \<le> length mem" by simp
  from read_ulittle32_bytes [OF this] False show ?thesis
    by (simp add: readFixupValue_def load32_def)
qed

section \<open>The relocation decoding table\<close>

lemma getRelocationKind_decoding:
  "getRelocationKind RI =
     (case spec_decoding_table
             (unat (r_type RI), r_pcrel RI, r_extern RI, unat (r_length RI)) of
        Some k \<Rightarrow> Inr k
      | None \<Rightarrow> Inl (Error (Unsupported_arm64_relocation RI)))"
  by (cases "r_pcrel RI"; cases "r_extern RI")
     (simp_all add: getRelocationKind_def ARM64_RELOC_defs Let_def word_unat_eq_iff)

lemma getRelocationKind_Inl:
  "getRelocationKind RI = Inl f \<Longrightarrow> f = Error (Unsupported_arm64_relocation RI)"
  unfolding getRelocationKind_decoding by (simp split: option.splits)

text \<open>
  C1. For every relocation record, \<open>getRelocationKind\<close> maps the quadruple
  \<open>(r_type, r_pcrel, r_extern, r_length)\<close> to the edge kind the table of section 6.1
  gives, and for every quadruple outside the table it fails with the error
  "Unsupported arm64 relocation" (a BadRelocation error), which carries the record and
  so the raw quadruple.
\<close>

theorem getRelocationKind_table:
  "getRelocationKind RI =
     (case spec_decoding_table
             (unat (r_type RI), r_pcrel RI, r_extern RI, unat (r_length RI)) of
        Some k \<Rightarrow> Inr k
      | None \<Rightarrow> Inl (Error (Unsupported_arm64_relocation RI)))
   \<and> errorKind (Unsupported_arm64_relocation RI) = BadRelocation"
  by (simp add: getRelocationKind_decoding)

section \<open>SUBTRACTOR pairs\<close>

lemma getRelocationKind_SUBTRACTOR:
  assumes "r_type SubRI = ARM64_RELOC_SUBTRACTOR" "\<not> r_pcrel SubRI" "r_extern SubRI"
    and "r_length SubRI = 2 \<or> r_length SubRI = 3"
  shows "getRelocationKind SubRI = Inr (if r_length SubRI = 3 then Delta64 else Delta32)"
  using assms by (auto simp: getRelocationKind_def ARM64_RELOC_defs)

lemma SUBTRACTOR_pair_parse:
  assumes sub: "r_type SubRI = ARM64_RELOC_SUBTRACTOR" "\<not> r_pcrel SubRI" "r_extern SubRI"
    and len: "r_length SubRI = 2 \<or> r_length SubRI = 3"
    and pair: "r_address UnsignedRI = r_address SubRI" "r_length UnsignedRI = r_length SubRI"
    and fixup: "FixupAddress = SectionAddress + ucast (r_address SubRI)"
    and block: "findSymbolByAddress Bld FixupAddress = Inr SymbolToFix"
      "BlockToFix = getBlock G SymbolToFix"
    and extent: "\<not> FixupAddress + push_bit (unat (r_length SubRI)) 1
          > Address (Addressables G BlockToFix)
            + of_nat (length (Content (Addressables G BlockToFix)))"
    and frm: "findSymbolByIndex Bld (ucast (r_symbolnum SubRI)) = Inr FromSymbol"
    and val: "readFixupValue (r_length SubRI)
          (Content (Addressables G BlockToFix),
           unat (FixupAddress - Address (Addressables G BlockToFix))) = Inr FixupValue0"
    and to: "(if r_extern UnsignedRI
              then findSymbolByIndex Bld (ucast (r_symbolnum UnsignedRI))
              else findSymbolByAddress Bld FixupValue0) = Inr ToSymbol"
    and fv: "FixupValue = (if r_extern UnsignedRI then FixupValue0
                           else FixupValue0 - getAddress G ToSymbol)"
  shows "addRelocations_body NDEBUG Bld SectionAddress (SubRI # UnsignedRI # rest) G =
     (if BlockToFix = getAddressable G FromSymbol then
        Inr (addEdge G BlockToFix (if r_length SubRI = 3 then Delta64 else Delta32)
               (ucast (FixupAddress - Address (Addressables G BlockToFix))) ToSymbol
               (FixupValue + (FixupAddress - getAddress G FromSymbol)),
             UnsignedRI # rest)
      else if BlockToFix = getAddressable G ToSymbol then
        Inr (addEdge G BlockToFix (if r_length SubRI = 3 then NegDelta64 else NegDelta32)
               (ucast (FixupAddress - Address (Addressables G BlockToFix))) FromSymbol
               (FixupValue - (FixupAddress - getAddress G ToSymbol)),
             UnsignedRI # rest)
      else Inl (Error SUBTRACTOR_must_fix_up_A_or_B))"
proof -
  let ?K = "if r_length SubRI = 3 then Delta64 else Delta32"
  let ?FC = "(Content (Addressables G BlockToFix),
        unat (FixupAddress - Address (Addressables G BlockToFix)))"
  have kind: "getRelocationKind SubRI = Inr ?K"
    using sub len by (rule getRelocationKind_SUBTRACTOR)
  have to': "and_then
       (if r_extern UnsignedRI then
          and_then (findSymbolByIndex Bld (ucast (r_symbolnum UnsignedRI)))
            (\<lambda>ToSymbol. Inr (ToSymbol, FixupValue0))
        else
          and_then (findSymbolByAddress Bld FixupValue0)
            (\<lambda>ToSymbol. Inr (ToSymbol, FixupValue0 - getAddress G ToSymbol))) f
      = f (ToSymbol, FixupValue)" for f :: "nat \<times> u64 \<Rightarrow> Failure + 'z"
    using to by (cases "r_extern UnsignedRI") (simp_all add: and_then_def fv)
  have asserts: "(?K = Delta32 \<and> r_length SubRI = 2) \<or> (?K = Delta64 \<and> r_length SubRI = 3)"
    using len by auto
  have pp: "parsePairRelocation NDEBUG Bld G BlockToFix ?K SubRI FixupAddress ?FC
       (UnsignedRI # rest) =
     (if BlockToFix = getAddressable G FromSymbol then
        Inr (if r_length SubRI = 3 then Delta64 else Delta32, ToSymbol,
             FixupValue + (FixupAddress - getAddress G FromSymbol))
      else if BlockToFix = getAddressable G ToSymbol then
        Inr (if r_length SubRI = 3 then NegDelta64 else NegDelta32, FromSymbol,
             FixupValue - (FixupAddress - getAddress G ToSymbol))
      else Inl (Error SUBTRACTOR_must_fix_up_A_or_B))"
    unfolding parsePairRelocation_def
    by (simp only: assert_def asserts sub pair getRelocationInfo_def list.case
        and_then_Inr_eq frm val to' split: prod.split)
       simp
  have sw: "addRelocations_switch NDEBUG Bld G BlockToFix ?K SubRI FixupAddress ?FC 0
       (SubRI # UnsignedRI # rest) =
     and_then (parsePairRelocation NDEBUG Bld G BlockToFix ?K SubRI FixupAddress ?FC
                 (UnsignedRI # rest))
       (\<lambda>(DeltaKind, TargetSymbol, PairAddend).
          Inr (DeltaKind, TargetSymbol, PairAddend, UnsignedRI # rest))"
    by (simp add: addRelocations_switch_def)
  have not_addend: "(?K = PairedAddend) = False" by simp
  have body: "addRelocations_body NDEBUG Bld SectionAddress (SubRI # UnsignedRI # rest) G =
     and_then
       (addRelocations_switch NDEBUG Bld G BlockToFix ?K SubRI FixupAddress ?FC 0
          (SubRI # UnsignedRI # rest))
       (\<lambda>(EdgeKind, TargetSymbol, EdgeAddend, RelItr').
          Inr (addEdge G BlockToFix EdgeKind
                 (ucast (FixupAddress - Address (Addressables G BlockToFix)))
                 TargetSymbol EdgeAddend, RelItr'))"
    using extent len
    by (simp add: addRelocations_body_def getRelocationInfo_def and_then_Inr_eq kind Let_def
        fixup [symmetric] block(1) block(2) [symmetric] not_addend split del: if_split)
  show ?thesis
    unfolding body sw pp
    by (simp add: and_then_if and_then_Inr_eq and_then_Inl_eq split del: if_split cong: if_cong)
qed

text \<open>
  C2. A SUBTRACTOR record (not pc-relative, extern, of length 2 or 3) followed by a
  record of equal \<open>r_address\<close> and \<open>r_length\<close>, where the block to fix is found and holds
  the fixup, \<open>FromSymbol\<close> is found by the SUBTRACTOR's symbol index, and the value read
  from the fixup bytes is the eight bytes at the fixup's offset in the block's content
  taken little-endian when \<open>r_length\<close> is 3, and the four bytes there taken little-endian
  and sign-extended to 64 bits when it is 2. \<open>ToSymbol\<close> is found by the second record's
  symbol index when that is extern, and then \<open>FixupValue\<close> is the value read; else
  \<open>ToSymbol\<close> is found by the value read, as an address, and \<open>FixupValue\<close> is the value
  read less \<open>ToSymbol\<close>'s address. If the block to fix is \<open>FromSymbol\<close>'s addressable the
  parser adds to it an edge of kind Delta32 or Delta64 (by \<open>r_length\<close>) to \<open>ToSymbol\<close> with
  addend \<open>FixupValue + (FixupAddress - FromSymbol.address)\<close>; else if it is \<open>ToSymbol\<close>'s
  addressable, an edge of kind NegDelta32 or NegDelta64 to \<open>FromSymbol\<close> with addend
  \<open>FixupValue - (FixupAddress - ToSymbol.address)\<close>; otherwise it fails with
  "SUBTRACTOR relocation must fix up either 'A' or 'B'" (BadRelocation). The iterator is
  left on the second record. The source does not look at the second record's \<open>r_type\<close>.
\<close>

theorem addRelocations_SUBTRACTOR_pair:
  assumes sub: "r_type SubRI = ARM64_RELOC_SUBTRACTOR" "\<not> r_pcrel SubRI" "r_extern SubRI"
    and len: "r_length SubRI = 2 \<or> r_length SubRI = 3"
    and pair: "r_address UnsignedRI = r_address SubRI" "r_length UnsignedRI = r_length SubRI"
    and fixup: "FixupAddress = SectionAddress + ucast (r_address SubRI)"
    and block: "findSymbolByAddress Bld FixupAddress = Inr SymbolToFix"
      "BlockToFix = getBlock G SymbolToFix"
    and extent: "\<not> FixupAddress + push_bit (unat (r_length SubRI)) 1
          > Address (Addressables G BlockToFix)
            + of_nat (length (Content (Addressables G BlockToFix)))"
    and frm: "findSymbolByIndex Bld (ucast (r_symbolnum SubRI)) = Inr FromSymbol"
    and bytes: "mem = Content (Addressables G BlockToFix)"
      "off = unat (FixupAddress - Address (Addressables G BlockToFix))"
      "off + (if r_length SubRI = 3 then 8 else 4) \<le> length mem"
    and val: "FixupValue0 =
       (if r_length SubRI = 3 then
          ucast (mem ! off) OR push_bit 8 (ucast (mem ! (off + 1)))
          OR push_bit 16 (ucast (mem ! (off + 2))) OR push_bit 24 (ucast (mem ! (off + 3)))
          OR push_bit 32 (ucast (mem ! (off + 4))) OR push_bit 40 (ucast (mem ! (off + 5)))
          OR push_bit 48 (ucast (mem ! (off + 6))) OR push_bit 56 (ucast (mem ! (off + 7)))
        else
          scast (ucast (mem ! off) OR push_bit 8 (ucast (mem ! (off + 1)))
            OR push_bit 16 (ucast (mem ! (off + 2))) OR push_bit 24 (ucast (mem ! (off + 3)))
            :: 32 word))"
    and to: "(if r_extern UnsignedRI
              then findSymbolByIndex Bld (ucast (r_symbolnum UnsignedRI))
              else findSymbolByAddress Bld FixupValue0) = Inr ToSymbol"
    and fv: "FixupValue = (if r_extern UnsignedRI then FixupValue0
                           else FixupValue0 - getAddress G ToSymbol)"
  shows "addRelocations_body NDEBUG Bld SectionAddress (SubRI # UnsignedRI # rest) G =
     (if BlockToFix = getAddressable G FromSymbol then
        Inr (addEdge G BlockToFix (if r_length SubRI = 3 then Delta64 else Delta32)
               (ucast (FixupAddress - Address (Addressables G BlockToFix))) ToSymbol
               (FixupValue + (FixupAddress - getAddress G FromSymbol)),
             UnsignedRI # rest)
      else if BlockToFix = getAddressable G ToSymbol then
        Inr (addEdge G BlockToFix (if r_length SubRI = 3 then NegDelta64 else NegDelta32)
               (ucast (FixupAddress - Address (Addressables G BlockToFix))) FromSymbol
               (FixupValue - (FixupAddress - getAddress G ToSymbol)),
             UnsignedRI # rest)
      else Inl (Error SUBTRACTOR_must_fix_up_A_or_B))
    \<and> errorKind SUBTRACTOR_must_fix_up_A_or_B = BadRelocation"
proof -
  have val': "readFixupValue (r_length SubRI)
          (Content (Addressables G BlockToFix),
           unat (FixupAddress - Address (Addressables G BlockToFix))) = Inr FixupValue0"
    using readFixupValue_bytes [OF bytes(3)] unfolding val bytes(1,2) .
  from SUBTRACTOR_pair_parse [OF sub len pair fixup block extent frm val' to fv]
  show ?thesis by simp
qed

text \<open>
  Three pairs, with the block to fix at \<open>0x1040\<close> (symbol 0) and the other block at
  \<open>0x1000\<close> (symbol 1). Of length 2 at offset 0, on the bytes \<open>f8 ff ff ff\<close>, for the
  symbol 0 less the symbol 1: the value read is \<open>-8\<close>, sign-extended, and the edge is
  \<open>(NegDelta32, symbol 1, -8)\<close>. Of length 3 at offset 8, on the bytes
  \<open>08 07 06 05 04 03 02 01\<close>, for the symbol 1 less the symbol 0: the edge is
  \<open>(Delta64, symbol 1, 0x0102030405060708 + 8)\<close>. Of length 3 at offset 8 with an
  UNSIGNED record that is not extern, on the bytes \<open>44 10 00 00 00 00 00 00\<close>: the
  address \<open>0x1044\<close> read from them finds the symbol 0, four bytes before it, and the edge
  is \<open>(NegDelta64, symbol 1, 4 - 8)\<close>.
\<close>

theorem addRelocations_SUBTRACTOR_pair_witness:
  "addRelocations_body False (example_builder (example_graph 0x1040 [0xF8, 0xFF, 0xFF, 0xFF] 0x1000)) 0x1040
     [SUBTRACTOR_A, UNSIGNED_B] (example_graph 0x1040 [0xF8, 0xFF, 0xFF, 0xFF] 0x1000)
   = Inr (addEdge (example_graph 0x1040 [0xF8, 0xFF, 0xFF, 0xFF] 0x1000) 0 NegDelta32 0 1 0xFFFFFFFFFFFFFFF8, [UNSIGNED_B])
   \<and> addRelocations_body False (example_builder (example_graph 0x1040 [0, 0, 0, 0, 0, 0, 0, 0, 0x08, 0x07, 0x06, 0x05, 0x04, 0x03, 0x02, 0x01] 0x1000)) 0x1040
     [SUBTRACTOR_B64, UNSIGNED_A64] (example_graph 0x1040 [0, 0, 0, 0, 0, 0, 0, 0, 0x08, 0x07, 0x06, 0x05, 0x04, 0x03, 0x02, 0x01] 0x1000)
   = Inr (addEdge (example_graph 0x1040 [0, 0, 0, 0, 0, 0, 0, 0, 0x08, 0x07, 0x06, 0x05, 0x04, 0x03, 0x02, 0x01] 0x1000) 0 Delta64 8 1 0x0102030405060710, [UNSIGNED_A64])
   \<and> addRelocations_body False (example_builder (example_graph 0x1040 [0, 0, 0, 0, 0, 0, 0, 0, 0x44, 0x10, 0, 0, 0, 0, 0, 0] 0x1000)) 0x1040
     [SUBTRACTOR_A64, UNSIGNED_local64] (example_graph 0x1040 [0, 0, 0, 0, 0, 0, 0, 0, 0x44, 0x10, 0, 0, 0, 0, 0, 0] 0x1000)
   = Inr (addEdge (example_graph 0x1040 [0, 0, 0, 0, 0, 0, 0, 0, 0x44, 0x10, 0, 0, 0, 0, 0, 0] 0x1000) 0 NegDelta64 8 1 0xFFFFFFFFFFFFFFFC, [UNSIGNED_local64])"
proof -
  let ?Ra = "Inr (addEdge (example_graph 0x1040 [0xF8, 0xFF, 0xFF, 0xFF] 0x1000) 0 NegDelta32 0 1 0xFFFFFFFFFFFFFFF8, [UNSIGNED_B])"
  let ?Rb = "Inr (addEdge (example_graph 0x1040 [0, 0, 0, 0, 0, 0, 0, 0, 0x08, 0x07, 0x06, 0x05, 0x04, 0x03, 0x02, 0x01] 0x1000) 0 Delta64 8 1 0x0102030405060710, [UNSIGNED_A64])"
  let ?Rc = "Inr (addEdge (example_graph 0x1040 [0, 0, 0, 0, 0, 0, 0, 0, 0x44, 0x10, 0, 0, 0, 0, 0, 0] 0x1000) 0 NegDelta64 8 1 0xFFFFFFFFFFFFFFFC, [UNSIGNED_local64])"
  have a: "addRelocations_body False (example_builder (example_graph 0x1040 [0xF8, 0xFF, 0xFF, 0xFF] 0x1000)) 0x1040
       [SUBTRACTOR_A, UNSIGNED_B] (example_graph 0x1040 [0xF8, 0xFF, 0xFF, 0xFF] 0x1000) = ?Ra"
  proof -
    let ?G = "example_graph 0x1040 [0xF8, 0xFF, 0xFF, 0xFF] 0x1000"
    let ?Bld = "example_builder ?G"
    have sub: "r_type SUBTRACTOR_A = ARM64_RELOC_SUBTRACTOR" "\<not> r_pcrel SUBTRACTOR_A"
      "r_extern SUBTRACTOR_A" "r_length SUBTRACTOR_A = 2 \<or> r_length SUBTRACTOR_A = 3"
      by (simp_all add: SUBTRACTOR_A_def)
    have pair: "r_address UNSIGNED_B = r_address SUBTRACTOR_A" "r_length UNSIGNED_B = r_length SUBTRACTOR_A"
      by (simp_all add: SUBTRACTOR_A_def UNSIGNED_B_def)
    have fixup: "(0x1040 :: u64) = 0x1040 + ucast (r_address SUBTRACTOR_A)"
      by (simp add: SUBTRACTOR_A_def)
    have block: "findSymbolByAddress ?Bld 0x1040 = Inr 0" "(0::nat) = getBlock ?G 0"
      by (simp_all add: example_builder_def example_graph_def getBlock_def)
    have extent: "\<not> (0x1040 :: u64) + push_bit (unat (r_length SUBTRACTOR_A)) 1
          > Address (Addressables ?G 0) + of_nat (length (Content (Addressables ?G 0)))"
      by (simp add: SUBTRACTOR_A_def example_graph_def)
    have frm: "findSymbolByIndex ?Bld (ucast (r_symbolnum SUBTRACTOR_A)) = Inr 1"
      by (simp add: example_builder_def example_graph_def SUBTRACTOR_A_def)
    have bytes: "([0xF8, 0xFF, 0xFF, 0xFF] :: u8 list) = Content (Addressables ?G 0)"
      "(0::nat) = unat (0x1040 - Address (Addressables ?G 0))"
      "(0::nat) + (if r_length SUBTRACTOR_A = 3 then 8 else 4) \<le> length ([0xF8, 0xFF, 0xFF, 0xFF] :: u8 list)"
      by (simp_all add: example_graph_def SUBTRACTOR_A_def)
    have val: "(0xFFFFFFFFFFFFFFF8 :: u64) =
       (if r_length SUBTRACTOR_A = 3 then
          ucast (([0xF8, 0xFF, 0xFF, 0xFF] :: u8 list) ! 0) OR push_bit 8 (ucast (([0xF8, 0xFF, 0xFF, 0xFF] :: u8 list) ! (0 + 1)))
          OR push_bit 16 (ucast (([0xF8, 0xFF, 0xFF, 0xFF] :: u8 list) ! (0 + 2)))
          OR push_bit 24 (ucast (([0xF8, 0xFF, 0xFF, 0xFF] :: u8 list) ! (0 + 3)))
          OR push_bit 32 (ucast (([0xF8, 0xFF, 0xFF, 0xFF] :: u8 list) ! (0 + 4)))
          OR push_bit 40 (ucast (([0xF8, 0xFF, 0xFF, 0xFF] :: u8 list) ! (0 + 5)))
          OR push_bit 48 (ucast (([0xF8, 0xFF, 0xFF, 0xFF] :: u8 list) ! (0 + 6)))
          OR push_bit 56 (ucast (([0xF8, 0xFF, 0xFF, 0xFF] :: u8 list) ! (0 + 7)))
        else
          scast (ucast (([0xF8, 0xFF, 0xFF, 0xFF] :: u8 list) ! 0) OR push_bit 8 (ucast (([0xF8, 0xFF, 0xFF, 0xFF] :: u8 list) ! (0 + 1)))
            OR push_bit 16 (ucast (([0xF8, 0xFF, 0xFF, 0xFF] :: u8 list) ! (0 + 2)))
            OR push_bit 24 (ucast (([0xF8, 0xFF, 0xFF, 0xFF] :: u8 list) ! (0 + 3))) :: 32 word))"
      by (simp add: SUBTRACTOR_A_def)
    have to: "(if r_extern UNSIGNED_B
              then findSymbolByIndex ?Bld (ucast (r_symbolnum UNSIGNED_B))
              else findSymbolByAddress ?Bld 0xFFFFFFFFFFFFFFF8) = Inr 0"
      by (simp add: example_builder_def example_graph_def UNSIGNED_B_def)
    have fv: "(0xFFFFFFFFFFFFFFF8 :: u64) = (if r_extern UNSIGNED_B then 0xFFFFFFFFFFFFFFF8
                           else 0xFFFFFFFFFFFFFFF8 - getAddress ?G 0)"
      by (simp add: UNSIGNED_B_def getAddress_def example_graph_def)
    from addRelocations_SUBTRACTOR_pair [OF sub pair fixup block extent frm bytes val to fv,
        of False "[]"]
    show ?thesis
      by (simp add: getAddressable_def getAddress_def example_graph_def SUBTRACTOR_A_def)
  qed
  have b: "addRelocations_body False (example_builder (example_graph 0x1040 [0, 0, 0, 0, 0, 0, 0, 0, 0x08, 0x07, 0x06, 0x05, 0x04, 0x03, 0x02, 0x01] 0x1000)) 0x1040
       [SUBTRACTOR_B64, UNSIGNED_A64] (example_graph 0x1040 [0, 0, 0, 0, 0, 0, 0, 0, 0x08, 0x07, 0x06, 0x05, 0x04, 0x03, 0x02, 0x01] 0x1000) = ?Rb"
  proof -
    let ?G = "example_graph 0x1040 [0, 0, 0, 0, 0, 0, 0, 0, 0x08, 0x07, 0x06, 0x05, 0x04, 0x03, 0x02, 0x01] 0x1000"
    let ?Bld = "example_builder ?G"
    have sub: "r_type SUBTRACTOR_B64 = ARM64_RELOC_SUBTRACTOR" "\<not> r_pcrel SUBTRACTOR_B64"
      "r_extern SUBTRACTOR_B64" "r_length SUBTRACTOR_B64 = 2 \<or> r_length SUBTRACTOR_B64 = 3"
      by (simp_all add: SUBTRACTOR_B64_def)
    have pair: "r_address UNSIGNED_A64 = r_address SUBTRACTOR_B64" "r_length UNSIGNED_A64 = r_length SUBTRACTOR_B64"
      by (simp_all add: SUBTRACTOR_B64_def UNSIGNED_A64_def)
    have fixup: "(0x1048 :: u64) = 0x1040 + ucast (r_address SUBTRACTOR_B64)"
      by (simp add: SUBTRACTOR_B64_def)
    have block: "findSymbolByAddress ?Bld 0x1048 = Inr 0" "(0::nat) = getBlock ?G 0"
      by (simp_all add: example_builder_def example_graph_def getBlock_def)
    have extent: "\<not> (0x1048 :: u64) + push_bit (unat (r_length SUBTRACTOR_B64)) 1
          > Address (Addressables ?G 0) + of_nat (length (Content (Addressables ?G 0)))"
      by (simp add: SUBTRACTOR_B64_def example_graph_def)
    have frm: "findSymbolByIndex ?Bld (ucast (r_symbolnum SUBTRACTOR_B64)) = Inr 0"
      by (simp add: example_builder_def example_graph_def SUBTRACTOR_B64_def)
    have bytes: "([0, 0, 0, 0, 0, 0, 0, 0, 0x08, 0x07, 0x06, 0x05, 0x04, 0x03, 0x02, 0x01] :: u8 list) = Content (Addressables ?G 0)"
      "(8::nat) = unat (0x1048 - Address (Addressables ?G 0))"
      "(8::nat) + (if r_length SUBTRACTOR_B64 = 3 then 8 else 4) \<le> length ([0, 0, 0, 0, 0, 0, 0, 0, 0x08, 0x07, 0x06, 0x05, 0x04, 0x03, 0x02, 0x01] :: u8 list)"
      by (simp_all add: example_graph_def SUBTRACTOR_B64_def)
    have val: "(0x0102030405060708 :: u64) =
       (if r_length SUBTRACTOR_B64 = 3 then
          ucast (([0, 0, 0, 0, 0, 0, 0, 0, 0x08, 0x07, 0x06, 0x05, 0x04, 0x03, 0x02, 0x01] :: u8 list) ! 8) OR push_bit 8 (ucast (([0, 0, 0, 0, 0, 0, 0, 0, 0x08, 0x07, 0x06, 0x05, 0x04, 0x03, 0x02, 0x01] :: u8 list) ! (8 + 1)))
          OR push_bit 16 (ucast (([0, 0, 0, 0, 0, 0, 0, 0, 0x08, 0x07, 0x06, 0x05, 0x04, 0x03, 0x02, 0x01] :: u8 list) ! (8 + 2)))
          OR push_bit 24 (ucast (([0, 0, 0, 0, 0, 0, 0, 0, 0x08, 0x07, 0x06, 0x05, 0x04, 0x03, 0x02, 0x01] :: u8 list) ! (8 + 3)))
          OR push_bit 32 (ucast (([0, 0, 0, 0, 0, 0, 0, 0, 0x08, 0x07, 0x06, 0x05, 0x04, 0x03, 0x02, 0x01] :: u8 list) ! (8 + 4)))
          OR push_bit 40 (ucast (([0, 0, 0, 0, 0, 0, 0, 0, 0x08, 0x07, 0x06, 0x05, 0x04, 0x03, 0x02, 0x01] :: u8 list) ! (8 + 5)))
          OR push_bit 48 (ucast (([0, 0, 0, 0, 0, 0, 0, 0, 0x08, 0x07, 0x06, 0x05, 0x04, 0x03, 0x02, 0x01] :: u8 list) ! (8 + 6)))
          OR push_bit 56 (ucast (([0, 0, 0, 0, 0, 0, 0, 0, 0x08, 0x07, 0x06, 0x05, 0x04, 0x03, 0x02, 0x01] :: u8 list) ! (8 + 7)))
        else
          scast (ucast (([0, 0, 0, 0, 0, 0, 0, 0, 0x08, 0x07, 0x06, 0x05, 0x04, 0x03, 0x02, 0x01] :: u8 list) ! 8) OR push_bit 8 (ucast (([0, 0, 0, 0, 0, 0, 0, 0, 0x08, 0x07, 0x06, 0x05, 0x04, 0x03, 0x02, 0x01] :: u8 list) ! (8 + 1)))
            OR push_bit 16 (ucast (([0, 0, 0, 0, 0, 0, 0, 0, 0x08, 0x07, 0x06, 0x05, 0x04, 0x03, 0x02, 0x01] :: u8 list) ! (8 + 2)))
            OR push_bit 24 (ucast (([0, 0, 0, 0, 0, 0, 0, 0, 0x08, 0x07, 0x06, 0x05, 0x04, 0x03, 0x02, 0x01] :: u8 list) ! (8 + 3))) :: 32 word))"
      by (simp add: SUBTRACTOR_B64_def)
    have to: "(if r_extern UNSIGNED_A64
              then findSymbolByIndex ?Bld (ucast (r_symbolnum UNSIGNED_A64))
              else findSymbolByAddress ?Bld 0x0102030405060708) = Inr 1"
      by (simp add: example_builder_def example_graph_def UNSIGNED_A64_def)
    have fv: "(0x0102030405060708 :: u64) = (if r_extern UNSIGNED_A64 then 0x0102030405060708
                           else 0x0102030405060708 - getAddress ?G 1)"
      by (simp add: UNSIGNED_A64_def getAddress_def example_graph_def)
    from addRelocations_SUBTRACTOR_pair [OF sub pair fixup block extent frm bytes val to fv,
        of False "[]"]
    show ?thesis
      by (simp add: getAddressable_def getAddress_def example_graph_def SUBTRACTOR_B64_def)
  qed
  have c: "addRelocations_body False (example_builder (example_graph 0x1040 [0, 0, 0, 0, 0, 0, 0, 0, 0x44, 0x10, 0, 0, 0, 0, 0, 0] 0x1000)) 0x1040
       [SUBTRACTOR_A64, UNSIGNED_local64] (example_graph 0x1040 [0, 0, 0, 0, 0, 0, 0, 0, 0x44, 0x10, 0, 0, 0, 0, 0, 0] 0x1000) = ?Rc"
  proof -
    let ?G = "example_graph 0x1040 [0, 0, 0, 0, 0, 0, 0, 0, 0x44, 0x10, 0, 0, 0, 0, 0, 0] 0x1000"
    let ?Bld = "example_builder ?G"
    have sub: "r_type SUBTRACTOR_A64 = ARM64_RELOC_SUBTRACTOR" "\<not> r_pcrel SUBTRACTOR_A64"
      "r_extern SUBTRACTOR_A64" "r_length SUBTRACTOR_A64 = 2 \<or> r_length SUBTRACTOR_A64 = 3"
      by (simp_all add: SUBTRACTOR_A64_def)
    have pair: "r_address UNSIGNED_local64 = r_address SUBTRACTOR_A64" "r_length UNSIGNED_local64 = r_length SUBTRACTOR_A64"
      by (simp_all add: SUBTRACTOR_A64_def UNSIGNED_local64_def)
    have fixup: "(0x1048 :: u64) = 0x1040 + ucast (r_address SUBTRACTOR_A64)"
      by (simp add: SUBTRACTOR_A64_def)
    have block: "findSymbolByAddress ?Bld 0x1048 = Inr 0" "(0::nat) = getBlock ?G 0"
      by (simp_all add: example_builder_def example_graph_def getBlock_def)
    have extent: "\<not> (0x1048 :: u64) + push_bit (unat (r_length SUBTRACTOR_A64)) 1
          > Address (Addressables ?G 0) + of_nat (length (Content (Addressables ?G 0)))"
      by (simp add: SUBTRACTOR_A64_def example_graph_def)
    have frm: "findSymbolByIndex ?Bld (ucast (r_symbolnum SUBTRACTOR_A64)) = Inr 1"
      by (simp add: example_builder_def example_graph_def SUBTRACTOR_A64_def)
    have bytes: "([0, 0, 0, 0, 0, 0, 0, 0, 0x44, 0x10, 0, 0, 0, 0, 0, 0] :: u8 list) = Content (Addressables ?G 0)"
      "(8::nat) = unat (0x1048 - Address (Addressables ?G 0))"
      "(8::nat) + (if r_length SUBTRACTOR_A64 = 3 then 8 else 4) \<le> length ([0, 0, 0, 0, 0, 0, 0, 0, 0x44, 0x10, 0, 0, 0, 0, 0, 0] :: u8 list)"
      by (simp_all add: example_graph_def SUBTRACTOR_A64_def)
    have val: "(0x1044 :: u64) =
       (if r_length SUBTRACTOR_A64 = 3 then
          ucast (([0, 0, 0, 0, 0, 0, 0, 0, 0x44, 0x10, 0, 0, 0, 0, 0, 0] :: u8 list) ! 8) OR push_bit 8 (ucast (([0, 0, 0, 0, 0, 0, 0, 0, 0x44, 0x10, 0, 0, 0, 0, 0, 0] :: u8 list) ! (8 + 1)))
          OR push_bit 16 (ucast (([0, 0, 0, 0, 0, 0, 0, 0, 0x44, 0x10, 0, 0, 0, 0, 0, 0] :: u8 list) ! (8 + 2)))
          OR push_bit 24 (ucast (([0, 0, 0, 0, 0, 0, 0, 0, 0x44, 0x10, 0, 0, 0, 0, 0, 0] :: u8 list) ! (8 + 3)))
          OR push_bit 32 (ucast (([0, 0, 0, 0, 0, 0, 0, 0, 0x44, 0x10, 0, 0, 0, 0, 0, 0] :: u8 list) ! (8 + 4)))
          OR push_bit 40 (ucast (([0, 0, 0, 0, 0, 0, 0, 0, 0x44, 0x10, 0, 0, 0, 0, 0, 0] :: u8 list) ! (8 + 5)))
          OR push_bit 48 (ucast (([0, 0, 0, 0, 0, 0, 0, 0, 0x44, 0x10, 0, 0, 0, 0, 0, 0] :: u8 list) ! (8 + 6)))
          OR push_bit 56 (ucast (([0, 0, 0, 0, 0, 0, 0, 0, 0x44, 0x10, 0, 0, 0, 0, 0, 0] :: u8 list) ! (8 + 7)))
        else
          scast (ucast (([0, 0, 0, 0, 0, 0, 0, 0, 0x44, 0x10, 0, 0, 0, 0, 0, 0] :: u8 list) ! 8) OR push_bit 8 (ucast (([0, 0, 0, 0, 0, 0, 0, 0, 0x44, 0x10, 0, 0, 0, 0, 0, 0] :: u8 list) ! (8 + 1)))
            OR push_bit 16 (ucast (([0, 0, 0, 0, 0, 0, 0, 0, 0x44, 0x10, 0, 0, 0, 0, 0, 0] :: u8 list) ! (8 + 2)))
            OR push_bit 24 (ucast (([0, 0, 0, 0, 0, 0, 0, 0, 0x44, 0x10, 0, 0, 0, 0, 0, 0] :: u8 list) ! (8 + 3))) :: 32 word))"
      by (simp add: SUBTRACTOR_A64_def)
    have to: "(if r_extern UNSIGNED_local64
              then findSymbolByIndex ?Bld (ucast (r_symbolnum UNSIGNED_local64))
              else findSymbolByAddress ?Bld 0x1044) = Inr 0"
      by (simp add: example_builder_def example_graph_def UNSIGNED_local64_def)
    have fv: "(4 :: u64) = (if r_extern UNSIGNED_local64 then 0x1044
                           else 0x1044 - getAddress ?G 0)"
      by (simp add: UNSIGNED_local64_def getAddress_def example_graph_def)
    have neg: "(- 4 :: u64) = 0xFFFFFFFFFFFFFFFC" by simp
    show ?thesis
      using addRelocations_SUBTRACTOR_pair [OF sub pair fixup block extent frm bytes val to fv,
        of False "[]"]
      by (simp add: getAddressable_def getAddress_def example_graph_def SUBTRACTOR_A64_def neg)
  qed
  from a b c show ?thesis by simp
qed

section \<open>Branch26 fixups\<close>

lemma mask26_numeral: "(0x3ffffff :: 'a::len word) = mask 26"
  by (simp add: mask_eq_exp_minus_1)

lemma mask28_numeral: "(2 ^ 28 - 1 :: 'a::len word) = mask 28"
  by (simp add: mask_eq_exp_minus_1)

lemma mask31_numeral: "(0x7fffffff :: 'a::len word) = mask 31"
  by (simp add: mask_eq_exp_minus_1)

lemma top6_numeral: "(0xfc000000 :: u32) = NOT (mask 26)"
  by (simp add: mask_eq_exp_minus_1)

lemma Branch26_imm26:
  fixes V :: u64
  shows "drop_bit 2 ((ucast V :: u32) AND (2 ^ 28 - 1)) = ucast (drop_bit 2 V AND 0x3ffffff)"
  unfolding mask26_numeral mask28_numeral
  by (rule bit_word_eqI) (auto simp: bit_simps)

lemma B_or_BL_low_bits:
  fixes I :: u32
  assumes "I AND 0x7fffffff = 0x14000000"
  shows "I AND mask 26 = 0"
proof -
  have "I AND mask 26 = (I AND mask 31) AND mask 26"
    by (rule bit_word_eqI) (auto simp: bit_simps)
  also have "\<dots> = 0x14000000 AND mask 26"
    using assms by (simp add: mask31_numeral)
  also have "\<dots> = 0" by (simp add: mask_eq_exp_minus_1)
  finally show ?thesis .
qed

lemma B_or_BL_top6:
  fixes I :: u32
  assumes "I AND 0x7fffffff = 0x14000000"
  shows "I AND 0xfc000000 = I"
proof -
  have z: "I AND mask 26 = 0" using assms by (rule B_or_BL_low_bits)
  have low: "\<not> bit I n" if "n < 26" for n
  proof -
    have "\<not> bit (I AND mask 26) n" using z by simp
    with that show ?thesis by (simp add: bit_simps)
  qed
  show ?thesis unfolding top6_numeral
    by (rule bit_word_eqI) (auto simp: bit_simps low)
qed

text \<open>
  C4. For a Branch26 edge, with \<open>V = target.address - (block.address + offset) + addend\<close>
  in 64-bit arithmetic and \<open>I\<close> the instruction word at the fixup, a B or BL with a zero
  immediate: the applier fails with "Branch26 target is not 32-bit aligned" (Misalignment)
  when \<open>V & 3 \<noteq> 0\<close>; otherwise it fails with the out-of-range error exactly when \<open>V\<close>, as a
  signed value, is outside \<open>[-2^27, 2^27)\<close>; otherwise it writes, little-endian at the
  edge's offset, the word with the top six bits of \<open>I\<close> and \<open>imm26 = (V >> 2) & 0x3ffffff\<close>.
  The alignment check comes first, as in the source. In a build with assertions the
  fixup address must be 4-byte aligned (the applier asserts it).
\<close>

theorem applyFixup_Branch26_correct:
  assumes kind: "getKind E = Branch26"
    and aligned: "NDEBUG \<or> (Address (Addressables G B) + ucast (getOffset E)) AND 3 = 0"
    and instr: "read_ulittle32 mem (unat (getOffset E)) = Some I"
    and b_or_bl: "I AND 0x7fffffff = 0x14000000"
    and V: "V = getAddress G (getTarget E)
                - (Address (Addressables G B) + ucast (getOffset E)) + getAddend E"
  shows "applyFixup NDEBUG G B E mem =
     (if V AND 3 \<noteq> 0 then Inl (Error Branch26_target_not_32bit_aligned)
      else if sint V < - (2 ^ 27) \<or> 2 ^ 27 \<le> sint V
        then Inl (Error (Relocation_target_out_of_range B E))
      else Inr (take (unat (getOffset E)) mem
                @ le_bytes 4 ((I AND 0xfc000000) OR ucast (drop_bit 2 V AND 0x3ffffff))
                @ drop (unat (getOffset E) + 4) mem))
    \<and> errorKind Branch26_target_not_32bit_aligned = Misalignment
    \<and> errorKind (Relocation_target_out_of_range B E) = OutOfRange"
proof -
  have len: "unat (getOffset E) + 4 \<le> length mem"
    using instr by (rule read_ulittle32_Some)
  have enc: "I OR drop_bit 2 ((ucast V :: u32) AND (2 ^ 28 - 1))
      = (I AND 0xfc000000) OR ucast (drop_bit 2 V AND 0x3ffffff)"
    by (simp only: Branch26_imm26 B_or_BL_top6 [OF b_or_bl])
  show ?thesis
    using aligned enc
    by (auto simp: applyFixup_def kind applyFixup_Branch26_def assert_def Let_def V [symmetric]
        load32_def instr b_or_bl store32_eq [OF len] targetOutOfRangeError_def)
qed

text \<open>
  The local BL of the specification's first scenario (a BL at \<open>0x1000\<close> to \<open>0x1100\<close>
  becomes \<open>0x94000040\<close>), and the lower bound: \<open>V = -2^27\<close> is accepted, in a build with
  assertions too.
\<close>

theorem applyFixup_Branch26_witness:
  "applyFixup True (example_graph 0x1000 [0, 0, 0, 0x94] 0x1100) 0
     \<lparr>getKind = Branch26, getOffset = 0, getTarget = 1, getAddend = 0\<rparr> [0, 0, 0, 0x94]
   = Inr [0x40, 0, 0, 0x94]
   \<and> applyFixup False (example_graph 0x8000000 [0, 0, 0, 0x94] 0) 0
     \<lparr>getKind = Branch26, getOffset = 0, getTarget = 1, getAddend = 0\<rparr> [0, 0, 0, 0x94]
   = Inr [0, 0, 0, 0x96]"
  using applyFixup_Branch26_correct
     [of "\<lparr>getKind = Branch26, getOffset = 0, getTarget = 1, getAddend = 0\<rparr>"
         True "example_graph 0x1000 [0, 0, 0, 0x94] 0x1100" 0 "[0, 0, 0, 0x94]"
         "0x94000000" "0x100"]
   applyFixup_Branch26_correct
     [of "\<lparr>getKind = Branch26, getOffset = 0, getTarget = 1, getAddend = 0\<rparr>"
         False "example_graph 0x8000000 [0, 0, 0, 0x94] 0" 0 "[0, 0, 0, 0x94]"
         "0x94000000" "- 0x8000000"]
  by (simp add: example_eval)

section \<open>PageOffset12 fixups\<close>

lemma PageOffset12_aligned_iff_dvd:
  fixes off :: u64
  shows "(off AND (push_bit s 1 - 1) \<noteq> 0) = (\<not> 2 ^ s dvd unat off)"
proof -
  have "off AND (push_bit s 1 - 1) = take_bit s off"
    by (simp add: take_bit_eq_mask mask_eq_exp_minus_1 push_bit_eq_mult)
  moreover have "(take_bit s off = 0) = (2 ^ s dvd unat off)"
    by (metis take_bit_eq_0_iff unsigned_take_bit_eq unsigned_eq_0_iff take_bit_nat_eq_self_iff)
  ultimately show ?thesis by simp
qed

lemma getPageOffset12Shift_cases:
  "getPageOffset12Shift I =
     (if I AND 0x3ffffc00 = 0x39400000 \<or> I AND 0x3ffffc00 = 0x3d400000
        then unat (drop_bit 30 I)
      else if I AND 0xfffffc00 = 0x3dc00000 then 4 else 0)"
  by (simp add: getPageOffset12Shift_def Let_def)

text \<open>
  C5. For a PageOffset12 edge with instruction word \<open>I\<close> at the fixup, the shift is
  \<open>I >> 30\<close> when \<open>I & 0x3ffffc00\<close> is \<open>0x39400000\<close> (GPR LDR immediate) or \<open>0x3d400000\<close>
  (Neon LDR immediate up to 64 bits), 4 when \<open>I & 0xfffffc00 = 0x3dc00000\<close> (Neon LDR
  immediate, 128 bits: the mask of the source is \<open>LDRLiteralMask | SizeBitsMask\<close>), and 0
  otherwise. The applier fails with "PAGEOFF12 target is not aligned" (Misalignment)
  exactly when \<open>target.address & 0xfff\<close> is not a multiple of \<open>1 << shift\<close>, and
  otherwise writes \<open>I | (((target.address & 0xfff) >> shift) << 10)\<close>, little-endian, at
  the edge's offset. In a build with assertions the edge's addend must be zero (the
  applier asserts it).
\<close>

theorem applyFixup_PageOffset12_correct:
  assumes kind: "getKind E = PageOffset12"
    and addend: "NDEBUG \<or> getAddend E = 0"
    and instr: "read_ulittle32 mem (unat (getOffset E)) = Some I"
    and off: "off = getAddress G (getTarget E) AND 0xfff"
    and shift: "shift = (if I AND 0x3ffffc00 = 0x39400000 \<or> I AND 0x3ffffc00 = 0x3d400000
                  then unat (drop_bit 30 I)
                else if I AND 0xfffffc00 = 0x3dc00000 then 4 else 0)"
  shows "getPageOffset12Shift I = shift
    \<and> applyFixup NDEBUG G B E mem =
     (if \<not> 2 ^ shift dvd unat off then Inl (Error PAGEOFF12_target_not_aligned)
      else Inr (take (unat (getOffset E)) mem
                @ le_bytes 4 (I OR ucast (push_bit 10 (drop_bit shift off)))
                @ drop (unat (getOffset E) + 4) mem))
    \<and> errorKind PAGEOFF12_target_not_aligned = Misalignment"
proof -
  have len: "unat (getOffset E) + 4 \<le> length mem"
    using instr by (rule read_ulittle32_Some)
  have s: "getPageOffset12Shift I = shift"
    unfolding shift by (rule getPageOffset12Shift_cases)
  show ?thesis
    using addend
    by (auto simp: applyFixup_def kind applyFixup_PageOffset12_def assert_def Let_def
        off [symmetric] s load32_def instr store32_eq [OF len] PageOffset12_aligned_iff_dvd
        simp del: push_bit_of_1)
qed

text \<open>
  A 64-bit LDR (\<open>0xf9400000\<close>, shift 3) to an address with page offset \<open>0xff9\<close> fails; to
  one with page offset \<open>0xff8\<close> it gets the immediate \<open>0x1ff\<close>.
\<close>

theorem applyFixup_PageOffset12_witness:
  "applyFixup False (example_graph 0x1000 [0, 0, 0x40, 0xf9] 0x3ff9) 0
     \<lparr>getKind = PageOffset12, getOffset = 0, getTarget = 1, getAddend = 0\<rparr>
     [0, 0, 0x40, 0xf9]
   = Inl (Error PAGEOFF12_target_not_aligned)
   \<and> applyFixup False (example_graph 0x1000 [0, 0, 0x40, 0xf9] 0x3ff8) 0
     \<lparr>getKind = PageOffset12, getOffset = 0, getTarget = 1, getAddend = 0\<rparr>
     [0, 0, 0x40, 0xf9]
   = Inr [0, 0xfc, 0x47, 0xf9]"
proof -
  let ?E = "\<lparr>getKind = PageOffset12, getOffset = 0, getTarget = 1, getAddend = 0\<rparr>"
  let ?I = "0xf9400000 :: u32"
  have kind: "getKind ?E = PageOffset12" by simp
  have addend: "False \<or> getAddend ?E = 0" by simp
  have instr: "read_ulittle32 [0, 0, 0x40, 0xf9] (unat (getOffset ?E)) = Some ?I"
    by (simp add: read_ulittle32_def read_bytes_def)
  have shift: "(3::nat) = (if ?I AND 0x3ffffc00 = 0x39400000 \<or> ?I AND 0x3ffffc00 = 0x3d400000
                  then unat (drop_bit 30 ?I)
                else if ?I AND 0xfffffc00 = 0x3dc00000 then 4 else 0)"
    by simp
  have off1: "(0xff9 :: u64)
      = getAddress (example_graph 0x1000 [0, 0, 0x40, 0xf9] 0x3ff9) (getTarget ?E) AND 0xfff"
    by (simp add: example_graph_def getAddress_def)
  have off2: "(0xff8 :: u64)
      = getAddress (example_graph 0x1000 [0, 0, 0x40, 0xf9] 0x3ff8) (getTarget ?E) AND 0xfff"
    by (simp add: example_graph_def getAddress_def)
  from applyFixup_PageOffset12_correct [OF kind addend instr off1 shift, of 0]
    applyFixup_PageOffset12_correct [OF kind addend instr off2 shift, of 0]
  show ?thesis by (simp add: le_bytes_4)
qed

section \<open>Parsing a SUBTRACTOR pair and applying its fixup\<close>

lemma getAddress_setAddresses_addEdge:
  "getAddress (setAddresses f (addEdge G b K off T A)) S
     = f (getAddressable G S) + SymOffset (Symbols G S)"
  by (simp add: getAddress_def setAddresses_def addEdge_def getAddressable_def)

lemma Address_setAddresses:
  "Address (Addressables (setAddresses f G) b) = f b"
  by (simp add: setAddresses_def)

lemma Edges_addEdge:
  "Edges (Addressables (addEdge G b K off T A) b)
     = Edges (Addressables G b) @ [\<lparr>getKind = K, getOffset = off, getTarget = T, getAddend = A\<rparr>]"
  by (simp add: addEdge_def)

lemma applyFixup_Delta_eq:
  assumes kind: "getKind E \<in> {Delta32, Delta64, NegDelta32, NegDelta64}"
    and V: "V = (if getKind E = Delta32 \<or> getKind E = Delta64
                 then getAddress G (getTarget E)
                      - (Address (Addressables G B) + ucast (getOffset E)) + getAddend E
                 else Address (Addressables G B) + ucast (getOffset E)
                      - getAddress G (getTarget E) + getAddend E)"
    and bounds: "unat (getOffset E)
                 + (if getKind E = Delta32 \<or> getKind E = NegDelta32 then 4 else 8) \<le> length mem"
  shows "applyFixup NDEBUG G B E mem =
     (if getKind E = Delta32 \<or> getKind E = NegDelta32 then
        (if sint V < - (2 ^ 31) \<or> 2 ^ 31 \<le> sint V
         then Inl (Error (Relocation_target_out_of_range B E))
         else Inr (take (unat (getOffset E)) mem @ le_bytes 4 (ucast V :: u32)
                   @ drop (unat (getOffset E) + 4) mem))
      else Inr (take (unat (getOffset E)) mem @ le_bytes 8 V
                @ drop (unat (getOffset E) + 8) mem))"
proof -
  have "applyFixup NDEBUG G B E mem = applyFixup_Delta NDEBUG G B E mem"
    using kind by (auto simp: applyFixup_def)
  also have "\<dots> = (if getKind E = Delta32 \<or> getKind E = NegDelta32 then
        (if sint V < - (2 ^ 31) \<or> 2 ^ 31 \<le> sint V
         then Inl (targetOutOfRangeError B E)
         else store32 mem (unat (getOffset E)) (ucast V))
      else store64 mem (unat (getOffset E)) V)"
    unfolding applyFixup_Delta_def Let_def V by auto
  also have "\<dots> = (if getKind E = Delta32 \<or> getKind E = NegDelta32 then
        (if sint V < - (2 ^ 31) \<or> 2 ^ 31 \<le> sint V
         then Inl (Error (Relocation_target_out_of_range B E))
         else Inr (take (unat (getOffset E)) mem @ le_bytes 4 (ucast V :: u32)
                   @ drop (unat (getOffset E) + 4) mem))
      else Inr (take (unat (getOffset E)) mem @ le_bytes 8 V
                @ drop (unat (getOffset E) + 8) mem))"
    using bounds by (auto simp: store32_eq store64_eq targetOutOfRangeError_def)
  finally show ?thesis .
qed

text \<open>
  C3, as the code has it. Take a SUBTRACTOR pair for \<open>B - A\<close> as in C2, where the block to
  fix is the addressable of \<open>A\<close> (FromSymbol) or of \<open>B\<close> (ToSymbol): the parser succeeds and
  adds one edge to the block. After the blocks got their final addresses (\<open>f\<close>, any
  assignment), the applier on that edge writes at the fixup, little-endian,
  \<open>V = B.address - A.address + FixupValue\<close> with the final addresses, where \<open>FixupValue\<close>
  is the addend the parser read from the fixup bytes: as 64 bits when \<open>r_length\<close> is 3;
  as 32 bits when \<open>r_length\<close> is 2 and \<open>V\<close> is in \<open>[-2^31, 2^31)\<close>, and otherwise the applier
  fails with the out-of-range error. So the bytes are \<open>B - A\<close> when the fixup bytes held
  zero before. The block's content is shorter than \<open>2^32\<close> bytes (an edge's offset has 32
  bits), and the working memory is as long as the content.
\<close>

theorem SUBTRACTOR_parse_then_fixup:
  assumes sub: "r_type SubRI = ARM64_RELOC_SUBTRACTOR" "\<not> r_pcrel SubRI" "r_extern SubRI"
    and len: "r_length SubRI = 2 \<or> r_length SubRI = 3"
    and pair: "r_address UnsignedRI = r_address SubRI" "r_length UnsignedRI = r_length SubRI"
    and fixup: "FixupAddress = SectionAddress + ucast (r_address SubRI)"
    and block: "findSymbolByAddress Bld FixupAddress = Inr SymbolToFix"
      "BlockToFix = getBlock G SymbolToFix"
    and extent: "\<not> FixupAddress + push_bit (unat (r_length SubRI)) 1
          > Address (Addressables G BlockToFix)
            + of_nat (length (Content (Addressables G BlockToFix)))"
    and frm: "findSymbolByIndex Bld (ucast (r_symbolnum SubRI)) = Inr FromSymbol"
    and val: "readFixupValue (r_length SubRI)
          (Content (Addressables G BlockToFix),
           unat (FixupAddress - Address (Addressables G BlockToFix))) = Inr FixupValue0"
    and to: "(if r_extern UnsignedRI
              then findSymbolByIndex Bld (ucast (r_symbolnum UnsignedRI))
              else findSymbolByAddress Bld FixupValue0) = Inr ToSymbol"
    and fv: "FixupValue = (if r_extern UnsignedRI then FixupValue0
                           else FixupValue0 - getAddress G ToSymbol)"
    and in_block: "BlockToFix = getAddressable G FromSymbol
                   \<or> BlockToFix = getAddressable G ToSymbol"
    and size: "length (Content (Addressables G BlockToFix)) < 2 ^ 32"
    and mem: "length mem = length (Content (Addressables G BlockToFix))"
    and off: "off = unat (FixupAddress - Address (Addressables G BlockToFix))"
  shows "\<exists>G1 E V.
      addRelocations_body NDEBUG Bld SectionAddress (SubRI # UnsignedRI # rest) G
        = Inr (G1, UnsignedRI # rest)
    \<and> Edges (Addressables G1 BlockToFix) = Edges (Addressables G BlockToFix) @ [E]
    \<and> V = getAddress (setAddresses f G1) ToSymbol - getAddress (setAddresses f G1) FromSymbol
            + FixupValue
    \<and> applyFixup NDEBUG' (setAddresses f G1) BlockToFix E mem =
        (if r_length SubRI = 3 then Inr (take off mem @ le_bytes 8 V @ drop (off + 8) mem)
         else if sint V < - (2 ^ 31) \<or> 2 ^ 31 \<le> sint V
           then Inl (Error (Relocation_target_out_of_range BlockToFix E))
         else Inr (take off mem @ le_bytes 4 (ucast V :: u32) @ drop (off + 4) mem))"
proof -
  let ?o = "FixupAddress - Address (Addressables G BlockToFix)"
  let ?B' = "f (getAddressable G ToSymbol) + SymOffset (Symbols G ToSymbol)"
  let ?A' = "f (getAddressable G FromSymbol) + SymOffset (Symbols G FromSymbol)"
  let ?V = "?B' - ?A' + FixupValue"
  note parse = SUBTRACTOR_pair_parse [OF sub len pair fixup block extent frm val to fv,
      of NDEBUG rest]
  have bounds: "off + (if r_length SubRI = 3 then 8 else 4) \<le> length mem"
    using readFixupValue_in_bounds [OF val] by (simp add: off mem)
  then have "unat ?o < 2 ^ 32" using size by (simp add: off mem split: if_splits)
  note fits = offset_fits [OF this]
  show ?thesis
  proof (cases "BlockToFix = getAddressable G FromSymbol")
    case True
    let ?K = "if r_length SubRI = 3 then Delta64 else Delta32"
    let ?A = "FixupValue + (FixupAddress - getAddress G FromSymbol)"
    let ?E = "\<lparr>getKind = ?K, getOffset = ucast ?o, getTarget = ToSymbol, getAddend = ?A\<rparr>"
    let ?G1 = "addEdge G BlockToFix ?K (ucast ?o) ToSymbol ?A"
    have p: "addRelocations_body NDEBUG Bld SectionAddress (SubRI # UnsignedRI # rest) G
        = Inr (?G1, UnsignedRI # rest)"
      using parse True by simp
    have from_G: "getAddress G FromSymbol
        = Address (Addressables G BlockToFix) + SymOffset (Symbols G FromSymbol)"
      using True by (simp add: getAddress_def getAddressable_def)
    have from_f: "f (getAddressable G FromSymbol) = f BlockToFix"
      using True by simp
    have kind: "getKind ?E \<in> {Delta32, Delta64, NegDelta32, NegDelta64}" by simp
    have Veq: "?V = (if getKind ?E = Delta32 \<or> getKind ?E = Delta64
           then getAddress (setAddresses f ?G1) (getTarget ?E)
                - (Address (Addressables (setAddresses f ?G1) BlockToFix)
                   + ucast (getOffset ?E)) + getAddend ?E
           else Address (Addressables (setAddresses f ?G1) BlockToFix) + ucast (getOffset ?E)
                - getAddress (setAddresses f ?G1) (getTarget ?E) + getAddend ?E)"
      unfolding getAddress_setAddresses_addEdge Address_setAddresses from_G from_f
      by (simp add: fits)
    have b: "unat (getOffset ?E)
          + (if getKind ?E = Delta32 \<or> getKind ?E = NegDelta32 then 4 else 8) \<le> length mem"
      using bounds len by (auto simp: fits off)
    have "applyFixup NDEBUG' (setAddresses f ?G1) BlockToFix ?E mem =
        (if r_length SubRI = 3 then Inr (take off mem @ le_bytes 8 ?V @ drop (off + 8) mem)
         else if sint ?V < - (2 ^ 31) \<or> 2 ^ 31 \<le> sint ?V
           then Inl (Error (Relocation_target_out_of_range BlockToFix ?E))
         else Inr (take off mem @ le_bytes 4 (ucast ?V :: u32) @ drop (off + 4) mem))"
      unfolding applyFixup_Delta_eq [OF kind Veq b]
      using len by (auto simp: fits off)
    moreover have "Edges (Addressables ?G1 BlockToFix) = Edges (Addressables G BlockToFix) @ [?E]"
      by (rule Edges_addEdge)
    moreover have "?V = getAddress (setAddresses f ?G1) ToSymbol
         - getAddress (setAddresses f ?G1) FromSymbol + FixupValue"
      by (simp only: getAddress_setAddresses_addEdge)
    ultimately show ?thesis using p by blast
  next
    case False
    with in_block have to_block: "BlockToFix = getAddressable G ToSymbol" by simp
    let ?K = "if r_length SubRI = 3 then NegDelta64 else NegDelta32"
    let ?A = "FixupValue - (FixupAddress - getAddress G ToSymbol)"
    let ?E = "\<lparr>getKind = ?K, getOffset = ucast ?o, getTarget = FromSymbol, getAddend = ?A\<rparr>"
    let ?G1 = "addEdge G BlockToFix ?K (ucast ?o) FromSymbol ?A"
    have p: "addRelocations_body NDEBUG Bld SectionAddress (SubRI # UnsignedRI # rest) G
        = Inr (?G1, UnsignedRI # rest)"
      using parse False to_block by simp
    have to_G: "getAddress G ToSymbol
        = Address (Addressables G BlockToFix) + SymOffset (Symbols G ToSymbol)"
      using to_block by (simp add: getAddress_def getAddressable_def)
    have to_f: "f (getAddressable G ToSymbol) = f BlockToFix"
      using to_block by simp
    have kind: "getKind ?E \<in> {Delta32, Delta64, NegDelta32, NegDelta64}" by simp
    have Veq: "?V = (if getKind ?E = Delta32 \<or> getKind ?E = Delta64
           then getAddress (setAddresses f ?G1) (getTarget ?E)
                - (Address (Addressables (setAddresses f ?G1) BlockToFix)
                   + ucast (getOffset ?E)) + getAddend ?E
           else Address (Addressables (setAddresses f ?G1) BlockToFix) + ucast (getOffset ?E)
                - getAddress (setAddresses f ?G1) (getTarget ?E) + getAddend ?E)"
      unfolding getAddress_setAddresses_addEdge Address_setAddresses to_G to_f
      by (simp add: fits)
    have b: "unat (getOffset ?E)
          + (if getKind ?E = Delta32 \<or> getKind ?E = NegDelta32 then 4 else 8) \<le> length mem"
      using bounds len by (auto simp: fits off)
    have "applyFixup NDEBUG' (setAddresses f ?G1) BlockToFix ?E mem =
        (if r_length SubRI = 3 then Inr (take off mem @ le_bytes 8 ?V @ drop (off + 8) mem)
         else if sint ?V < - (2 ^ 31) \<or> 2 ^ 31 \<le> sint ?V
           then Inl (Error (Relocation_target_out_of_range BlockToFix ?E))
         else Inr (take off mem @ le_bytes 4 (ucast ?V :: u32) @ drop (off + 4) mem))"
      unfolding applyFixup_Delta_eq [OF kind Veq b]
      using len by (auto simp: fits off)
    moreover have "Edges (Addressables ?G1 BlockToFix) = Edges (Addressables G BlockToFix) @ [?E]"
      by (rule Edges_addEdge)
    moreover have "?V = getAddress (setAddresses f ?G1) ToSymbol
         - getAddress (setAddresses f ?G1) FromSymbol + FixupValue"
      by (simp only: getAddress_setAddresses_addEdge)
    ultimately show ?thesis using p by blast
  qed
qed


text \<open>
  The fifth scenario of the specification, with \<open>A\<close> moved from \<open>0x1000\<close> to \<open>0x7000\<close> and
  \<open>B\<close> from \<open>0x1040\<close> to \<open>0x9000\<close>: the four zero bytes become \<open>0x2000\<close>.
\<close>

theorem SUBTRACTOR_parse_then_fixup_witness:
  "addRelocations_body False (example_builder (example_graph 0x1040 [0, 0, 0, 0] 0x1000))
     0x1040 [SUBTRACTOR_A, UNSIGNED_B] (example_graph 0x1040 [0, 0, 0, 0] 0x1000)
   = Inr (addEdge (example_graph 0x1040 [0, 0, 0, 0] 0x1000) 0 NegDelta32 0 1 0,
          [UNSIGNED_B])
   \<and> applyFixup False
       (setAddresses (\<lambda>a. if a = 0 then 0x9000 else 0x7000)
          (addEdge (example_graph 0x1040 [0, 0, 0, 0] 0x1000) 0 NegDelta32 0 1 0))
       0 \<lparr>getKind = NegDelta32, getOffset = 0, getTarget = 1, getAddend = 0\<rparr> [0, 0, 0, 0]
     = Inr [0, 0x20, 0, 0]"
proof -
  let ?G = "example_graph 0x1040 [0, 0, 0, 0] 0x1000"
  let ?Bld = "example_builder ?G"
  let ?f = "\<lambda>a::nat. if a = 0 then 0x9000 else (0x7000 :: u64)"
  let ?G1 = "addEdge ?G 0 NegDelta32 0 1 0"
  have sub: "r_type SUBTRACTOR_A = ARM64_RELOC_SUBTRACTOR" "\<not> r_pcrel SUBTRACTOR_A"
    "r_extern SUBTRACTOR_A" "r_length SUBTRACTOR_A = 2 \<or> r_length SUBTRACTOR_A = 3"
    by (simp_all add: SUBTRACTOR_A_def)
  have pair: "r_address UNSIGNED_B = r_address SUBTRACTOR_A"
    "r_length UNSIGNED_B = r_length SUBTRACTOR_A"
    by (simp_all add: SUBTRACTOR_A_def UNSIGNED_B_def)
  have fixup: "(0x1040 :: u64) = 0x1040 + ucast (r_address SUBTRACTOR_A)"
    by (simp add: SUBTRACTOR_A_def)
  have block: "findSymbolByAddress ?Bld 0x1040 = Inr 0" "(0::nat) = getBlock ?G 0"
    by (simp_all add: example_builder_def example_graph_def getBlock_def)
  have extent: "\<not> (0x1040 :: u64) + push_bit (unat (r_length SUBTRACTOR_A)) 1
          > Address (Addressables ?G 0) + of_nat (length (Content (Addressables ?G 0)))"
    by (simp add: SUBTRACTOR_A_def example_graph_def)
  have frm: "findSymbolByIndex ?Bld (ucast (r_symbolnum SUBTRACTOR_A)) = Inr 1"
    by (simp add: example_builder_def example_graph_def SUBTRACTOR_A_def)
  have val: "readFixupValue (r_length SUBTRACTOR_A)
          (Content (Addressables ?G 0), unat (0x1040 - Address (Addressables ?G 0))) = Inr 0"
    by (simp add: readFixupValue_def SUBTRACTOR_A_def example_graph_def load32_def
        read_ulittle32_def read_bytes_def)
  have to: "(if r_extern UNSIGNED_B
              then findSymbolByIndex ?Bld (ucast (r_symbolnum UNSIGNED_B))
              else findSymbolByAddress ?Bld 0) = Inr 0"
    by (simp add: example_builder_def example_graph_def UNSIGNED_B_def)
  have fv: "(0 :: u64) = (if r_extern UNSIGNED_B then 0 else 0 - getAddress ?G 0)"
    by (simp add: UNSIGNED_B_def)
  have in_block: "(0::nat) = getAddressable ?G 1 \<or> (0::nat) = getAddressable ?G 0"
    by (simp add: getAddressable_def example_graph_def)
  have size: "length (Content (Addressables ?G 0)) < 2 ^ 32"
    by (simp add: example_graph_def)
  have mem: "length [0, 0, 0, 0 :: u8] = length (Content (Addressables ?G 0))"
    by (simp add: example_graph_def)
  have off: "(0::nat) = unat ((0x1040 :: u64) - Address (Addressables ?G 0))"
    by (simp add: example_graph_def)
  from SUBTRACTOR_parse_then_fixup [OF sub pair fixup block extent frm val to fv in_block
      size mem off, of False "[]" ?f False]
  obtain G1 E V where
    parsed: "addRelocations_body False ?Bld 0x1040 [SUBTRACTOR_A, UNSIGNED_B] ?G
             = Inr (G1, [UNSIGNED_B])"
    and edge: "Edges (Addressables G1 0) = Edges (Addressables ?G 0) @ [E]"
    and V: "V = getAddress (setAddresses ?f G1) 0 - getAddress (setAddresses ?f G1) 1 + 0"
    and fixed: "applyFixup False (setAddresses ?f G1) 0 E [0, 0, 0, 0] =
        (if r_length SUBTRACTOR_A = 3
         then Inr (take 0 [0, 0, 0, 0] @ le_bytes 8 V @ drop (0 + 8) [0, 0, 0, 0])
         else if sint V < - (2 ^ 31) \<or> 2 ^ 31 \<le> sint V
           then Inl (Error (Relocation_target_out_of_range 0 E))
         else Inr (take 0 [0, 0, 0, 0] @ le_bytes 4 (ucast V :: u32)
                   @ drop (0 + 4) [0, 0, 0, 0]))"
    by blast
  have body: "addRelocations_body False ?Bld 0x1040 [SUBTRACTOR_A, UNSIGNED_B] ?G
      = Inr (?G1, [UNSIGNED_B])"
    by (simp add: SUBTRACTOR_A_def UNSIGNED_B_def parser_eval parsePairRelocation_def
        readFixupValue_def assert_def getAddressable_def example_eval)
  from parsed body have G1: "G1 = ?G1" by simp
  from edge have E: "E = \<lparr>getKind = NegDelta32, getOffset = 0, getTarget = 1, getAddend = 0\<rparr>"
    by (simp add: G1 addEdge_def example_graph_def)
  from V have V': "V = 0x2000"
    by (simp add: G1 getAddress_def setAddresses_def addEdge_def example_graph_def)
  from fixed have "applyFixup False (setAddresses ?f ?G1) 0
       \<lparr>getKind = NegDelta32, getOffset = 0, getTarget = 1, getAddend = 0\<rparr> [0, 0, 0, 0]
     = Inr [0, 0x20, 0, 0]"
    unfolding G1 E V' by (simp add: SUBTRACTOR_A_def le_bytes_4)
  with body show ?thesis by (rule conjI)
qed

text \<open>
  C3 as stated fails when the fixup bytes are not zero. In the fifth scenario with the
  bytes \<open>08 00 00 00\<close> at the fixup, and \<open>A\<close> and \<open>B\<close> staying at \<open>0x1000\<close> and \<open>0x1040\<close>, the
  parser adds the edge \<open>(NegDelta32, A, 8)\<close> and the applier writes \<open>0x48\<close>, which is
  \<open>B - A + 8\<close>, not \<open>B - A = 0x40\<close>.
\<close>

theorem SUBTRACTOR_parse_then_fixup_counterexample:
  "addRelocations_body True (example_builder (example_graph 0x1040 [8, 0, 0, 0] 0x1000))
     0x1040 [SUBTRACTOR_A, UNSIGNED_B] (example_graph 0x1040 [8, 0, 0, 0] 0x1000)
   = Inr (addEdge (example_graph 0x1040 [8, 0, 0, 0] 0x1000) 0 NegDelta32 0 1 8,
          [UNSIGNED_B])
   \<and> applyFixup True
       (setAddresses (\<lambda>a. if a = 0 then 0x1040 else 0x1000)
          (addEdge (example_graph 0x1040 [8, 0, 0, 0] 0x1000) 0 NegDelta32 0 1 8))
       0 \<lparr>getKind = NegDelta32, getOffset = 0, getTarget = 1, getAddend = 8\<rparr> [8, 0, 0, 0]
     = Inr [0x48, 0, 0, 0]
   \<and> le_bytes 4 (0x1040 - 0x1000 :: u32) = [0x40, 0, 0, 0]"
  by (simp add: SUBTRACTOR_A_def UNSIGNED_B_def parser_eval parsePairRelocation_def
      readFixupValue_def assert_def getAddressable_def example_eval
      applyFixup_def applyFixup_Delta_def setAddresses_def addEdge_def store32_def
      write_ulittle32_def write_bytes_def)

section \<open>An ADDEND record at the end of the stream\<close>

text \<open>
  In the \<^verbatim>\<open>PairedAddend\<close> block the source tests \<^verbatim>\<open>RelItr == RelEnd\<close> before \<^verbatim>\<open>++RelItr\<close>.
  There the iterator is still on the ADDEND record itself, inside the loop, so the test
  never holds: for no input does the loop body return the "Unpaired Addend reloc" error
  by this path, and what follows reads the record at the incremented iterator.
\<close>

lemma addRelocations_PairedAddend_never_unpaired:
  assumes "RelItr \<noteq> []"
  shows "addRelocations_PairedAddend SectionAddress FixupAddress RI RelItr
         \<noteq> Inl (Error (Unpaired_Addend_reloc a))"
proof
  assume "addRelocations_PairedAddend SectionAddress FixupAddress RI RelItr
          = Inl (Error (Unpaired_Addend_reloc a))"
  with assms show False
    by (auto simp: addRelocations_PairedAddend_def Let_def and_then_def getRelocationInfo_def
        split: list.splits sum.splits if_splits dest: getRelocationKind_Inl)
qed

text \<open>
  C8, on the code. For a section whose relocation stream is a single ADDEND record (at a
  fixup address inside a block), the parser does not fail with the unpaired-ADDEND
  error: it steps the iterator to the end of the stream and reads the relocation record
  there, past the end of the stream, in either build.
\<close>

theorem addRelocations_trailing_ADDEND_reads_past_end:
  "addRelocations_section True
     (example_builder (example_graph 0x2000 [0, 0, 0, 0x90] 0x3123)) 0x2000
     trailing_ADDEND (example_graph 0x2000 [0, 0, 0, 0x90] 0x3123)
   = Inl OutOfBoundsAccess
   \<and> addRelocations_section False
     (example_builder (example_graph 0x2000 [0, 0, 0, 0x90] 0x3123)) 0x2000
     trailing_ADDEND (example_graph 0x2000 [0, 0, 0, 0x90] 0x3123)
   = Inl OutOfBoundsAccess"
  by (simp add: trailing_ADDEND_def parser_eval example_eval)

section \<open>LDRLiteral19 fixups\<close>

lemma mask19_numeral: "(0x7ffff :: 'a::len word) = mask 19"
  by (simp add: mask_eq_exp_minus_1)

lemma small_nonneg_take_bit:
  fixes V :: u64
  assumes "0 \<le> sint V" "sint V < 2 ^ 20"
  shows "take_bit 20 V = V"
proof -
  have "uint V = take_bit 64 (sint V)" using uint_sint [of V] by simp
  also have "\<dots> = sint V" using assms by (simp add: take_bit_int_eq_self)
  finally have u: "uint V < 2 ^ 20" using assms by simp
  have "uint (take_bit 20 V) = uint V"
    using u by (simp add: unsigned_take_bit_eq take_bit_int_eq_self)
  then show ?thesis by (rule word_uint_eqI)
qed

lemma LDRLiteral19_imm19:
  fixes V :: u64
  assumes "0 \<le> sint V" "sint V < 2 ^ 20"
  shows "push_bit 5 (drop_bit 2 (ucast V :: u32)) = push_bit 5 (ucast (drop_bit 2 V AND 0x7ffff))"
proof -
  have "take_bit 20 V = V" using assms by (rule small_nonneg_take_bit)
  then have "bit (take_bit 20 V) m" if "bit V m" for m using that by simp
  then have hi: "m < 20" if "bit V m" for m
    using that by (auto simp: bit_simps)
  have "drop_bit 2 (ucast V :: u32) = ucast (drop_bit 2 V AND mask 19)"
    by (rule bit_word_eqI) (auto simp: bit_simps dest: hi)
  then show ?thesis by (simp add: mask19_numeral)
qed

text \<open>
  C9, as the code has it. For an LDRLiteral19 edge with instruction word \<open>I\<close> at the fixup
  and \<open>V = target.address - fixup address\<close>: the applier never fails with an error on
  account of \<open>I\<close>. That \<open>I\<close> is \<open>0x58000010\<close> is an \<^verbatim>\<open>assert\<close>: in a build with assertions a
  different word aborts, and in a build without them the applier goes on with the word
  it found. It then fails with "LDR literal target is not 32-bit aligned" (Misalignment)
  if \<open>V & 3 \<noteq> 0\<close>, else with the out-of-range error if \<open>V\<close> is outside \<open>[-2^20, 2^20)\<close>, and
  for \<open>0 \<le> V < 2^20\<close> it writes \<open>I | (((V >> 2) & 0x7ffff) << 5)\<close> little-endian. The
  theorem says nothing of an aligned \<open>V\<close> in \<open>[-2^20, 0)\<close> (hypothesis \<open>not_slip\<close>). In a
  build with assertions the fixup address must be 4-byte aligned and the addend zero.
\<close>

theorem applyFixup_LDRLiteral19_amended:
  assumes kind: "getKind E = LDRLiteral19"
    and asserted: "NDEBUG \<or> ((Address (Addressables G B) + ucast (getOffset E)) AND 3 = 0
                             \<and> getAddend E = 0)"
    and instr: "read_ulittle32 mem (unat (getOffset E)) = Some I"
    and V: "V = getAddress G (getTarget E) - (Address (Addressables G B) + ucast (getOffset E))"
    and not_slip: "0 \<le> sint V \<or> V AND 3 \<noteq> 0 \<or> sint V < - (2 ^ 20)"
  shows "applyFixup NDEBUG G B E mem =
     (if I \<noteq> 0x58000010 \<and> \<not> NDEBUG
        then Inl (AssertionFailed ''RawInstr isn't a 64-bit LDR literal'')
      else if V AND 3 \<noteq> 0 then Inl (Error LDR_literal_target_not_32bit_aligned)
      else if sint V < - (2 ^ 20) \<or> 2 ^ 20 \<le> sint V
        then Inl (Error (Relocation_target_out_of_range B E))
      else Inr (take (unat (getOffset E)) mem
                @ le_bytes 4 (I OR push_bit 5 (ucast (drop_bit 2 V AND 0x7ffff)))
                @ drop (unat (getOffset E) + 4) mem))
    \<and> errorKind LDR_literal_target_not_32bit_aligned = Misalignment
    \<and> errorKind (Relocation_target_out_of_range B E) = OutOfRange"
proof -
  have len: "unat (getOffset E) + 4 \<le> length mem"
    using instr by (rule read_ulittle32_Some)
  have enc: "I OR push_bit 5 (drop_bit 2 (ucast V :: u32))
           = I OR push_bit 5 (ucast (drop_bit 2 V AND 0x7ffff))"
    if "V AND 3 = 0" "\<not> sint V < - (2 ^ 20)" "\<not> 2 ^ 20 \<le> sint V"
    using that not_slip LDRLiteral19_imm19 [of V] by auto
  show ?thesis
    using asserted enc
    by (auto simp: applyFixup_def kind applyFixup_LDRLiteral19_def assert_def Let_def V [symmetric]
        load32_def instr store32_eq [OF len] targetOutOfRangeError_def)
qed


text \<open>
  The stub's own load (\<open>0x58000010\<close>) of a literal 8 bytes further on, in a build with
  assertions.
\<close>

theorem applyFixup_LDRLiteral19_witness:
  "applyFixup False (example_graph 0x1000 [0x10, 0, 0, 0x58] 0x1008) 0
     \<lparr>getKind = LDRLiteral19, getOffset = 0, getTarget = 1, getAddend = 0\<rparr>
     [0x10, 0, 0, 0x58]
   = Inr [0x50, 0, 0, 0x58]"
  using applyFixup_LDRLiteral19_amended
     [of "\<lparr>getKind = LDRLiteral19, getOffset = 0, getTarget = 1, getAddend = 0\<rparr>"
         False "example_graph 0x1000 [0x10, 0, 0, 0x58] 0x1008" 0 "[0x10, 0, 0, 0x58]"
         "0x58000010" 8]
  by (simp add: example_eval)

text \<open>
  C9 as stated fails twice. An instruction word other than \<open>0x58000010\<close> (here
  \<open>0x58000011\<close>) gives no error: without assertions the word is patched and the applier
  succeeds, with assertions the process aborts. And for a negative \<open>V\<close> (here \<open>-4\<close>) the
  word written is not \<open>0x58000010 | (((V >> 2) & 0x7ffff) << 5) = 0x58fffff0\<close> but
  \<open>0xfffffff0\<close>: the source shifts \<open>static_cast<uint32_t>(Delta) >> 2\<close> left by 5 without
  masking it to 19 bits, so the bits above the immediate field are set too.
\<close>

theorem applyFixup_LDRLiteral19_counterexample:
  "applyFixup True (example_graph 0x1000 [0x11, 0, 0, 0x58] 0x1008) 0
     \<lparr>getKind = LDRLiteral19, getOffset = 0, getTarget = 1, getAddend = 0\<rparr>
     [0x11, 0, 0, 0x58]
   = Inr [0x51, 0, 0, 0x58]
   \<and> applyFixup False (example_graph 0x1000 [0x11, 0, 0, 0x58] 0x1008) 0
     \<lparr>getKind = LDRLiteral19, getOffset = 0, getTarget = 1, getAddend = 0\<rparr>
     [0x11, 0, 0, 0x58]
   = Inl (AssertionFailed ''RawInstr isn't a 64-bit LDR literal'')
   \<and> applyFixup False (example_graph 0x1000 [0x10, 0, 0, 0x58] 0xffc) 0
     \<lparr>getKind = LDRLiteral19, getOffset = 0, getTarget = 1, getAddend = 0\<rparr>
     [0x10, 0, 0, 0x58]
   = Inr [0xf0, 0xff, 0xff, 0xff]"
  by (simp add: applyFixup_def applyFixup_LDRLiteral19_def assert_def load32_def store32_def
      write_ulittle32_def write_bytes_def example_eval)

section \<open>Page and page-offset fixups and the addend\<close>

lemma applyFixup_page_kinds_release:
  assumes kind: "getKind E \<in> {Page21, GOTPage21, PageOffset12, GOTPageOffset12}"
    and ok: "applyFixup NDEBUG G B E mem = Inr m"
  shows "applyFixup True G B E mem = Inr m"
  using assms
  by (auto simp: applyFixup_def applyFixup_Page21_def applyFixup_PageOffset12_def
      applyFixup_GOTPageOffset12_def assert_def Let_def load32_def
      split: if_splits option.splits)

text \<open>
  The ADDEND pairing path of the parser does attach an addend to a Page21 edge: the
  stream of an ADDEND record carrying 5 and a PAGE21 record gives the edge
  \<open>(Page21, offset 0, symbol 1, addend 5)\<close>.
\<close>

lemma addRelocations_attaches_paired_addend:
  "addRelocations_section NDEBUG
     (example_builder (example_graph 0x2000 [0, 0, 0, 0x90] 0x3123)) 0x2000
     ADDEND_then_PAGE21 (example_graph 0x2000 [0, 0, 0, 0x90] 0x3123)
   = Inr (addEdge (example_graph 0x2000 [0, 0, 0, 0x90] 0x3123) 0 Page21 0 1 5)"
  by (simp add: ADDEND_then_PAGE21_def parser_eval example_eval)


text \<open>
  C10. For an edge of kind Page21, GOTPage21, PageOffset12 or GOTPageOffset12, the bytes
  the applier writes depend only on the kind, the offset, the target symbol's address,
  the source block's address and the working memory (which holds the instruction word):
  two edges, in two graphs, that agree on these get the same bytes whatever their
  addends are. In a build without assertions the two runs succeed or fail together; in
  any build, when both succeed they leave the same bytes (a build with assertions aborts
  on a non-zero addend instead of patching).
\<close>

theorem applyFixup_page_kinds_ignore_addend:
  assumes kind: "getKind E \<in> {Page21, GOTPage21, PageOffset12, GOTPageOffset12}"
    and same_kind: "getKind E' = getKind E"
    and same_offset: "getOffset E' = getOffset E"
    and target: "getAddress G' (getTarget E') = getAddress G (getTarget E)"
    and block: "Address (Addressables G' B') = Address (Addressables G B)"
  shows "patchedBytes (applyFixup True G' B' E' mem) = patchedBytes (applyFixup True G B E mem)
    \<and> (applyFixup NDEBUG G B E mem = Inr m \<and> applyFixup NDEBUG' G' B' E' mem = Inr m'
         \<longrightarrow> m' = m)"
proof -
  have rel: "patchedBytes (applyFixup True G' B' E' mem)
           = patchedBytes (applyFixup True G B E mem)"
    using kind
    by (auto simp: applyFixup_def applyFixup_Page21_def applyFixup_PageOffset12_def
        applyFixup_GOTPageOffset12_def assert_def Let_def load32_def patchedBytes_def
        same_kind same_offset target block targetOutOfRangeError_def
        split: option.splits)
  have kind': "getKind E' \<in> {Page21, GOTPage21, PageOffset12, GOTPageOffset12}"
    using kind same_kind by simp
  have "m' = m" if a: "applyFixup NDEBUG G B E mem = Inr m"
    and b: "applyFixup NDEBUG' G' B' E' mem = Inr m'"
    using rel applyFixup_page_kinds_release [OF kind a]
      applyFixup_page_kinds_release [OF kind' b]
    by (simp add: patchedBytes_def)
  with rel show ?thesis by blast
qed


text \<open>
  The edge the parser made above, with addend 5, is patched like the same edge with
  addend 0: the ADRP at \<open>0x2000\<close> to \<open>0x3123\<close> becomes \<open>0xb0000000\<close>.
\<close>

theorem applyFixup_page_kinds_ignore_addend_witness:
  "patchedBytes (applyFixup True (example_graph 0x2000 [0, 0, 0, 0x90] 0x3123) 0
      \<lparr>getKind = Page21, getOffset = 0, getTarget = 1, getAddend = 5\<rparr> [0, 0, 0, 0x90])
   = patchedBytes (applyFixup True (example_graph 0x2000 [0, 0, 0, 0x90] 0x3123) 0
      \<lparr>getKind = Page21, getOffset = 0, getTarget = 1, getAddend = 0\<rparr> [0, 0, 0, 0x90])
   \<and> applyFixup False (example_graph 0x2000 [0, 0, 0, 0x90] 0x3123) 0
      \<lparr>getKind = Page21, getOffset = 0, getTarget = 1, getAddend = 0\<rparr> [0, 0, 0, 0x90]
     = Inr [0, 0, 0, 0xb0]"
  using applyFixup_page_kinds_ignore_addend
     [of "\<lparr>getKind = Page21, getOffset = 0, getTarget = 1, getAddend = 0\<rparr>"
         "\<lparr>getKind = Page21, getOffset = 0, getTarget = 1, getAddend = 5\<rparr>"
         "example_graph 0x2000 [0, 0, 0, 0x90] 0x3123" "example_graph 0x2000 [0, 0, 0, 0x90] 0x3123"
         0 0 "[0, 0, 0, 0x90]"]
  by (simp add: applyFixup_def applyFixup_Page21_def assert_def load32_def store32_def
      write_ulittle32_def write_bytes_def example_eval)

section \<open>The GOT and stubs builder: the invariant of the pass\<close>

subsection \<open>Growth of the graph\<close>

lemma grows_refl: "grows G0 G G"
  by (simp add: grows_def)

lemma upt_append_upt:
  "i \<le> j \<Longrightarrow> j \<le> k \<Longrightarrow> [i..<j] @ [j..<k] = [i..<k]"
  using upt_add_eq_append [of i j "k - j"] by simp

lemma growsD:
  assumes "grows G0 G G'"
  shows "NumSymbols G \<le> NumSymbols G'" "NumAddressables G \<le> NumAddressables G'"
    "\<exists>new. Sections G' = Sections G @ new"
    "Blocks G' = Blocks G @ [NumAddressables G..<NumAddressables G']"
    "\<And>s. s < NumSymbols G \<Longrightarrow> Symbols G' s = Symbols G s"
    "\<And>a. a < NumAddressables G \<Longrightarrow> NumAddressables G0 \<le> a
        \<Longrightarrow> Addressables G' a = Addressables G a"
    "\<And>a. a < NumAddressables G0
        \<Longrightarrow> Addressables G' a = (Addressables G a)\<lparr>Edges := Edges (Addressables G' a)\<rparr>"
  using assms unfolding grows_def by blast+

lemma growsI:
  assumes "NumSymbols G \<le> NumSymbols G'" "NumAddressables G \<le> NumAddressables G'"
    "\<exists>new. Sections G' = Sections G @ new"
    "Blocks G' = Blocks G @ [NumAddressables G..<NumAddressables G']"
    "\<And>s. s < NumSymbols G \<Longrightarrow> Symbols G' s = Symbols G s"
    "\<And>a. a < NumAddressables G \<Longrightarrow> NumAddressables G0 \<le> a
        \<Longrightarrow> Addressables G' a = Addressables G a"
    "\<And>a. a < NumAddressables G0
        \<Longrightarrow> Addressables G' a = (Addressables G a)\<lparr>Edges := Edges (Addressables G' a)\<rparr>"
  shows "grows G0 G G'"
  using assms unfolding grows_def by blast

lemma grows_trans:
  assumes le: "NumAddressables G0 \<le> NumAddressables G"
    and g1: "grows G0 G G'" and g2: "grows G0 G' G''"
  shows "grows G0 G G''"
proof (rule growsI)
  show "NumSymbols G \<le> NumSymbols G''"
    using growsD(1) [OF g1] growsD(1) [OF g2] by simp
  show "NumAddressables G \<le> NumAddressables G''"
    using growsD(2) [OF g1] growsD(2) [OF g2] by simp
  show "\<exists>new. Sections G'' = Sections G @ new"
    using growsD(3) [OF g1] growsD(3) [OF g2] by auto
  show "Blocks G'' = Blocks G @ [NumAddressables G..<NumAddressables G'']"
    using growsD(4) [OF g1] growsD(4) [OF g2] growsD(2) [OF g1] growsD(2) [OF g2]
    by (simp add: upt_append_upt)
  show "Symbols G'' s = Symbols G s" if "s < NumSymbols G" for s
    using that growsD(5) [OF g1, of s] growsD(5) [OF g2, of s] growsD(1) [OF g1] by simp
  show "Addressables G'' a = Addressables G a"
    if "a < NumAddressables G" "NumAddressables G0 \<le> a" for a
    using that growsD(6) [OF g1, of a] growsD(6) [OF g2, of a] growsD(2) [OF g1] by simp
  show "Addressables G'' a = (Addressables G a)\<lparr>Edges := Edges (Addressables G'' a)\<rparr>"
    if "a < NumAddressables G0" for a
  proof -
    have a: "Addressables G'' a = (Addressables G' a)\<lparr>Edges := Edges (Addressables G'' a)\<rparr>"
      using that by (rule growsD(7) [OF g2])
    have b: "Addressables G' a = (Addressables G a)\<lparr>Edges := Edges (Addressables G' a)\<rparr>"
      using that by (rule growsD(7) [OF g1])
    show ?thesis by (subst a, subst b) simp
  qed
qed


lemma getGOTEntrySymbol_cached:
  "GOTEntries st t = Some g \<Longrightarrow> getGOTEntrySymbol st t = (st, g)"
  by (simp add: getGOTEntrySymbol_def)

lemma getGOTEntrySymbol_fresh:
  assumes "GOTEntries st t = None"
  shows "getGOTEntrySymbol st t =
    (let G = Graph st; N = NumAddressables G; S = NumSymbols G;
         sec = (case GOTSection st of Some sec \<Rightarrow> sec | None \<Rightarrow> length (Sections G))
     in (st\<lparr>Graph := G\<lparr>Sections := Sections G @
                          (case GOTSection st of Some sec \<Rightarrow> []
                           | None \<Rightarrow> [(''$__GOT'', {MF_READ})]),
                      Addressables := (Addressables G)(N := GOTEntryBlock sec t),
                      NumAddressables := Suc N,
                      Blocks := Blocks G @ [N],
                      Symbols := (Symbols G)(S := AnonymousSymbol N False),
                      NumSymbols := Suc S\<rparr>,
            GOTSection := Some sec,
            GOTEntries := (GOTEntries st)(t \<mapsto> S)\<rparr>, S))"
  using assms
  by (simp add: getGOTEntrySymbol_def createGOTEntry_def getGOTSection_def createSection_def
      createContentBlock_def addEdge_def addAnonymousSymbol_def Let_def GOTEntryBlock_def
      AnonymousSymbol_def split: option.splits)


lemma getStubSymbol_cached:
  "Stubs st t = Some s \<Longrightarrow> getStubSymbol st t = (st, s)"
  by (simp add: getStubSymbol_def)

lemma getStubSymbol_fresh_GOT_cached:
  assumes "Stubs st t = None" "GOTEntries st t = Some g"
  shows "getStubSymbol st t =
    (let G = Graph st; N = NumAddressables G; S = NumSymbols G;
         sec = (case StubsSection st of Some sec \<Rightarrow> sec | None \<Rightarrow> length (Sections G))
     in (st\<lparr>Graph := G\<lparr>Sections := Sections G @
                          (case StubsSection st of Some sec \<Rightarrow> []
                           | None \<Rightarrow> [(''$__STUBS'', {MF_READ, MF_EXEC})]),
                      Addressables := (Addressables G)(N := StubBlock sec g),
                      NumAddressables := Suc N,
                      Blocks := Blocks G @ [N],
                      Symbols := (Symbols G)(S := AnonymousSymbol N True),
                      NumSymbols := Suc S\<rparr>,
            StubsSection := Some sec,
            Stubs := (Stubs st)(t \<mapsto> S)\<rparr>, S))"
  using assms
  by (simp add: getStubSymbol_def createStub_def getStubsSection_def createSection_def
      createContentBlock_def addEdge_def addAnonymousSymbol_def Let_def StubBlock_def
      AnonymousSymbol_def getGOTEntrySymbol_def split: option.splits)

lemma getStubSymbol_fresh_GOT_fresh:
  assumes "Stubs st t = None" "GOTEntries st t = None"
  shows "getStubSymbol st t =
    (let G = Graph st; N = NumAddressables G; S = NumSymbols G;
         new1 = (case StubsSection st of Some sec \<Rightarrow> []
                 | None \<Rightarrow> [(''$__STUBS'', {MF_READ, MF_EXEC})]);
         new2 = (case GOTSection st of Some sec \<Rightarrow> [] | None \<Rightarrow> [(''$__GOT'', {MF_READ})]);
         ssec = (case StubsSection st of Some sec \<Rightarrow> sec | None \<Rightarrow> length (Sections G));
         gsec = (case GOTSection st of Some sec \<Rightarrow> sec
                 | None \<Rightarrow> length (Sections G) + length new1)
     in (st\<lparr>Graph := G\<lparr>Sections := Sections G @ new1 @ new2,
                      Addressables := (Addressables G)
                         (N := StubBlock ssec S, Suc N := GOTEntryBlock gsec t),
                      NumAddressables := Suc (Suc N),
                      Blocks := Blocks G @ [N, Suc N],
                      Symbols := (Symbols G)
                         (S := AnonymousSymbol (Suc N) False, Suc S := AnonymousSymbol N True),
                      NumSymbols := Suc (Suc S)\<rparr>,
            GOTSection := Some gsec,
            StubsSection := Some ssec,
            GOTEntries := (GOTEntries st)(t \<mapsto> S),
            Stubs := (Stubs st)(t \<mapsto> Suc S)\<rparr>, Suc S))"
  using assms
  by (simp add: getStubSymbol_def createStub_def getStubsSection_def createSection_def
      createContentBlock_def addEdge_def addAnonymousSymbol_def Let_def StubBlock_def
      GOTEntryBlock_def AnonymousSymbol_def getGOTEntrySymbol_def createGOTEntry_def
      getGOTSection_def fun_upd_twist split: option.splits)


lemma builder_invD:
  assumes "builder_inv G0 st"
  shows "grows G0 G0 (Graph st)"
    "\<And>sec. GOTSection st = Some sec \<Longrightarrow>
       length (Sections G0) \<le> sec \<and> sec < length (Sections (Graph st))
       \<and> Sections (Graph st) ! sec = (''$__GOT'', {MF_READ})"
    "\<And>sec. StubsSection st = Some sec \<Longrightarrow>
       length (Sections G0) \<le> sec \<and> sec < length (Sections (Graph st))
       \<and> Sections (Graph st) ! sec = (''$__STUBS'', {MF_READ, MF_EXEC})"
    "\<And>t g. GOTEntries st t = Some g \<Longrightarrow>
       NumSymbols G0 \<le> g \<and> g < NumSymbols (Graph st)
       \<and> NumAddressables G0 \<le> Base (Symbols (Graph st) g)
       \<and> Base (Symbols (Graph st) g) < NumAddressables (Graph st)
       \<and> (\<exists>sec. GOTSection st = Some sec \<and> is_GOT_entry (Graph st) sec t g)"
    "\<And>t s. Stubs st t = Some s \<Longrightarrow>
       NumSymbols G0 \<le> s \<and> s < NumSymbols (Graph st)
       \<and> NumAddressables G0 \<le> Base (Symbols (Graph st) s)
       \<and> Base (Symbols (Graph st) s) < NumAddressables (Graph st)
       \<and> (\<exists>sec g. StubsSection st = Some sec \<and> GOTEntries st t = Some g
              \<and> is_stub (Graph st) sec g s)"
    "\<And>b. NumAddressables G0 \<le> b \<Longrightarrow> b < NumAddressables (Graph st) \<Longrightarrow>
       Section (Addressables (Graph st) b) < length (Sections (Graph st))
       \<and> list_all (\<lambda>E. getKind E = Pointer64 \<or> getKind E = LDRLiteral19)
             (Edges (Addressables (Graph st) b))"
    "\<And>b sec. GOTSection st = Some sec \<Longrightarrow> NumAddressables G0 \<le> b
       \<Longrightarrow> b < NumAddressables (Graph st) \<Longrightarrow> Section (Addressables (Graph st) b) = sec
       \<Longrightarrow> \<exists>t g. GOTEntries st t = Some g \<and> Base (Symbols (Graph st) g) = b"
  using assms unfolding builder_inv_def by blast+

lemma builder_invI:
  assumes "grows G0 G0 (Graph st)"
    "\<And>sec. GOTSection st = Some sec \<Longrightarrow>
       length (Sections G0) \<le> sec \<and> sec < length (Sections (Graph st))
       \<and> Sections (Graph st) ! sec = (''$__GOT'', {MF_READ})"
    "\<And>sec. StubsSection st = Some sec \<Longrightarrow>
       length (Sections G0) \<le> sec \<and> sec < length (Sections (Graph st))
       \<and> Sections (Graph st) ! sec = (''$__STUBS'', {MF_READ, MF_EXEC})"
    "\<And>t g. GOTEntries st t = Some g \<Longrightarrow>
       NumSymbols G0 \<le> g \<and> g < NumSymbols (Graph st)
       \<and> NumAddressables G0 \<le> Base (Symbols (Graph st) g)
       \<and> Base (Symbols (Graph st) g) < NumAddressables (Graph st)
       \<and> (\<exists>sec. GOTSection st = Some sec \<and> is_GOT_entry (Graph st) sec t g)"
    "\<And>t s. Stubs st t = Some s \<Longrightarrow>
       NumSymbols G0 \<le> s \<and> s < NumSymbols (Graph st)
       \<and> NumAddressables G0 \<le> Base (Symbols (Graph st) s)
       \<and> Base (Symbols (Graph st) s) < NumAddressables (Graph st)
       \<and> (\<exists>sec g. StubsSection st = Some sec \<and> GOTEntries st t = Some g
              \<and> is_stub (Graph st) sec g s)"
    "\<And>b. NumAddressables G0 \<le> b \<Longrightarrow> b < NumAddressables (Graph st) \<Longrightarrow>
       Section (Addressables (Graph st) b) < length (Sections (Graph st))
       \<and> list_all (\<lambda>E. getKind E = Pointer64 \<or> getKind E = LDRLiteral19)
             (Edges (Addressables (Graph st) b))"
    "\<And>b sec. GOTSection st = Some sec \<Longrightarrow> NumAddressables G0 \<le> b
       \<Longrightarrow> b < NumAddressables (Graph st) \<Longrightarrow> Section (Addressables (Graph st) b) = sec
       \<Longrightarrow> \<exists>t g. GOTEntries st t = Some g \<and> Base (Symbols (Graph st) g) = b"
  shows "builder_inv G0 st"
  unfolding builder_inv_def using assms by blast

lemma is_GOT_entry_grows:
  assumes "grows G0 G G'" "is_GOT_entry G sec t g"
    and "g < NumSymbols G" "NumAddressables G0 \<le> Base (Symbols G g)"
      "Base (Symbols G g) < NumAddressables G"
  shows "is_GOT_entry G' sec t g"
  using assms growsD(5) [OF assms(1), of g]
    growsD(6) [OF assms(1), of "Base (Symbols G g)"] growsD(4) [OF assms(1)]
  by (simp add: is_GOT_entry_def)

lemma is_stub_grows:
  assumes "grows G0 G G'" "is_stub G sec g' s"
    and "s < NumSymbols G" "NumAddressables G0 \<le> Base (Symbols G s)"
      "Base (Symbols G s) < NumAddressables G"
  shows "is_stub G' sec g' s"
  using assms growsD(5) [OF assms(1), of s]
    growsD(6) [OF assms(1), of "Base (Symbols G s)"] growsD(4) [OF assms(1)]
  by (simp add: is_stub_def)

text \<open>
  One step of the builder, in general: the graph grows, the sections once made stay, the
  caches keep their entries, and what is new is as the invariant wants it.
\<close>

lemma builder_inv_step:
  assumes inv: "builder_inv G0 st"
    and g: "grows G0 (Graph st) (Graph st')"
    and gsec_kept: "\<And>sec. GOTSection st = Some sec \<Longrightarrow> GOTSection st' = Some sec"
    and ssec_kept: "\<And>sec. StubsSection st = Some sec \<Longrightarrow> StubsSection st' = Some sec"
    and gsec_new: "\<And>sec. GOTSection st = None \<Longrightarrow> GOTSection st' = Some sec \<Longrightarrow>
        length (Sections (Graph st)) \<le> sec \<and> sec < length (Sections (Graph st'))
        \<and> Sections (Graph st') ! sec = (''$__GOT'', {MF_READ})"
    and ssec_new: "\<And>sec. StubsSection st = None \<Longrightarrow> StubsSection st' = Some sec \<Longrightarrow>
        length (Sections (Graph st)) \<le> sec \<and> sec < length (Sections (Graph st'))
        \<and> Sections (Graph st') ! sec = (''$__STUBS'', {MF_READ, MF_EXEC})"
    and got: "\<And>t g. GOTEntries st' t = Some g \<Longrightarrow> GOTEntries st t = Some g
        \<or> (NumSymbols (Graph st) \<le> g \<and> g < NumSymbols (Graph st')
           \<and> NumAddressables (Graph st) \<le> Base (Symbols (Graph st') g)
           \<and> Base (Symbols (Graph st') g) < NumAddressables (Graph st')
           \<and> (\<exists>sec. GOTSection st' = Some sec \<and> is_GOT_entry (Graph st') sec t g))"
    and got_kept: "\<And>t g. GOTEntries st t = Some g \<Longrightarrow> GOTEntries st' t = Some g"
    and stubs: "\<And>t s. Stubs st' t = Some s \<Longrightarrow> Stubs st t = Some s
        \<or> (NumSymbols (Graph st) \<le> s \<and> s < NumSymbols (Graph st')
           \<and> NumAddressables (Graph st) \<le> Base (Symbols (Graph st') s)
           \<and> Base (Symbols (Graph st') s) < NumAddressables (Graph st')
           \<and> (\<exists>sec g. StubsSection st' = Some sec \<and> GOTEntries st' t = Some g
                  \<and> is_stub (Graph st') sec g s))"
    and new_blocks: "\<And>b. NumAddressables (Graph st) \<le> b \<Longrightarrow> b < NumAddressables (Graph st')
        \<Longrightarrow> Section (Addressables (Graph st') b) < length (Sections (Graph st'))
          \<and> list_all (\<lambda>E. getKind E = Pointer64 \<or> getKind E = LDRLiteral19)
                (Edges (Addressables (Graph st') b))
          \<and> (GOTSection st' = Some (Section (Addressables (Graph st') b))
               \<longrightarrow> (\<exists>t g. GOTEntries st' t = Some g \<and> Base (Symbols (Graph st') g) = b))"
  shows "builder_inv G0 st'"
proof (rule builder_invI)
  note g0 = builder_invD(1) [OF inv]
  have le: "NumAddressables G0 \<le> NumAddressables (Graph st)"
    using growsD(2) [OF g0] .
  have les: "NumSymbols G0 \<le> NumSymbols (Graph st)"
    using growsD(1) [OF g0] .
  obtain new where new: "Sections (Graph st') = Sections (Graph st) @ new"
    using growsD(3) [OF g] by blast
  obtain new0 where new0: "Sections (Graph st) = Sections G0 @ new0"
    using growsD(3) [OF g0] by blast
  show "grows G0 G0 (Graph st')"
    using grows_trans [OF _ g0 g] by simp
  show "length (Sections G0) \<le> sec \<and> sec < length (Sections (Graph st'))
       \<and> Sections (Graph st') ! sec = (''$__GOT'', {MF_READ})"
    if "GOTSection st' = Some sec" for sec
  proof (cases "GOTSection st")
    case None
    from gsec_new [OF None that] show ?thesis by (simp add: new0)
  next
    case (Some sec')
    with gsec_kept [OF Some] that have "sec' = sec" by simp
    with builder_invD(2) [OF inv Some] show ?thesis by (simp add: new nth_append)
  qed
  show "length (Sections G0) \<le> sec \<and> sec < length (Sections (Graph st'))
       \<and> Sections (Graph st') ! sec = (''$__STUBS'', {MF_READ, MF_EXEC})"
    if "StubsSection st' = Some sec" for sec
  proof (cases "StubsSection st")
    case None
    from ssec_new [OF None that] show ?thesis by (simp add: new0)
  next
    case (Some sec')
    with ssec_kept [OF Some] that have "sec' = sec" by simp
    with builder_invD(3) [OF inv Some] show ?thesis by (simp add: new nth_append)
  qed
  have got_old: "NumSymbols G0 \<le> g \<and> g < NumSymbols (Graph st')
       \<and> NumAddressables G0 \<le> Base (Symbols (Graph st') g)
       \<and> Base (Symbols (Graph st') g) < NumAddressables (Graph st')
       \<and> (\<exists>sec. GOTSection st' = Some sec \<and> is_GOT_entry (Graph st') sec t g)
       \<and> Symbols (Graph st') g = Symbols (Graph st) g"
    if old: "GOTEntries st t = Some g" for t g
  proof -
    note d = builder_invD(4) [OF inv old]
    then obtain sec where sec: "GOTSection st = Some sec" "is_GOT_entry (Graph st) sec t g"
      by blast
    have sym: "Symbols (Graph st') g = Symbols (Graph st) g"
      using growsD(5) [OF g, of g] d by simp
    have "is_GOT_entry (Graph st') sec t g"
      using is_GOT_entry_grows [OF g sec(2)] d by simp
    with gsec_kept [OF sec(1)] d sym growsD(1,2) [OF g] show ?thesis by auto
  qed
  show "NumSymbols G0 \<le> g \<and> g < NumSymbols (Graph st')
       \<and> NumAddressables G0 \<le> Base (Symbols (Graph st') g)
       \<and> Base (Symbols (Graph st') g) < NumAddressables (Graph st')
       \<and> (\<exists>sec. GOTSection st' = Some sec \<and> is_GOT_entry (Graph st') sec t g)"
    if "GOTEntries st' t = Some g" for t g
    using got [OF that] got_old [of t g] le les by auto
  show "NumSymbols G0 \<le> s \<and> s < NumSymbols (Graph st')
       \<and> NumAddressables G0 \<le> Base (Symbols (Graph st') s)
       \<and> Base (Symbols (Graph st') s) < NumAddressables (Graph st')
       \<and> (\<exists>sec g. StubsSection st' = Some sec \<and> GOTEntries st' t = Some g
              \<and> is_stub (Graph st') sec g s)"
    if s': "Stubs st' t = Some s" for t s
  proof (cases "Stubs st t = Some s")
    case True
    note d = builder_invD(5) [OF inv True]
    then obtain sec g' where sec: "StubsSection st = Some sec" "GOTEntries st t = Some g'"
      "is_stub (Graph st) sec g' s"
      by blast
    have sym: "Symbols (Graph st') s = Symbols (Graph st) s"
      using growsD(5) [OF g, of s] d by simp
    have "is_stub (Graph st') sec g' s"
      using is_stub_grows [OF g sec(3)] d by simp
    with ssec_kept [OF sec(1)] got_kept [OF sec(2)] d sym growsD(1,2) [OF g]
    show ?thesis by auto
  next
    case False
    with stubs [OF s'] le les show ?thesis by auto
  qed
  show "Section (Addressables (Graph st') b) < length (Sections (Graph st'))
      \<and> list_all (\<lambda>E. getKind E = Pointer64 \<or> getKind E = LDRLiteral19)
            (Edges (Addressables (Graph st') b))"
    if "NumAddressables G0 \<le> b" "b < NumAddressables (Graph st')" for b
  proof (cases "b < NumAddressables (Graph st)")
    case True
    with growsD(6) [OF g True that(1)] builder_invD(6) [OF inv that(1) True]
    show ?thesis by (simp add: new)
  next
    case False
    with new_blocks [of b] that show ?thesis by simp
  qed
  show "\<exists>t g. GOTEntries st' t = Some g \<and> Base (Symbols (Graph st') g) = b"
    if sec: "GOTSection st' = Some sec" and b: "NumAddressables G0 \<le> b"
      "b < NumAddressables (Graph st')" "Section (Addressables (Graph st') b) = sec"
    for b sec
  proof (cases "b < NumAddressables (Graph st)")
    case True
    have same: "Addressables (Graph st') b = Addressables (Graph st) b"
      using growsD(6) [OF g True b(1)] .
    have exists: "Section (Addressables (Graph st) b) < length (Sections (Graph st))"
      using builder_invD(6) [OF inv b(1) True] by simp
    show ?thesis
    proof (cases "GOTSection st")
      case None
      from gsec_new [OF None sec] exists b(3) same show ?thesis by simp
    next
      case (Some sec')
      with gsec_kept [OF Some] sec have "sec' = sec" by simp
      with builder_invD(7) [OF inv Some b(1) True] b(3) same
      obtain t g' where c: "GOTEntries st t = Some g'" "Base (Symbols (Graph st) g') = b"
        by auto
      have "GOTEntries st' t = Some g' \<and> Base (Symbols (Graph st') g') = b"
        using got_old [OF c(1)] got_kept [OF c(1)] c(2) by simp
      then show ?thesis by blast
    qed
  next
    case False
    with new_blocks [of b] b sec show ?thesis by simp
  qed
qed

lemma grows_alloc1:
  assumes "NumAddressables G0 \<le> NumAddressables G"
  shows "grows G0 G
     (G\<lparr>Sections := Sections G @ new,
        Addressables := (Addressables G)(NumAddressables G := A),
        NumAddressables := Suc (NumAddressables G),
        Blocks := Blocks G @ [NumAddressables G],
        Symbols := (Symbols G)(NumSymbols G := sy),
        NumSymbols := Suc (NumSymbols G)\<rparr>)"
  using assms by (intro growsI) simp_all

lemma grows_alloc2:
  assumes "NumAddressables G0 \<le> NumAddressables G"
  shows "grows G0 G
     (G\<lparr>Sections := Sections G @ new,
        Addressables := (Addressables G)
           (NumAddressables G := A1, Suc (NumAddressables G) := A2),
        NumAddressables := Suc (Suc (NumAddressables G)),
        Blocks := Blocks G @ [NumAddressables G, Suc (NumAddressables G)],
        Symbols := (Symbols G)(NumSymbols G := sy1, Suc (NumSymbols G) := sy2),
        NumSymbols := Suc (Suc (NumSymbols G))\<rparr>)"
  using assms by (intro growsI) (simp_all add: upt_rec)

lemma getGOTEntrySymbol_fresh_inv:
  assumes inv: "builder_inv G0 st" and None: "GOTEntries st t = None"
    and call: "getGOTEntrySymbol st t = (st', g)"
  shows "builder_inv G0 st'"
    and "GOTEntries st' = (GOTEntries st)(t \<mapsto> g)"
    and "Stubs st' = Stubs st"
    and "\<And>a. a < NumAddressables G0
            \<Longrightarrow> Addressables (Graph st') a = Addressables (Graph st) a"
    and "\<And>s. s < NumSymbols G0 \<Longrightarrow> Symbols (Graph st') s = Symbols (Graph st) s"
proof -
  note g0 = builder_invD(1) [OF inv]
  have le: "NumAddressables G0 \<le> NumAddressables (Graph st)"
    using growsD(2) [OF g0] .
  have les: "NumSymbols G0 \<le> NumSymbols (Graph st)"
    using growsD(1) [OF g0] .
  note eq = getGOTEntrySymbol_fresh [OF None, unfolded Let_def]
  from call eq have g: "g = NumSymbols (Graph st)" by simp
  from call have st': "st' = fst (getGOTEntrySymbol st t)" by simp
  note st'_eq = st' [unfolded eq fst_conv]
  show "GOTEntries st' = (GOTEntries st)(t \<mapsto> g)" by (simp add: st'_eq g)
  show "Stubs st' = Stubs st" by (simp add: st'_eq)
  show "\<And>a. a < NumAddressables G0
       \<Longrightarrow> Addressables (Graph st') a = Addressables (Graph st) a"
    using le by (simp add: st'_eq)
  show "\<And>s. s < NumSymbols G0 \<Longrightarrow> Symbols (Graph st') s = Symbols (Graph st) s"
    using les by (simp add: st'_eq)
  show "builder_inv G0 st'"
  proof (rule builder_inv_step [OF inv])
    show "grows G0 (Graph st) (Graph st')"
      unfolding st'_eq using grows_alloc1 [OF le] by simp
    show "\<And>sec. GOTSection st = Some sec \<Longrightarrow> GOTSection st' = Some sec"
      by (simp add: st'_eq)
    show "\<And>sec. StubsSection st = Some sec \<Longrightarrow> StubsSection st' = Some sec"
      by (simp add: st'_eq)
    show "\<And>sec. GOTSection st = None \<Longrightarrow> GOTSection st' = Some sec \<Longrightarrow>
      length (Sections (Graph st)) \<le> sec \<and> sec < length (Sections (Graph st'))
      \<and> Sections (Graph st') ! sec = (''$__GOT'', {MF_READ})"
      by (auto simp: st'_eq)
    show "\<And>sec. StubsSection st = None \<Longrightarrow> StubsSection st' = Some sec \<Longrightarrow>
      length (Sections (Graph st)) \<le> sec \<and> sec < length (Sections (Graph st'))
      \<and> Sections (Graph st') ! sec = (''$__STUBS'', {MF_READ, MF_EXEC})"
      by (simp add: st'_eq)
    show "\<And>t' g'. GOTEntries st' t' = Some g' \<Longrightarrow> GOTEntries st t' = Some g'
      \<or> (NumSymbols (Graph st) \<le> g' \<and> g' < NumSymbols (Graph st')
         \<and> NumAddressables (Graph st) \<le> Base (Symbols (Graph st') g')
         \<and> Base (Symbols (Graph st') g') < NumAddressables (Graph st')
         \<and> (\<exists>sec. GOTSection st' = Some sec \<and> is_GOT_entry (Graph st') sec t' g'))"
      by (auto simp: st'_eq is_GOT_entry_def AnonymousSymbol_def split: if_splits)
    show "\<And>t' g'. GOTEntries st t' = Some g' \<Longrightarrow> GOTEntries st' t' = Some g'"
      using None by (auto simp: st'_eq)
    show "\<And>t' s. Stubs st' t' = Some s \<Longrightarrow> Stubs st t' = Some s
      \<or> (NumSymbols (Graph st) \<le> s \<and> s < NumSymbols (Graph st')
         \<and> NumAddressables (Graph st) \<le> Base (Symbols (Graph st') s)
         \<and> Base (Symbols (Graph st') s) < NumAddressables (Graph st')
         \<and> (\<exists>sec g. StubsSection st' = Some sec \<and> GOTEntries st' t' = Some g
                \<and> is_stub (Graph st') sec g s))"
      by (simp add: st'_eq)
    show "\<And>b. NumAddressables (Graph st) \<le> b \<Longrightarrow> b < NumAddressables (Graph st')
      \<Longrightarrow> Section (Addressables (Graph st') b) < length (Sections (Graph st'))
        \<and> list_all (\<lambda>E. getKind E = Pointer64 \<or> getKind E = LDRLiteral19)
              (Edges (Addressables (Graph st') b))
        \<and> (GOTSection st' = Some (Section (Addressables (Graph st') b))
             \<longrightarrow> (\<exists>t g. GOTEntries st' t = Some g \<and> Base (Symbols (Graph st') g) = b))"
      using builder_invD(2) [OF inv]
      by (auto simp: st'_eq GOTEntryBlock_def AnonymousSymbol_def less_Suc_eq
          split: option.splits)
  qed
qed

lemma getGOTEntrySymbol_inv:
  assumes inv: "builder_inv G0 st" and call: "getGOTEntrySymbol st t = (st', g)"
  shows "GOT_call_post G0 st t st' g"
proof (cases "GOTEntries st t")
  case (Some gc)
  with call have "st' = st" "g = gc" by (simp_all add: getGOTEntrySymbol_cached)
  with inv Some show ?thesis by (auto simp: GOT_call_post_def)
next
  case None
  from getGOTEntrySymbol_fresh_inv [OF inv None call] None
  show ?thesis by (simp add: GOT_call_post_def)
qed

subsection \<open>Stubs\<close>

lemma sections_differ:
  assumes inv: "builder_inv G0 st"
    and "GOTSection st = Some gs" "StubsSection st = Some ss"
  shows "gs \<noteq> ss"
  using builder_invD(2) [OF inv assms(2)] builder_invD(3) [OF inv assms(3)] by auto

lemma getStubSymbol_fresh_GOT_cached_inv:
  assumes inv: "builder_inv G0 st" and None: "Stubs st t = None"
    and got: "GOTEntries st t = Some g"
    and call: "getStubSymbol st t = (st', s)"
  shows "Stub_call_post G0 st t st' s"
proof -
  note g0 = builder_invD(1) [OF inv]
  have le: "NumAddressables G0 \<le> NumAddressables (Graph st)"
    using growsD(2) [OF g0] .
  have les: "NumSymbols G0 \<le> NumSymbols (Graph st)"
    using growsD(1) [OF g0] .
  note eq = getStubSymbol_fresh_GOT_cached [OF None got, unfolded Let_def]
  from call eq have s: "s = NumSymbols (Graph st)" by simp
  from call have st': "st' = fst (getStubSymbol st t)" by simp
  note st'_eq = st' [unfolded eq fst_conv]
  have 1: "Stubs st' = (Stubs st)(t \<mapsto> s)" by (simp add: st'_eq s)
  have 2: "\<forall>t' g'. GOTEntries st t' = Some g' \<longrightarrow> GOTEntries st' t' = Some g'"
    by (simp add: st'_eq)
  have 3: "\<forall>a < NumAddressables G0. Addressables (Graph st') a = Addressables (Graph st) a"
    using le by (simp add: st'_eq)
  have 4: "\<forall>s < NumSymbols G0. Symbols (Graph st') s = Symbols (Graph st) s"
    using les by (simp add: st'_eq)
  have 5: "builder_inv G0 st'"
  proof (rule builder_inv_step [OF inv])
    show "grows G0 (Graph st) (Graph st')"
      unfolding st'_eq using grows_alloc1 [OF le] by simp
    show "\<And>sec. GOTSection st = Some sec \<Longrightarrow> GOTSection st' = Some sec"
      by (simp add: st'_eq)
    show "\<And>sec. StubsSection st = Some sec \<Longrightarrow> StubsSection st' = Some sec"
      by (simp add: st'_eq)
    show "\<And>sec. GOTSection st = None \<Longrightarrow> GOTSection st' = Some sec \<Longrightarrow>
      length (Sections (Graph st)) \<le> sec \<and> sec < length (Sections (Graph st'))
      \<and> Sections (Graph st') ! sec = (''$__GOT'', {MF_READ})"
      by (simp add: st'_eq)
    show "\<And>sec. StubsSection st = None \<Longrightarrow> StubsSection st' = Some sec \<Longrightarrow>
      length (Sections (Graph st)) \<le> sec \<and> sec < length (Sections (Graph st'))
      \<and> Sections (Graph st') ! sec = (''$__STUBS'', {MF_READ, MF_EXEC})"
      by (auto simp: st'_eq)
    show "\<And>t' g'. GOTEntries st' t' = Some g' \<Longrightarrow> GOTEntries st t' = Some g'
      \<or> (NumSymbols (Graph st) \<le> g' \<and> g' < NumSymbols (Graph st')
         \<and> NumAddressables (Graph st) \<le> Base (Symbols (Graph st') g')
         \<and> Base (Symbols (Graph st') g') < NumAddressables (Graph st')
         \<and> (\<exists>sec. GOTSection st' = Some sec \<and> is_GOT_entry (Graph st') sec t' g'))"
      by (simp add: st'_eq)
    show "\<And>t' g'. GOTEntries st t' = Some g' \<Longrightarrow> GOTEntries st' t' = Some g'"
      by (simp add: st'_eq)
    show "\<And>t' s. Stubs st' t' = Some s \<Longrightarrow> Stubs st t' = Some s
      \<or> (NumSymbols (Graph st) \<le> s \<and> s < NumSymbols (Graph st')
         \<and> NumAddressables (Graph st) \<le> Base (Symbols (Graph st') s)
         \<and> Base (Symbols (Graph st') s) < NumAddressables (Graph st')
         \<and> (\<exists>sec g. StubsSection st' = Some sec \<and> GOTEntries st' t' = Some g
                \<and> is_stub (Graph st') sec g s))"
      using got
      by (auto simp: st'_eq is_stub_def AnonymousSymbol_def split: if_splits)
    show "\<And>b. NumAddressables (Graph st) \<le> b \<Longrightarrow> b < NumAddressables (Graph st')
      \<Longrightarrow> Section (Addressables (Graph st') b) < length (Sections (Graph st'))
        \<and> list_all (\<lambda>E. getKind E = Pointer64 \<or> getKind E = LDRLiteral19)
              (Edges (Addressables (Graph st') b))
        \<and> (GOTSection st' = Some (Section (Addressables (Graph st') b))
             \<longrightarrow> (\<exists>t g. GOTEntries st' t = Some g \<and> Base (Symbols (Graph st') g) = b))"
    proof -
      fix b assume "NumAddressables (Graph st) \<le> b" "b < NumAddressables (Graph st')"
      then have b: "b = NumAddressables (Graph st)" by (simp add: st'_eq)
      show "Section (Addressables (Graph st') b) < length (Sections (Graph st'))
        \<and> list_all (\<lambda>E. getKind E = Pointer64 \<or> getKind E = LDRLiteral19)
              (Edges (Addressables (Graph st') b))
        \<and> (GOTSection st' = Some (Section (Addressables (Graph st') b))
             \<longrightarrow> (\<exists>t g. GOTEntries st' t = Some g \<and> Base (Symbols (Graph st') g) = b))"
      proof (cases "StubsSection st")
        case None
        show ?thesis
        proof (cases "GOTSection st")
          case None
          with \<open>StubsSection st = None\<close> show ?thesis
            by (simp add: st'_eq b StubBlock_def)
        next
          case (Some gs)
          with builder_invD(2) [OF inv Some] \<open>StubsSection st = None\<close> show ?thesis
            by (simp add: st'_eq b StubBlock_def)
        qed
      next
        case (Some ss)
        note ss = builder_invD(3) [OF inv Some]
        show ?thesis
        proof (cases "GOTSection st")
          case None
          with Some ss show ?thesis
            by (simp add: st'_eq b StubBlock_def)
        next
          case (Some gs)
          with sections_differ [OF inv Some \<open>StubsSection st = Some ss\<close>] ss
            \<open>StubsSection st = Some ss\<close> show ?thesis
            by (simp add: st'_eq b StubBlock_def)
        qed
      qed
    qed
  qed
  from 1 2 3 4 5 None show ?thesis by (simp add: Stub_call_post_def)
qed


lemma getStubSymbol_fresh_GOT_fresh_inv:
  assumes inv: "builder_inv G0 st" and None: "Stubs st t = None"
    and got: "GOTEntries st t = None"
    and call: "getStubSymbol st t = (st', s)"
  shows "Stub_call_post G0 st t st' s"
proof -
  note g0 = builder_invD(1) [OF inv]
  have le: "NumAddressables G0 \<le> NumAddressables (Graph st)"
    using growsD(2) [OF g0] .
  have les: "NumSymbols G0 \<le> NumSymbols (Graph st)"
    using growsD(1) [OF g0] .
  note eq = getStubSymbol_fresh_GOT_fresh [OF None got, unfolded Let_def]
  from call eq have s: "s = Suc (NumSymbols (Graph st))" by simp
  from call have st': "st' = fst (getStubSymbol st t)" by simp
  note st'_eq = st' [unfolded eq fst_conv]
  define ssec where "ssec = (case StubsSection st of Some sec \<Rightarrow> sec
     | None \<Rightarrow> length (Sections (Graph st)))"
  define new1 where "new1 = (case StubsSection st of Some sec \<Rightarrow> []
     | None \<Rightarrow> [(''$__STUBS'', {MF_READ, MF_EXEC})])"
  define new2 where "new2 = (case GOTSection st of Some sec \<Rightarrow> []
     | None \<Rightarrow> [(''$__GOT'', {MF_READ})])"
  define gsec where "gsec = (case GOTSection st of Some sec \<Rightarrow> sec
     | None \<Rightarrow> length (Sections (Graph st)) + length new1)"
  note st'_def = st'_eq [folded new1_def, folded ssec_def new2_def gsec_def]
  have secs: "ssec < length (Sections (Graph st) @ new1 @ new2)"
    "gsec < length (Sections (Graph st) @ new1 @ new2)"
    "(Sections (Graph st) @ new1 @ new2) ! ssec = (''$__STUBS'', {MF_READ, MF_EXEC})"
    "(Sections (Graph st) @ new1 @ new2) ! gsec = (''$__GOT'', {MF_READ})"
    "StubsSection st = None \<Longrightarrow> length (Sections (Graph st)) \<le> ssec"
    "GOTSection st = None \<Longrightarrow> length (Sections (Graph st)) \<le> gsec"
    "\<And>sec. StubsSection st = Some sec \<Longrightarrow> ssec = sec"
    "\<And>sec. GOTSection st = Some sec \<Longrightarrow> gsec = sec"
  proof -
    show "\<And>sec. StubsSection st = Some sec \<Longrightarrow> ssec = sec"
      by (simp add: ssec_def)
    show "\<And>sec. GOTSection st = Some sec \<Longrightarrow> gsec = sec"
      by (simp add: gsec_def)
    show "StubsSection st = None \<Longrightarrow> length (Sections (Graph st)) \<le> ssec"
      by (simp add: ssec_def)
    show "GOTSection st = None \<Longrightarrow> length (Sections (Graph st)) \<le> gsec"
      by (simp add: gsec_def)
    show "ssec < length (Sections (Graph st) @ new1 @ new2)"
      "(Sections (Graph st) @ new1 @ new2) ! ssec = (''$__STUBS'', {MF_READ, MF_EXEC})"
    proof (atomize (full), cases "StubsSection st")
      case None
      then show "ssec < length (Sections (Graph st) @ new1 @ new2) \<and>
        (Sections (Graph st) @ new1 @ new2) ! ssec = (''$__STUBS'', {MF_READ, MF_EXEC})"
        by (simp add: ssec_def new1_def nth_append)
    next
      case (Some ss)
      with builder_invD(3) [OF inv Some]
      show "ssec < length (Sections (Graph st) @ new1 @ new2) \<and>
        (Sections (Graph st) @ new1 @ new2) ! ssec = (''$__STUBS'', {MF_READ, MF_EXEC})"
        by (simp add: ssec_def new1_def nth_append)
    qed
    show "gsec < length (Sections (Graph st) @ new1 @ new2)"
      "(Sections (Graph st) @ new1 @ new2) ! gsec = (''$__GOT'', {MF_READ})"
    proof (atomize (full), cases "GOTSection st")
      case None
      then show "gsec < length (Sections (Graph st) @ new1 @ new2) \<and>
        (Sections (Graph st) @ new1 @ new2) ! gsec = (''$__GOT'', {MF_READ})"
        by (simp add: gsec_def new2_def nth_append)
    next
      case (Some gs)
      with builder_invD(2) [OF inv Some]
      show "gsec < length (Sections (Graph st) @ new1 @ new2) \<and>
        (Sections (Graph st) @ new1 @ new2) ! gsec = (''$__GOT'', {MF_READ})"
        by (simp add: gsec_def new2_def nth_append)
    qed
  qed
  have differ: "gsec \<noteq> ssec"
    using secs(3,4) by auto
  have 1: "Stubs st' = (Stubs st)(t \<mapsto> s)" by (simp add: st'_def s)
  have 2: "\<forall>t' g'. GOTEntries st t' = Some g' \<longrightarrow> GOTEntries st' t' = Some g'"
    using got by (auto simp: st'_def)
  have 3: "\<forall>a < NumAddressables G0. Addressables (Graph st') a = Addressables (Graph st) a"
    using le by (simp add: st'_def)
  have 4: "\<forall>s < NumSymbols G0. Symbols (Graph st') s = Symbols (Graph st) s"
    using les by (simp add: st'_def)
  have 5: "builder_inv G0 st'"
  proof (rule builder_inv_step [OF inv])
    show "grows G0 (Graph st) (Graph st')"
      unfolding st'_def using grows_alloc2 [OF le] by simp
    show "\<And>sec. GOTSection st = Some sec \<Longrightarrow> GOTSection st' = Some sec"
      by (simp add: st'_def secs)
    show "\<And>sec. StubsSection st = Some sec \<Longrightarrow> StubsSection st' = Some sec"
      by (simp add: st'_def secs)
    show "\<And>sec. GOTSection st = None \<Longrightarrow> GOTSection st' = Some sec \<Longrightarrow>
      length (Sections (Graph st)) \<le> sec \<and> sec < length (Sections (Graph st'))
      \<and> Sections (Graph st') ! sec = (''$__GOT'', {MF_READ})"
      using secs(2,4,6) by (auto simp: st'_def)
    show "\<And>sec. StubsSection st = None \<Longrightarrow> StubsSection st' = Some sec \<Longrightarrow>
      length (Sections (Graph st)) \<le> sec \<and> sec < length (Sections (Graph st'))
      \<and> Sections (Graph st') ! sec = (''$__STUBS'', {MF_READ, MF_EXEC})"
      using secs(1,3,5) by (auto simp: st'_def)
    show "\<And>t' g'. GOTEntries st' t' = Some g' \<Longrightarrow> GOTEntries st t' = Some g'
      \<or> (NumSymbols (Graph st) \<le> g' \<and> g' < NumSymbols (Graph st')
         \<and> NumAddressables (Graph st) \<le> Base (Symbols (Graph st') g')
         \<and> Base (Symbols (Graph st') g') < NumAddressables (Graph st')
         \<and> (\<exists>sec. GOTSection st' = Some sec \<and> is_GOT_entry (Graph st') sec t' g'))"
      by (auto simp: st'_def is_GOT_entry_def AnonymousSymbol_def split: if_splits)
    show "\<And>t' g'. GOTEntries st t' = Some g' \<Longrightarrow> GOTEntries st' t' = Some g'"
      using got by (auto simp: st'_def)
    show "\<And>t' s. Stubs st' t' = Some s \<Longrightarrow> Stubs st t' = Some s
      \<or> (NumSymbols (Graph st) \<le> s \<and> s < NumSymbols (Graph st')
         \<and> NumAddressables (Graph st) \<le> Base (Symbols (Graph st') s)
         \<and> Base (Symbols (Graph st') s) < NumAddressables (Graph st')
         \<and> (\<exists>sec g. StubsSection st' = Some sec \<and> GOTEntries st' t' = Some g
                \<and> is_stub (Graph st') sec g s))"
      by (auto simp: st'_def is_stub_def AnonymousSymbol_def split: if_splits)
    show "\<And>b. NumAddressables (Graph st) \<le> b \<Longrightarrow> b < NumAddressables (Graph st')
      \<Longrightarrow> Section (Addressables (Graph st') b) < length (Sections (Graph st'))
        \<and> list_all (\<lambda>E. getKind E = Pointer64 \<or> getKind E = LDRLiteral19)
              (Edges (Addressables (Graph st') b))
        \<and> (GOTSection st' = Some (Section (Addressables (Graph st') b))
             \<longrightarrow> (\<exists>t g. GOTEntries st' t = Some g \<and> Base (Symbols (Graph st') g) = b))"
    proof -
      fix b assume "NumAddressables (Graph st) \<le> b" "b < NumAddressables (Graph st')"
      then have "b = NumAddressables (Graph st) \<or> b = Suc (NumAddressables (Graph st))"
        by (auto simp: st'_def)
      then show "Section (Addressables (Graph st') b) < length (Sections (Graph st'))
        \<and> list_all (\<lambda>E. getKind E = Pointer64 \<or> getKind E = LDRLiteral19)
              (Edges (Addressables (Graph st') b))
        \<and> (GOTSection st' = Some (Section (Addressables (Graph st') b))
             \<longrightarrow> (\<exists>t g. GOTEntries st' t = Some g \<and> Base (Symbols (Graph st') g) = b))"
      proof
        assume b: "b = NumAddressables (Graph st)"
        show ?thesis
          using secs(1) differ by (simp add: st'_def b StubBlock_def)
      next
        assume b: "b = Suc (NumAddressables (Graph st))"
        have "GOTEntries st' t = Some (NumSymbols (Graph st))
            \<and> Base (Symbols (Graph st') (NumSymbols (Graph st))) = b"
          by (simp add: st'_def b AnonymousSymbol_def)
        then have "\<exists>t g. GOTEntries st' t = Some g \<and> Base (Symbols (Graph st') g) = b"
          by blast
        then show ?thesis
          using secs(2) by (simp add: st'_def b GOTEntryBlock_def)
      qed
    qed
  qed
  from 1 2 3 4 5 None show ?thesis by (simp add: Stub_call_post_def)
qed

lemma getStubSymbol_inv:
  assumes inv: "builder_inv G0 st" and call: "getStubSymbol st t = (st', s)"
  shows "Stub_call_post G0 st t st' s"
proof (cases "Stubs st t")
  case (Some sc)
  with call have "st' = st" "s = sc" by (simp_all add: getStubSymbol_cached)
  with inv Some show ?thesis by (auto simp: Stub_call_post_def)
next
  case None
  show ?thesis
  proof (cases "GOTEntries st t")
    case (Some g)
    from inv None Some call show ?thesis by (rule getStubSymbol_fresh_GOT_cached_inv)
  next
    case None
    from inv \<open>Stubs st t = None\<close> None call show ?thesis
      by (rule getStubSymbol_fresh_GOT_fresh_inv)
  qed
qed

subsection \<open>Fixing an edge\<close>

text \<open>
  The edge to leave, the edges done and the assertion, in the terms of the source's
  \<open>isGOTEdge\<close> and \<open>isExternalBranchEdge\<close>.
\<close>

lemma fixed_edge_eq:
  "fixed_edge G0 st E =
     (if isGOTEdge E then
        E\<lparr>getKind := (if getKind E = PointerToGOT then Delta32 else getKind E),
          getTarget := the (GOTEntries st (getTarget E))\<rparr>
      else if isExternalBranchEdge G0 E then
        E\<lparr>getTarget := the (Stubs st (getTarget E))\<rparr>
      else E)"
  by (auto simp: fixed_edge_def isGOTEdge_def isExternalBranchEdge_def)

lemma edge_done_eq:
  "edge_done G0 st E \<longleftrightarrow>
     (if isGOTEdge E then GOTEntries st (getTarget E) \<noteq> None
      else if isExternalBranchEdge G0 E then Stubs st (getTarget E) \<noteq> None
      else True)"
  by (auto simp: edge_done_def isGOTEdge_def isExternalBranchEdge_def)

lemma branch_addends_asserted_eq:
  "branch_addends_asserted NDEBUG G \<longleftrightarrow>
     NDEBUG \<or> (\<forall>b \<in> set (Blocks G). \<forall>E \<in> set (Edges (Addressables G b)).
                  isExternalBranchEdge G E \<longrightarrow> getAddend E = 0)"
  by (simp add: branch_addends_asserted_def isExternalBranchEdge_def)

lemma setEdge_inv:
  assumes inv: "builder_inv G0 st" and B: "B < NumAddressables G0"
  shows "builder_inv G0 (setEdge st B i E)"
proof (rule builder_inv_step [OF inv])
  note g0 = builder_invD(1) [OF inv]
  have le: "NumAddressables G0 \<le> NumAddressables (Graph st)"
    using growsD(2) [OF g0] .
  show "grows G0 (Graph st) (Graph (setEdge st B i E))"
    using B le by (intro growsI) (simp_all add: setEdge_def)
qed (simp_all add: setEdge_def)

lemma setEdge_caches [simp]:
  "GOTEntries (setEdge st B i E) = GOTEntries st"
  "Stubs (setEdge st B i E) = Stubs st"
  by (simp_all add: setEdge_def)

lemma Edges_setEdge:
  "Edges (Addressables (Graph (setEdge st B i E)) b) =
     (if b = B then (Edges (Addressables (Graph st) b))[i := E]
      else Edges (Addressables (Graph st) b))"
  by (simp add: setEdge_def)

lemma fixed_edge_stable:
  assumes "edge_done G0 st E"
    and "\<And>t g. GOTEntries st t = Some g \<Longrightarrow> GOTEntries st' t = Some g"
    and "\<And>t s. Stubs st t = Some s \<Longrightarrow> Stubs st' t = Some s"
  shows "fixed_edge G0 st' E = fixed_edge G0 st E" and "edge_done G0 st' E"
  using assms by (auto simp: fixed_edge_eq edge_done_eq)

lemma fixed_edges_stable:
  assumes "list_all (edge_done G0 st) es"
    and "\<And>t g. GOTEntries st t = Some g \<Longrightarrow> GOTEntries st' t = Some g"
    and "\<And>t s. Stubs st t = Some s \<Longrightarrow> Stubs st' t = Some s"
  shows "map (fixed_edge G0 st') es = map (fixed_edge G0 st) es"
    and "list_all (edge_done G0 st') es"
  using assms(1) fixed_edge_stable [OF _ assms(2,3)]
  by (induction es) auto

lemma isDefined_kept:
  assumes wf: "wf_graph G0" and inv: "builder_inv G0 st" and t: "t < NumSymbols G0"
  shows "isDefined (Graph st) t = isDefined G0 t"
proof -
  note g0 = builder_invD(1) [OF inv]
  have sy: "Symbols (Graph st) t = Symbols G0 t"
    using growsD(5) [OF g0 t] .
  have "Base (Symbols G0 t) < NumAddressables G0"
    using wf t by (simp add: wf_graph_def)
  from growsD(7) [OF g0 this]
  have "IsDefined (Addressables (Graph st) (Base (Symbols G0 t)))
      = IsDefined (Addressables G0 (Base (Symbols G0 t)))"
    by (metis Addressable.select_convs(2) Addressable.surjective Addressable.update_convs(7))
  then show ?thesis by (simp add: isDefined_def sy)
qed

lemma scan_invD:
  assumes "scan_inv G0 n st"
  shows "builder_inv G0 st"
    and "\<And>b. b < NumAddressables G0 \<Longrightarrow>
           Edges (Addressables (Graph st) b) =
             map (fixed_edge G0 st) (take (n b) (Edges (Addressables G0 b)))
             @ drop (n b) (Edges (Addressables G0 b))"
    and "\<And>b. b < NumAddressables G0 \<Longrightarrow>
           list_all (edge_done G0 st) (take (n b) (Edges (Addressables G0 b)))"
  using assms unfolding scan_inv_def by blast+

lemma scan_inv_step:
  assumes inv: "scan_inv G0 n st" and B: "B < NumAddressables G0"
    and i: "n B = i" "i < length (Edges (Addressables G0 B))"
    and inv': "builder_inv G0 st'"
    and got_kept: "\<And>t g. GOTEntries st t = Some g \<Longrightarrow> GOTEntries st' t = Some g"
    and stubs_kept: "\<And>t s. Stubs st t = Some s \<Longrightarrow> Stubs st' t = Some s"
    and edges': "\<And>b. b < NumAddressables G0 \<Longrightarrow>
        Edges (Addressables (Graph st') b) =
          (if b = B then (Edges (Addressables (Graph st) b))
                           [i := fixed_edge G0 st' (Edges (Addressables G0 B) ! i)]
           else Edges (Addressables (Graph st) b))"
    and don: "edge_done G0 st' (Edges (Addressables G0 B) ! i)"
  shows "scan_inv G0 (n(B := Suc i)) st'"
  unfolding scan_inv_def
proof (intro conjI allI impI)
  show "builder_inv G0 st'" by (rule inv')
next
  fix b assume b: "b < NumAddressables G0"
  let ?es = "Edges (Addressables G0 b)"
  note cur = scan_invD(2) [OF inv b]
  note dn = scan_invD(3) [OF inv b]
  note st = fixed_edges_stable [OF dn got_kept stubs_kept]
  show "Edges (Addressables (Graph st') b) =
      map (fixed_edge G0 st') (take ((n(B := Suc i)) b) ?es) @ drop ((n(B := Suc i)) b) ?es"
  proof (cases "b = B")
    case False
    then show ?thesis using edges' [OF b] cur st(1) by simp
  next
    case True
    have d: "drop i ?es = ?es ! i # drop (Suc i) ?es"
      using i True by (simp add: Cons_nth_drop_Suc)
    have t: "take (Suc i) ?es = take i ?es @ [?es ! i]"
      using i True by (simp add: take_Suc_conv_app_nth)
    have "(map (fixed_edge G0 st) (take i ?es) @ (?es ! i # drop (Suc i) ?es))
         [i := fixed_edge G0 st' (?es ! i)]
       = map (fixed_edge G0 st) (take i ?es) @ fixed_edge G0 st' (?es ! i) # drop (Suc i) ?es"
      using i True by (simp add: list_update_append)
    also have "\<dots> = map (fixed_edge G0 st') (take (Suc i) ?es) @ drop (Suc i) ?es"
      using st(1) i True unfolding t by simp
    finally have "(map (fixed_edge G0 st) (take i ?es) @ drop i ?es)
         [i := fixed_edge G0 st' (?es ! i)]
       = map (fixed_edge G0 st') (take (Suc i) ?es) @ drop (Suc i) ?es"
      unfolding d [symmetric] .
    then show ?thesis using edges' [OF b] cur True i by simp
  qed
  show "list_all (edge_done G0 st') (take ((n(B := Suc i)) b) ?es)"
  proof (cases "b = B")
    case False
    then show ?thesis using st(2) by simp
  next
    case True
    then show ?thesis using st(2) don i by (simp add: take_Suc_conv_app_nth)
  qed
qed

text \<open>
  The failures of the two fixing functions: \<open>fixGOTEdge\<close> on an edge that is not a GOT
  edge, and the assertions of \<open>fixExternalBranchEdge\<close> in a build with assertions.
\<close>

lemma fixGOTEdge_unreachable:
  "\<not> isGOTEdge E \<Longrightarrow> fixGOTEdge E g = Inl (Unreachable ''Not a GOT edge?'')"
  by (simp add: fixGOTEdge_def isGOTEdge_def)

lemma fixExternalBranchEdge_asserts:
  "fixExternalBranchEdge NDEBUG E s =
     (if \<not> NDEBUG \<and> getKind E \<noteq> Branch26 then Inl (AssertionFailed ''Not a Branch32 edge?'')
      else if \<not> NDEBUG \<and> getAddend E \<noteq> 0
        then Inl (AssertionFailed ''Branch32 edge has non-zero addend?'')
      else Inr (E\<lparr>getTarget := s\<rparr>))"
  by (simp add: fixExternalBranchEdge_def assert_def)

lemma fixGOTEdge_fixed:
  assumes "isGOTEdge E" "GOTEntries st (getTarget E) = Some g"
  shows "fixGOTEdge E g = Inr (fixed_edge G0 st E)"
  using assms by (auto simp: fixGOTEdge_def fixed_edge_eq isGOTEdge_def)

lemma fixExternalBranchEdge_fixed:
  assumes "\<not> isGOTEdge E" "isExternalBranchEdge G0 E" "Stubs st (getTarget E) = Some s"
    and "NDEBUG \<or> getAddend E = 0"
  shows "fixExternalBranchEdge NDEBUG E s = Inr (fixed_edge G0 st E)"
  using assms
  by (auto simp: fixExternalBranchEdge_def fixed_edge_eq isExternalBranchEdge_def assert_def)

lemma fixed_edge_setEdge [simp]:
  "fixed_edge G0 (setEdge st B i E') E = fixed_edge G0 st E"
  by (simp add: fixed_edge_eq)

lemma edge_done_setEdge [simp]:
  "edge_done G0 (setEdge st B i E') E = edge_done G0 st E"
  by (simp add: edge_done_eq)

lemma run_edge_step:
  assumes wf: "wf_graph G0" and asserted: "branch_addends_asserted NDEBUG G0"
    and inv: "scan_inv G0 n st" and B: "B \<in> set (Blocks G0)"
    and i: "n B = i" "i < length (Edges (Addressables G0 B))"
  shows "\<exists>st'. run_edge NDEBUG B i st = Inr st' \<and> scan_inv G0 (n(B := Suc i)) st'"
proof -
  let ?es = "Edges (Addressables G0 B)"
  let ?E = "?es ! i"
  note binv = scan_invD(1) [OF inv]
  have Bl: "B < NumAddressables G0"
    using wf B by (simp add: wf_graph_def)
  have E_in: "?E \<in> set ?es" using i by simp
  have tgt: "getTarget ?E < NumSymbols G0"
    using wf B E_in by (simp add: wf_graph_def)
  note cur = scan_invD(2) [OF inv Bl]
  have len: "length (Edges (Addressables (Graph st) B)) = length ?es"
    using i by (simp add: cur)
  have nth: "Edges (Addressables (Graph st) B) ! i = ?E"
    using i by (simp add: cur nth_append)
  have ext: "isExternalBranchEdge (Graph st) ?E = isExternalBranchEdge G0 ?E"
    using isDefined_kept [OF wf binv tgt] by (simp add: isExternalBranchEdge_def)
  show ?thesis
  proof (cases "isGOTEdge ?E")
    case True
    obtain st1 g where call: "getGOTEntrySymbol st (getTarget ?E) = (st1, g)"
      by (cases "getGOTEntrySymbol st (getTarget ?E)")
    note post = getGOTEntrySymbol_inv [OF binv call, unfolded GOT_call_post_def]
    from post have g: "GOTEntries st1 (getTarget ?E) = Some g" by simp
    let ?st' = "setEdge st1 B i (fixed_edge G0 st1 ?E)"
    have run: "run_edge NDEBUG B i st = Inr ?st'"
      using i True call fixGOTEdge_fixed [OF True g, of G0]
      by (simp add: run_edge_def len nth Let_def and_then_def)
    have "scan_inv G0 (n(B := Suc i)) ?st'"
    proof (rule scan_inv_step [OF inv Bl i])
      show "builder_inv G0 ?st'"
        using post Bl by (simp add: setEdge_inv)
      show "\<And>t g. GOTEntries st t = Some g \<Longrightarrow> GOTEntries ?st' t = Some g"
        using post by auto
      show "\<And>t s. Stubs st t = Some s \<Longrightarrow> Stubs ?st' t = Some s"
        using post by simp
      show "\<And>b. b < NumAddressables G0 \<Longrightarrow>
        Edges (Addressables (Graph ?st') b) =
          (if b = B then (Edges (Addressables (Graph st) b))[i := fixed_edge G0 ?st' ?E]
           else Edges (Addressables (Graph st) b))"
        using post by (simp add: Edges_setEdge)
      show "edge_done G0 ?st' ?E"
        using True g by (simp add: edge_done_eq)
    qed
    with run show ?thesis by blast
  next
    case False
    show ?thesis
    proof (cases "isExternalBranchEdge G0 ?E")
      case True
      obtain st1 s where call: "getStubSymbol st (getTarget ?E) = (st1, s)"
        by (cases "getStubSymbol st (getTarget ?E)")
      note post = getStubSymbol_inv [OF binv call, unfolded Stub_call_post_def]
      from post have s: "Stubs st1 (getTarget ?E) = Some s" by simp
      have addend: "NDEBUG \<or> getAddend ?E = 0"
        using asserted B E_in True by (auto simp: branch_addends_asserted_eq)
      let ?st' = "setEdge st1 B i (fixed_edge G0 st1 ?E)"
      have run: "run_edge NDEBUG B i st = Inr ?st'"
        using i False True call fixExternalBranchEdge_fixed [OF False True s addend]
        by (simp add: run_edge_def len nth Let_def and_then_def ext)
      have "scan_inv G0 (n(B := Suc i)) ?st'"
      proof (rule scan_inv_step [OF inv Bl i])
        show "builder_inv G0 ?st'"
          using post Bl by (simp add: setEdge_inv)
        show "\<And>t g. GOTEntries st t = Some g \<Longrightarrow> GOTEntries ?st' t = Some g"
          using post by simp
        show "\<And>t s. Stubs st t = Some s \<Longrightarrow> Stubs ?st' t = Some s"
          using post by auto
        show "\<And>b. b < NumAddressables G0 \<Longrightarrow>
          Edges (Addressables (Graph ?st') b) =
            (if b = B then (Edges (Addressables (Graph st) b))[i := fixed_edge G0 ?st' ?E]
             else Edges (Addressables (Graph st) b))"
          using post by (simp add: Edges_setEdge)
        show "edge_done G0 ?st' ?E"
          using False True s by (simp add: edge_done_eq)
      qed
      with run show ?thesis by blast
    next
      case nb: False
      have run: "run_edge NDEBUG B i st = Inr st"
        using i False nb by (simp add: run_edge_def len nth Let_def ext)
      have fx: "fixed_edge G0 st ?E = ?E"
        using False nb by (simp add: fixed_edge_eq)
      have "scan_inv G0 (n(B := Suc i)) st"
      proof (rule scan_inv_step [OF inv Bl i binv])
        show "\<And>b. b < NumAddressables G0 \<Longrightarrow>
          Edges (Addressables (Graph st) b) =
            (if b = B then (Edges (Addressables (Graph st) b))[i := fixed_edge G0 st ?E]
             else Edges (Addressables (Graph st) b))"
          using list_update_id [of "Edges (Addressables (Graph st) B)" i]
          by (simp add: fx nth)
        show "edge_done G0 st ?E"
          using False nb by (simp add: edge_done_eq)
      qed simp_all
      with run show ?thesis by blast
    qed
  qed
qed

subsection \<open>The scan\<close>

lemma run_edges_scan:
  assumes wf: "wf_graph G0" and asserted: "branch_addends_asserted NDEBUG G0"
    and B: "B \<in> set (Blocks G0)"
  shows "scan_inv G0 n st \<Longrightarrow> n B = i \<Longrightarrow> i \<le> length (Edges (Addressables G0 B)) \<Longrightarrow>
    \<exists>st'. run_edges NDEBUG B [i..<length (Edges (Addressables G0 B))] st = Inr st'
       \<and> scan_inv G0 (n(B := length (Edges (Addressables G0 B)))) st'"
proof (induction "length (Edges (Addressables G0 B)) - i" arbitrary: i n st)
  case 0
  then have "i = length (Edges (Addressables G0 B))" by simp
  with 0 show ?case by (simp add: fun_upd_idem)
next
  case (Suc k)
  then have less: "i < length (Edges (Addressables G0 B))" by simp
  from run_edge_step [OF wf asserted Suc.prems(1) B Suc.prems(2) less]
  obtain st1 where st1: "run_edge NDEBUG B i st = Inr st1"
    "scan_inv G0 (n(B := Suc i)) st1"
    by blast
  have "\<exists>st'. run_edges NDEBUG B [Suc i..<length (Edges (Addressables G0 B))] st1 = Inr st'
       \<and> scan_inv G0 ((n(B := Suc i))(B := length (Edges (Addressables G0 B)))) st'"
    using Suc.hyps(2) less by (intro Suc.hyps(1) [OF _ st1(2)]) simp_all
  then obtain st' where st':
    "run_edges NDEBUG B [Suc i..<length (Edges (Addressables G0 B))] st1 = Inr st'"
    "scan_inv G0 (n(B := length (Edges (Addressables G0 B)))) st'"
    by auto
  have "run_edges NDEBUG B [i..<length (Edges (Addressables G0 B))] st = Inr st'"
    using less st1(1) st'(1) by (simp add: upt_conv_Cons and_then_def)
  with st'(2) show ?case by blast
qed

lemma run_block_scan:
  assumes wf: "wf_graph G0" and asserted: "branch_addends_asserted NDEBUG G0"
    and B: "B \<in> set (Blocks G0)" and inv: "scan_inv G0 n st" and n: "n B = 0"
  shows "\<exists>st'. run_block NDEBUG B st = Inr st'
       \<and> scan_inv G0 (n(B := length (Edges (Addressables G0 B)))) st'"
proof -
  have "B < NumAddressables G0"
    using wf B by (simp add: wf_graph_def)
  from scan_invD(2) [OF inv this]
  have "length (Edges (Addressables (Graph st) B)) = length (Edges (Addressables G0 B))"
    by (simp add: n)
  with run_edges_scan [OF wf asserted B inv n] show ?thesis
    by (simp add: run_block_def)
qed

lemma run_blocks_scan:
  assumes wf: "wf_graph G0" and asserted: "branch_addends_asserted NDEBUG G0"
  shows "distinct Bs \<Longrightarrow> set Bs \<subseteq> set (Blocks G0) \<Longrightarrow> scan_inv G0 n st
    \<Longrightarrow> (\<And>b. b \<in> set Bs \<Longrightarrow> n b = 0) \<Longrightarrow>
    \<exists>st'. run_blocks NDEBUG Bs st = Inr st'
       \<and> scan_inv G0 (\<lambda>b. if b \<in> set Bs then length (Edges (Addressables G0 b)) else n b) st'"
proof (induction Bs arbitrary: n st)
  case Nil
  then show ?case by simp
next
  case (Cons B Bs)
  from Cons.prems have B: "B \<in> set (Blocks G0)" and nB: "n B = 0" by simp_all
  from run_block_scan [OF wf asserted B Cons.prems(3) nB]
  obtain st1 where st1: "run_block NDEBUG B st = Inr st1"
    "scan_inv G0 (n(B := length (Edges (Addressables G0 B)))) st1"
    by blast
  let ?n1 = "n(B := length (Edges (Addressables G0 B)))"
  have "\<exists>st'. run_blocks NDEBUG Bs st1 = Inr st'
       \<and> scan_inv G0 (\<lambda>b. if b \<in> set Bs then length (Edges (Addressables G0 b))
                           else ?n1 b) st'"
    using Cons.prems by (intro Cons.IH [OF _ _ st1(2)]) auto
  then obtain st' where st': "run_blocks NDEBUG Bs st1 = Inr st'"
    "scan_inv G0 (\<lambda>b. if b \<in> set Bs then length (Edges (Addressables G0 b)) else ?n1 b) st'"
    by blast
  have eq: "(\<lambda>b. if b \<in> set Bs then length (Edges (Addressables G0 b)) else ?n1 b)
      = (\<lambda>b. if b \<in> set (B # Bs) then length (Edges (Addressables G0 b)) else n b)"
    by auto
  have "run_blocks NDEBUG (B # Bs) st = Inr st'"
    using st1(1) st'(1) by (simp add: and_then_def)
  with st'(2) show ?case unfolding eq by blast
qed

lemma builder_inv_initial: "builder_inv G0 (MachO_arm64_GOTAndStubsBuilder G0)"
  by (rule builder_invI) (simp_all add: MachO_arm64_GOTAndStubsBuilder_def grows_refl)

lemma scan_inv_initial: "scan_inv G0 (\<lambda>b. 0) (MachO_arm64_GOTAndStubsBuilder G0)"
  by (simp add: scan_inv_def builder_inv_initial)
     (simp add: MachO_arm64_GOTAndStubsBuilder_def)

text \<open>
  The pass returns, and leaves the invariant and every edge of every block of the graph
  it started from fixed.
\<close>

lemma run_scan:
  assumes wf: "wf_graph G0" and asserted: "branch_addends_asserted NDEBUG G0"
  shows "\<exists>st'. run NDEBUG (MachO_arm64_GOTAndStubsBuilder G0) = Inr st'
     \<and> builder_inv G0 st'
     \<and> (\<forall>b \<in> set (Blocks G0).
          Edges (Addressables (Graph st') b)
            = map (fixed_edge G0 st') (Edges (Addressables G0 b))
          \<and> list_all (edge_done G0 st') (Edges (Addressables G0 b)))"
proof -
  have d: "distinct (Blocks G0)" using wf by (simp add: wf_graph_def)
  from run_blocks_scan [OF wf asserted d subset_refl scan_inv_initial]
  obtain st' where st': "run_blocks NDEBUG (Blocks G0) (MachO_arm64_GOTAndStubsBuilder G0)
      = Inr st'"
    "scan_inv G0 (\<lambda>b. if b \<in> set (Blocks G0) then length (Edges (Addressables G0 b)) else 0)
       st'"
    by auto
  have run: "run NDEBUG (MachO_arm64_GOTAndStubsBuilder G0) = Inr st'"
    using st'(1) by (simp add: run_def MachO_arm64_GOTAndStubsBuilder_def)
  have "Edges (Addressables (Graph st') b)
            = map (fixed_edge G0 st') (Edges (Addressables G0 b))
          \<and> list_all (edge_done G0 st') (Edges (Addressables G0 b))"
    if b: "b \<in> set (Blocks G0)" for b
  proof -
    have "b < NumAddressables G0" using wf b by (simp add: wf_graph_def)
    from scan_invD(2,3) [OF st'(2) this] b show ?thesis by simp
  qed
  with run scan_invD(1) [OF st'(2)] show ?thesis by blast
qed

subsection \<open>What the invariant gives\<close>

lemma old_block_section:
  assumes wf: "wf_graph G0" and inv: "builder_inv G0 st" and b: "b \<in> set (Blocks G0)"
  shows "Section (Addressables (Graph st) b) < length (Sections G0)"
proof -
  note g0 = builder_invD(1) [OF inv]
  have bl: "b < NumAddressables G0" and sec: "Section (Addressables G0 b) < length (Sections G0)"
    using wf b by (simp_all add: wf_graph_def)
  from growsD(7) [OF g0 bl]
  have "Section (Addressables (Graph st) b) = Section (Addressables G0 b)"
    by (metis Addressable.select_convs(3) Addressable.surjective Addressable.update_convs(7))
  with sec show ?thesis by simp
qed

lemma blocks_old_or_new:
  assumes wf: "wf_graph G0" and inv: "builder_inv G0 st" and b: "b \<in> set (Blocks (Graph st))"
  shows "b \<in> set (Blocks G0)
     \<or> (NumAddressables G0 \<le> b \<and> b < NumAddressables (Graph st))"
  using growsD(4) [OF builder_invD(1) [OF inv]] b by auto

lemma cached_GOT_entry:
  assumes wf: "wf_graph G0" and inv: "builder_inv G0 st" and got: "GOTEntries st t = Some g"
  shows "\<exists>gs. GOTSection st = Some gs \<and> gs < length (Sections (Graph st))
     \<and> Sections (Graph st) ! gs = (''$__GOT'', {MF_READ})
     \<and> is_GOT_entry (Graph st) gs t g
     \<and> (\<forall>b \<in> set (Blocks (Graph st)).
           Section (Addressables (Graph st) b) = gs
           \<and> (\<exists>E \<in> set (Edges (Addressables (Graph st) b)). getTarget E = t)
           \<longrightarrow> b = Base (Symbols (Graph st) g))"
proof -
  from builder_invD(4) [OF inv got]
  obtain gs where gs: "GOTSection st = Some gs" "is_GOT_entry (Graph st) gs t g"
    by blast
  note sec = builder_invD(2) [OF inv gs(1)]
  have uniq: "b = Base (Symbols (Graph st) g)"
    if b: "b \<in> set (Blocks (Graph st))" "Section (Addressables (Graph st) b) = gs"
      and E: "E \<in> set (Edges (Addressables (Graph st) b))" "getTarget E = t"
    for b E
  proof -
    from blocks_old_or_new [OF wf inv b(1)]
    show ?thesis
    proof
      assume "b \<in> set (Blocks G0)"
      from old_block_section [OF wf inv this] sec b(2) show ?thesis by simp
    next
      assume new: "NumAddressables G0 \<le> b \<and> b < NumAddressables (Graph st)"
      with builder_invD(7) [OF inv gs(1) _ _ b(2)]
      obtain t' g' where c: "GOTEntries st t' = Some g'" "Base (Symbols (Graph st) g') = b"
        by blast
      from builder_invD(4) [OF inv c(1)] gs(1)
      have "is_GOT_entry (Graph st) gs t' g'" by auto
      with c(2) have "Addressables (Graph st) b = GOTEntryBlock gs t'"
        by (simp add: is_GOT_entry_def)
      with E have "t' = t" by (simp add: GOTEntryBlock_def)
      with c got show ?thesis by simp
    qed
  qed
  from gs sec uniq show ?thesis by blast
qed

lemma fixed_edge_not_PointerToGOT:
  "getKind (fixed_edge G0 st E) \<noteq> PointerToGOT"
  by (auto simp: fixed_edge_eq isGOTEdge_def isExternalBranchEdge_def)

lemma new_block_kinds:
  assumes inv: "builder_inv G0 st"
    and "NumAddressables G0 \<le> b \<and> b < NumAddressables (Graph st)"
    and "E \<in> set (Edges (Addressables (Graph st) b))"
  shows "getKind E = Pointer64 \<or> getKind E = LDRLiteral19"
  using builder_invD(6) [OF inv, of b] assms(2,3) by (auto simp: list_all_iff)


text \<open>
  The blocks that the pass added need no scan: scanning one of them leaves the state as
  it is.
\<close>

lemma run_edges_unchanged:
  assumes "\<And>i. i \<in> set idxs \<Longrightarrow> i < length (Edges (Addressables (Graph st) B))
      \<and> \<not> isGOTEdge (Edges (Addressables (Graph st) B) ! i)
      \<and> getKind (Edges (Addressables (Graph st) B) ! i) \<noteq> Branch26"
  shows "run_edges NDEBUG B idxs st = Inr st"
  using assms
  by (induction idxs)
     (simp_all add: run_edge_def and_then_def isExternalBranchEdge_def Let_def)

lemma run_block_added:
  assumes inv: "builder_inv G0 st"
    and b: "NumAddressables G0 \<le> b" "b < NumAddressables (Graph st)"
  shows "run_block NDEBUG b st = Inr st"
  unfolding run_block_def
proof (rule run_edges_unchanged)
  fix i assume "i \<in> set [0..<length (Edges (Addressables (Graph st) b))]"
  then have i: "i < length (Edges (Addressables (Graph st) b))" by simp
  then have "Edges (Addressables (Graph st) b) ! i \<in> set (Edges (Addressables (Graph st) b))"
    by simp
  from new_block_kinds [OF inv _ this] b i
  show "i < length (Edges (Addressables (Graph st) b))
      \<and> \<not> isGOTEdge (Edges (Addressables (Graph st) b) ! i)
      \<and> getKind (Edges (Addressables (Graph st) b) ! i) \<noteq> Branch26"
    by (auto simp: isGOTEdge_def)
qed

subsection \<open>The pass on the example graph\<close>

lemma builder_example_wf: "wf_graph builder_example"
  by (simp add: wf_graph_def builder_example_def less_Suc_eq numeral_2_eq_2)

lemma builder_example_asserted: "branch_addends_asserted False builder_example"
  by (simp add: branch_addends_asserted_def builder_example_def isDefined_def)

lemmas builder_eval =
  run_def run_block_def run_edge_def MachO_arm64_GOTAndStubsBuilder_def
  isGOTEdge_def isExternalBranchEdge_def isDefined_def
  getGOTEntrySymbol_def createGOTEntry_def getGOTSection_def
  getStubSymbol_def createStub_def getStubsSection_def
  createSection_def createContentBlock_def addEdge_def addAnonymousSymbol_def
  fixGOTEdge_def fixExternalBranchEdge_def assert_def setEdge_def and_then_def Let_def

lemma upt_0_5: "[0..<5] = [0, 1, 2, 3, 4]"
  by (simp add: upt_rec)

lemma builder_example_run:
  "case run False (MachO_arm64_GOTAndStubsBuilder builder_example) of
     Inl e \<Rightarrow> False
   | Inr st' \<Rightarrow>
       GOTEntries st' 1 = Some 2 \<and> GOTSection st' = Some 1
       \<and> Stubs st' 1 = Some 3 \<and> StubsSection st' = Some 2
       \<and> Sections (Graph st') =
           [(''__text'', {MF_READ, MF_EXEC}), (''$__GOT'', {MF_READ}),
            (''$__STUBS'', {MF_READ, MF_EXEC})]
       \<and> Blocks (Graph st') = [0, 2, 3]
       \<and> Addressables (Graph st') 2 = GOTEntryBlock 1 1
       \<and> Addressables (Graph st') 3 = StubBlock 2 2
       \<and> Symbols (Graph st') 2 = AnonymousSymbol 2 False
       \<and> Symbols (Graph st') 3 = AnonymousSymbol 3 True
       \<and> Edges (Addressables (Graph st') 0) =
           [\<lparr>getKind = GOTPage21, getOffset = 0, getTarget = 2, getAddend = 0\<rparr>,
            \<lparr>getKind = GOTPageOffset12, getOffset = 4, getTarget = 2, getAddend = 0\<rparr>,
            \<lparr>getKind = Delta32, getOffset = 8, getTarget = 2, getAddend = 0\<rparr>,
            \<lparr>getKind = Branch26, getOffset = 12, getTarget = 3, getAddend = 0\<rparr>,
            \<lparr>getKind = Branch26, getOffset = 16, getTarget = 0, getAddend = 0\<rparr>]"
  by (simp add: builder_eval builder_example_def upt_0_5 GOTEntryBlock_def StubBlock_def
      AnonymousSymbol_def NullGOTEntryContent_def StubContent_def)

section \<open>The GOT entries the pass makes\<close>

text \<open>
  C6. On a well-formed graph, where the pass's assertion on the addends of external
  branch edges holds (or assertions are compiled out), the pass returns, and then: the
  edges of every block of the graph it started from are the fixed ones, in place (a GOT
  edge goes to the GOT entry cached for its target, a GOTPage21 or GOTPageOffset12 edge
  keeps its kind, a PointerToGOT edge has the kind Delta32); for the target of every GOT
  edge of that graph the cache holds a GOT entry, which is an anonymous symbol of size 8
  at the start of a block of the graph in the section \<open>$__GOT\<close> (readable only), of eight
  zero bytes and alignment 8, with the single edge \<open>(Pointer64, offset 0, target, addend
  0)\<close>; this block is the only block of the graph in that section with an edge to the
  target; and no block of the graph has a PointerToGOT edge.
\<close>

theorem run_GOT_edges_fixed:
  assumes wf: "wf_graph G0" and asserted: "branch_addends_asserted NDEBUG G0"
  shows "\<exists>st'. run NDEBUG (MachO_arm64_GOTAndStubsBuilder G0) = Inr st'
     \<and> (\<forall>b \<in> set (Blocks G0).
          Edges (Addressables (Graph st') b)
            = map (fixed_edge G0 st') (Edges (Addressables G0 b))
          \<and> (\<forall>E \<in> set (Edges (Addressables G0 b)).
               getKind E = GOTPage21 \<or> getKind E = GOTPageOffset12
               \<or> getKind E = PointerToGOT \<longrightarrow>
               (\<exists>g gs. GOTEntries st' (getTarget E) = Some g \<and> GOTSection st' = Some gs
                  \<and> gs < length (Sections (Graph st'))
                  \<and> Sections (Graph st') ! gs = (''$__GOT'', {MF_READ})
                  \<and> is_GOT_entry (Graph st') gs (getTarget E) g
                  \<and> Content (Addressables (Graph st') (Base (Symbols (Graph st') g)))
                      = [0x00, 0x00, 0x00, 0x00, 0x00, 0x00, 0x00, 0x00]
                  \<and> (\<forall>b' \<in> set (Blocks (Graph st')).
                        Section (Addressables (Graph st') b') = gs
                        \<and> (\<exists>E' \<in> set (Edges (Addressables (Graph st') b')).
                              getTarget E' = getTarget E)
                        \<longrightarrow> b' = Base (Symbols (Graph st') g)))))
     \<and> (\<forall>b \<in> set (Blocks (Graph st')). \<forall>E \<in> set (Edges (Addressables (Graph st') b)).
          getKind E \<noteq> PointerToGOT)"
proof -
  from run_scan [OF wf asserted]
  obtain st' where run: "run NDEBUG (MachO_arm64_GOTAndStubsBuilder G0) = Inr st'"
    and inv: "builder_inv G0 st'"
    and edges: "\<And>b. b \<in> set (Blocks G0) \<Longrightarrow>
          Edges (Addressables (Graph st') b)
            = map (fixed_edge G0 st') (Edges (Addressables G0 b))"
    and dn: "\<And>b. b \<in> set (Blocks G0) \<Longrightarrow>
          list_all (edge_done G0 st') (Edges (Addressables G0 b))"
    by blast
  have entry: "\<exists>g gs. GOTEntries st' (getTarget E) = Some g \<and> GOTSection st' = Some gs
                  \<and> gs < length (Sections (Graph st'))
                  \<and> Sections (Graph st') ! gs = (''$__GOT'', {MF_READ})
                  \<and> is_GOT_entry (Graph st') gs (getTarget E) g
                  \<and> Content (Addressables (Graph st') (Base (Symbols (Graph st') g)))
                      = [0x00, 0x00, 0x00, 0x00, 0x00, 0x00, 0x00, 0x00]
                  \<and> (\<forall>b' \<in> set (Blocks (Graph st')).
                        Section (Addressables (Graph st') b') = gs
                        \<and> (\<exists>E' \<in> set (Edges (Addressables (Graph st') b')).
                              getTarget E' = getTarget E)
                        \<longrightarrow> b' = Base (Symbols (Graph st') g))"
    if b: "b \<in> set (Blocks G0)" and E: "E \<in> set (Edges (Addressables G0 b))"
      "getKind E = GOTPage21 \<or> getKind E = GOTPageOffset12 \<or> getKind E = PointerToGOT"
    for b E
  proof -
    from dn [OF b] E have "edge_done G0 st' E" by (simp add: list_all_iff)
    with E(2) obtain g where g: "GOTEntries st' (getTarget E) = Some g"
      by (auto simp: edge_done_def)
    from cached_GOT_entry [OF wf inv g]
    obtain gs where gs: "GOTSection st' = Some gs" "gs < length (Sections (Graph st'))"
      "Sections (Graph st') ! gs = (''$__GOT'', {MF_READ})"
      "is_GOT_entry (Graph st') gs (getTarget E) g"
      "\<forall>b' \<in> set (Blocks (Graph st')).
          Section (Addressables (Graph st') b') = gs
          \<and> (\<exists>E' \<in> set (Edges (Addressables (Graph st') b')). getTarget E' = getTarget E)
          \<longrightarrow> b' = Base (Symbols (Graph st') g)"
      by blast
    from gs(4) have "Content (Addressables (Graph st') (Base (Symbols (Graph st') g)))
        = [0x00, 0x00, 0x00, 0x00, 0x00, 0x00, 0x00, 0x00]"
      by (simp add: is_GOT_entry_def GOTEntryBlock_def NullGOTEntryContent_def)
    with g gs show ?thesis by blast
  qed
  have none: "getKind E \<noteq> PointerToGOT"
    if b: "b \<in> set (Blocks (Graph st'))" and E: "E \<in> set (Edges (Addressables (Graph st') b))"
    for b E
  proof -
    from blocks_old_or_new [OF wf inv b]
    show ?thesis
    proof
      assume "b \<in> set (Blocks G0)"
      from edges [OF this] E show ?thesis
        by (auto simp: fixed_edge_not_PointerToGOT)
    next
      assume "NumAddressables G0 \<le> b \<and> b < NumAddressables (Graph st')"
      from new_block_kinds [OF inv this E] show ?thesis by auto
    qed
  qed
  from run edges entry none show ?thesis by blast
qed

text \<open>
  On the example graph, in a build with assertions: the three GOT edges to \<open>_bar\<close> go to
  the one GOT entry made (the symbol 2, on the block 2, in the section 1), the
  PointerToGOT edge as a Delta32 edge, and the graph has three blocks after the pass:
  the one it had, the GOT entry and the stub.
\<close>

theorem run_GOT_edges_fixed_witness:
  "wf_graph builder_example \<and> branch_addends_asserted False builder_example
   \<and> (\<exists>st'. run False (MachO_arm64_GOTAndStubsBuilder builder_example) = Inr st'
        \<and> GOTEntries st' 1 = Some 2 \<and> GOTSection st' = Some 1
        \<and> Sections (Graph st') ! 1 = (''$__GOT'', {MF_READ})
        \<and> is_GOT_entry (Graph st') 1 1 2
        \<and> Blocks (Graph st') = [0, 2, 3]
        \<and> take 3 (Edges (Addressables (Graph st') 0)) =
            [\<lparr>getKind = GOTPage21, getOffset = 0, getTarget = 2, getAddend = 0\<rparr>,
             \<lparr>getKind = GOTPageOffset12, getOffset = 4, getTarget = 2, getAddend = 0\<rparr>,
             \<lparr>getKind = Delta32, getOffset = 8, getTarget = 2, getAddend = 0\<rparr>])"
proof -
  from run_GOT_edges_fixed [OF builder_example_wf builder_example_asserted]
  obtain st' where run: "run False (MachO_arm64_GOTAndStubsBuilder builder_example) = Inr st'"
    and fixed: "\<forall>b \<in> set (Blocks builder_example).
          Edges (Addressables (Graph st') b)
            = map (fixed_edge builder_example st') (Edges (Addressables builder_example b))"
    by blast
  from builder_example_run run
  have ev: "GOTEntries st' 1 = Some 2" "GOTSection st' = Some 1"
    "Sections (Graph st') ! 1 = (''$__GOT'', {MF_READ})"
    "Blocks (Graph st') = [0, 2, 3]"
    "Addressables (Graph st') 2 = GOTEntryBlock 1 1"
    "Symbols (Graph st') 2 = AnonymousSymbol 2 False"
    by simp_all
  have entry: "is_GOT_entry (Graph st') 1 1 2"
    using ev by (simp add: is_GOT_entry_def AnonymousSymbol_def)
  from fixed ev(1)
  have "take 3 (Edges (Addressables (Graph st') 0)) =
      [\<lparr>getKind = GOTPage21, getOffset = 0, getTarget = 2, getAddend = 0\<rparr>,
       \<lparr>getKind = GOTPageOffset12, getOffset = 4, getTarget = 2, getAddend = 0\<rparr>,
       \<lparr>getKind = Delta32, getOffset = 8, getTarget = 2, getAddend = 0\<rparr>]"
    by (simp add: builder_example_def fixed_edge_def isGOTEdge_def)
  with builder_example_wf builder_example_asserted run ev entry show ?thesis by blast
qed

section \<open>The stubs the pass makes\<close>

text \<open>
  C7. On a well-formed graph, where the pass's assertion on the addends of external
  branch edges holds (or assertions are compiled out), the pass returns, and then: the
  edges of every block of the graph it started from are the fixed ones, in place (a
  Branch26 edge whose target was not defined goes to the stub cached for its target);
  for the target of every such edge the cache holds a stub, which is an anonymous
  callable symbol of size 8 at the start of a block of the graph in the section
  \<open>$__STUBS\<close> (readable and executable), whose content is the bytes
  \<open>10 00 00 58 00 02 1f d6\<close> and whose single edge is \<open>(LDRLiteral19, offset 0, GOT entry,
  addend 0)\<close> to the GOT entry cached for the same target, itself the only block of the
  section \<open>$__GOT\<close> with an edge to the target; and every Branch26 edge of every block of
  the graph has a defined target.
\<close>

theorem run_external_branches_fixed:
  assumes wf: "wf_graph G0" and asserted: "branch_addends_asserted NDEBUG G0"
  shows "\<exists>st'. run NDEBUG (MachO_arm64_GOTAndStubsBuilder G0) = Inr st'
     \<and> (\<forall>b \<in> set (Blocks G0).
          Edges (Addressables (Graph st') b)
            = map (fixed_edge G0 st') (Edges (Addressables G0 b))
          \<and> (\<forall>E \<in> set (Edges (Addressables G0 b)).
               getKind E = Branch26 \<and> \<not> isDefined G0 (getTarget E) \<longrightarrow>
               (\<exists>s ss g gs. Stubs st' (getTarget E) = Some s \<and> StubsSection st' = Some ss
                  \<and> ss < length (Sections (Graph st'))
                  \<and> Sections (Graph st') ! ss = (''$__STUBS'', {MF_READ, MF_EXEC})
                  \<and> is_stub (Graph st') ss g s
                  \<and> Content (Addressables (Graph st') (Base (Symbols (Graph st') s)))
                      = [0x10, 0x00, 0x00, 0x58, 0x00, 0x02, 0x1f, 0xd6]
                  \<and> GOTEntries st' (getTarget E) = Some g \<and> GOTSection st' = Some gs
                  \<and> Sections (Graph st') ! gs = (''$__GOT'', {MF_READ})
                  \<and> is_GOT_entry (Graph st') gs (getTarget E) g
                  \<and> (\<forall>b' \<in> set (Blocks (Graph st')).
                        Section (Addressables (Graph st') b') = gs
                        \<and> (\<exists>E' \<in> set (Edges (Addressables (Graph st') b')).
                              getTarget E' = getTarget E)
                        \<longrightarrow> b' = Base (Symbols (Graph st') g)))))
     \<and> (\<forall>b \<in> set (Blocks (Graph st')). \<forall>E \<in> set (Edges (Addressables (Graph st') b)).
          getKind E = Branch26 \<longrightarrow> isDefined (Graph st') (getTarget E))"
proof -
  from run_scan [OF wf asserted]
  obtain st' where run: "run NDEBUG (MachO_arm64_GOTAndStubsBuilder G0) = Inr st'"
    and inv: "builder_inv G0 st'"
    and edges: "\<And>b. b \<in> set (Blocks G0) \<Longrightarrow>
          Edges (Addressables (Graph st') b)
            = map (fixed_edge G0 st') (Edges (Addressables G0 b))"
    and dn: "\<And>b. b \<in> set (Blocks G0) \<Longrightarrow>
          list_all (edge_done G0 st') (Edges (Addressables G0 b))"
    by blast
  have stub_defined: "isDefined (Graph st') s \<and>
      Content (Addressables (Graph st') (Base (Symbols (Graph st') s)))
        = [0x10, 0x00, 0x00, 0x58, 0x00, 0x02, 0x1f, 0xd6]"
    if "is_stub (Graph st') ss g s" for ss g s
    using that by (simp add: is_stub_def isDefined_def StubBlock_def StubContent_def)
  have stub: "\<exists>s ss g gs. Stubs st' (getTarget E) = Some s \<and> StubsSection st' = Some ss
                  \<and> ss < length (Sections (Graph st'))
                  \<and> Sections (Graph st') ! ss = (''$__STUBS'', {MF_READ, MF_EXEC})
                  \<and> is_stub (Graph st') ss g s
                  \<and> Content (Addressables (Graph st') (Base (Symbols (Graph st') s)))
                      = [0x10, 0x00, 0x00, 0x58, 0x00, 0x02, 0x1f, 0xd6]
                  \<and> GOTEntries st' (getTarget E) = Some g \<and> GOTSection st' = Some gs
                  \<and> Sections (Graph st') ! gs = (''$__GOT'', {MF_READ})
                  \<and> is_GOT_entry (Graph st') gs (getTarget E) g
                  \<and> (\<forall>b' \<in> set (Blocks (Graph st')).
                        Section (Addressables (Graph st') b') = gs
                        \<and> (\<exists>E' \<in> set (Edges (Addressables (Graph st') b')).
                              getTarget E' = getTarget E)
                        \<longrightarrow> b' = Base (Symbols (Graph st') g))"
    if b: "b \<in> set (Blocks G0)" and E: "E \<in> set (Edges (Addressables G0 b))"
      "getKind E = Branch26 \<and> \<not> isDefined G0 (getTarget E)"
    for b E
  proof -
    from dn [OF b] E have "edge_done G0 st' E" by (simp add: list_all_iff)
    with E(2) obtain s where s: "Stubs st' (getTarget E) = Some s"
      by (auto simp: edge_done_def)
    from builder_invD(5) [OF inv s]
    obtain ss g where c: "StubsSection st' = Some ss" "GOTEntries st' (getTarget E) = Some g"
      "is_stub (Graph st') ss g s"
      by blast
    from s c builder_invD(3) [OF inv c(1)] cached_GOT_entry [OF wf inv c(2)]
      stub_defined [OF c(3)]
    show ?thesis by blast
  qed
  have defined: "isDefined (Graph st') (getTarget E)"
    if b: "b \<in> set (Blocks (Graph st'))" and E: "E \<in> set (Edges (Addressables (Graph st') b))"
      and k: "getKind E = Branch26"
    for b E
  proof -
    from blocks_old_or_new [OF wf inv b]
    show ?thesis
    proof
      assume old: "b \<in> set (Blocks G0)"
      from edges [OF old] E
      obtain E0 where E0: "E0 \<in> set (Edges (Addressables G0 b))" "E = fixed_edge G0 st' E0"
        by auto
      from dn [OF old] E0(1) have d: "edge_done G0 st' E0" by (simp add: list_all_iff)
      have tgt: "getTarget E0 < NumSymbols G0"
        using wf old E0(1) by (simp add: wf_graph_def)
      show ?thesis
      proof (cases "isGOTEdge E0")
        case True
        with k E0(2) show ?thesis by (auto simp: fixed_edge_eq isGOTEdge_def)
      next
        case False
        show ?thesis
        proof (cases "isExternalBranchEdge G0 E0")
          case True
          with d False obtain s where s: "Stubs st' (getTarget E0) = Some s"
            by (auto simp: edge_done_eq)
          from builder_invD(5) [OF inv s] obtain ss g where "is_stub (Graph st') ss g s"
            by blast
          from stub_defined [OF this] s False True E0(2) show ?thesis
            by (simp add: fixed_edge_eq)
        next
          case nb: False
          with False E0(2) have same: "E = E0" by (simp add: fixed_edge_eq)
          with k nb have "isDefined G0 (getTarget E0)"
            by (simp add: isExternalBranchEdge_def)
          with isDefined_kept [OF wf inv tgt] same show ?thesis by simp
        qed
      qed
    next
      assume "NumAddressables G0 \<le> b \<and> b < NumAddressables (Graph st')"
      from new_block_kinds [OF inv this E] k show ?thesis by auto
    qed
  qed
  from run edges stub defined show ?thesis by blast
qed

text \<open>
  On the example graph, in a build with assertions: the Branch26 edge to the external
  \<open>_bar\<close> goes to the stub made (the symbol 3, on the block 3, in the section 2), whose
  edge goes to the GOT entry that the GOT edges to \<open>_bar\<close> use (the symbol 2); the Branch26
  edge to \<open>_main\<close> stays.
\<close>

theorem run_external_branches_fixed_witness:
  "wf_graph builder_example \<and> branch_addends_asserted False builder_example
   \<and> (\<exists>st'. run False (MachO_arm64_GOTAndStubsBuilder builder_example) = Inr st'
        \<and> Stubs st' 1 = Some 3 \<and> StubsSection st' = Some 2
        \<and> Sections (Graph st') ! 2 = (''$__STUBS'', {MF_READ, MF_EXEC})
        \<and> is_stub (Graph st') 2 2 3
        \<and> GOTEntries st' 1 = Some 2
        \<and> drop 3 (Edges (Addressables (Graph st') 0)) =
            [\<lparr>getKind = Branch26, getOffset = 12, getTarget = 3, getAddend = 0\<rparr>,
             \<lparr>getKind = Branch26, getOffset = 16, getTarget = 0, getAddend = 0\<rparr>]
        \<and> isDefined (Graph st') 3 \<and> isDefined (Graph st') 0)"
proof -
  from run_external_branches_fixed [OF builder_example_wf builder_example_asserted]
  obtain st' where run: "run False (MachO_arm64_GOTAndStubsBuilder builder_example) = Inr st'"
    and fixed: "\<forall>b \<in> set (Blocks builder_example).
          Edges (Addressables (Graph st') b)
            = map (fixed_edge builder_example st') (Edges (Addressables builder_example b))"
    and defined: "\<forall>b \<in> set (Blocks (Graph st')).
          \<forall>E \<in> set (Edges (Addressables (Graph st') b)).
            getKind E = Branch26 \<longrightarrow> isDefined (Graph st') (getTarget E)"
    by blast
  from builder_example_run run
  have ev: "Stubs st' 1 = Some 3" "StubsSection st' = Some 2"
    "Sections (Graph st') ! 2 = (''$__STUBS'', {MF_READ, MF_EXEC})"
    "GOTEntries st' 1 = Some 2"
    "Blocks (Graph st') = [0, 2, 3]"
    "Addressables (Graph st') 3 = StubBlock 2 2"
    "Symbols (Graph st') 3 = AnonymousSymbol 3 True"
    by simp_all
  have stub: "is_stub (Graph st') 2 2 3"
    using ev by (simp add: is_stub_def AnonymousSymbol_def)
  from fixed ev(1)
  have edges: "drop 3 (Edges (Addressables (Graph st') 0)) =
      [\<lparr>getKind = Branch26, getOffset = 12, getTarget = 3, getAddend = 0\<rparr>,
       \<lparr>getKind = Branch26, getOffset = 16, getTarget = 0, getAddend = 0\<rparr>]"
    by (simp add: builder_example_def fixed_edge_def isGOTEdge_def isExternalBranchEdge_def
        isDefined_def)
  have "\<forall>E \<in> set (drop 3 (Edges (Addressables (Graph st') 0))).
      getKind E = Branch26 \<longrightarrow> isDefined (Graph st') (getTarget E)"
    using defined ev(5) by (auto dest: in_set_dropD)
  then have "isDefined (Graph st') 3 \<and> isDefined (Graph st') 0"
    unfolding edges by simp
  with builder_example_wf builder_example_asserted run ev stub edges show ?thesis by blast
qed

end
